theory Spec2Isabelle
  imports Complex_Main
begin

section \<open>Python values\<close>

text \<open>
  Prices, volumes and confidence scores are Python floats or Decimals in the source. A
  number is modelled by the rational it denotes (a Decimal exactly, a float by its exact
  value), so comparisons are exact.
  A dictionary lookup \<^verbatim>\<open>d.get(k)\<close> is an \<open>option\<close>: \<open>None\<close> stands for a missing key and
  for a stored null alike, which \<^verbatim>\<open>get\<close> does not tell apart.
\<close>

definition truthy_str :: "string option \<Rightarrow> bool" where
  "truthy_str s = (case s of None \<Rightarrow> False | Some v \<Rightarrow> v \<noteq> [])"

definition truthy_num :: "rat option \<Rightarrow> bool" where
  "truthy_num x = (case x of None \<Rightarrow> False | Some v \<Rightarrow> v \<noteq> 0)"

definition lower_char :: "char \<Rightarrow> char" where
  "lower_char c =
     (let n = (of_char c :: nat) in if 65 \<le> n \<and> n \<le> 90 then char_of (n + 32) else c)"

definition upper_char :: "char \<Rightarrow> char" where
  "upper_char c =
     (let n = (of_char c :: nat) in if 97 \<le> n \<and> n \<le> 122 then char_of (n - 32) else c)"

definition lower :: "string \<Rightarrow> string" where
  "lower s = map lower_char s"

definition upper :: "string \<Rightarrow> string" where
  "upper s = map upper_char s"

fun digit_char :: "nat \<Rightarrow> char" where
  "digit_char n = char_of (48 + n mod 10)"

fun str_nat :: "nat \<Rightarrow> string" where
  "str_nat n = (if n < 10 then [digit_char n] else str_nat (n div 10) @ [digit_char n])"

declare str_nat.simps [simp del]

text \<open>A text between single quotes, as Python's messages show the names of types.\<close>

definition quoted :: "string \<Rightarrow> string" where
  "quoted s = [CHR 0x27] @ s @ [CHR 0x27]"

text \<open>
  Where the code computes with floats (the volume split, the slippage test, the confidence
  score), the model rounds as IEEE 754 binary64 does: \<open>to_float x\<close> is the double nearest to
  \<open>x\<close>, ties to the even mantissa, with gradual underflow. It is \<^verbatim>\<open>float(x)\<close> for a Decimal
  or a literal \<open>x\<close> and leaves a double as it is; an operation on doubles is the exact
  operation followed by \<open>to_float\<close>. Overflow to infinity is not modelled: \<open>double_range\<close>
  holds for the numbers that round to a finite double.
\<close>

definition pow2 :: "int \<Rightarrow> rat" where
  "pow2 e = (if 0 \<le> e then 2 ^ nat e else 1 / 2 ^ nat (- e))"

text \<open>The binary exponent of \<open>a > 0\<close>: \<open>find_exponent n a 0\<close> is the \<open>e\<close> with
  \<open>2 ^ e \<le> a < 2 ^ (e + 1)\<close>, when \<open>n\<close> steps reach it.\<close>

fun find_exponent :: "nat \<Rightarrow> rat \<Rightarrow> int \<Rightarrow> int" where
  "find_exponent 0 a e = e"
| "find_exponent (Suc n) a e =
     (if 2 \<le> a then find_exponent n (a / 2) (e + 1)
      else if a < 1 then find_exponent n (a * 2) (e - 1)
      else e)"

definition round_half_even :: "rat \<Rightarrow> int" where
  "round_half_even y =
     (let f = \<lfloor>y\<rfloor>; d = y - of_int f
      in if d < 1 / 2 then f else if 1 / 2 < d then f + 1 else if even f then f else f + 1)"

definition to_float :: "rat \<Rightarrow> rat" where
  "to_float x =
     (if x = 0 then 0
      else
        let a = \<bar>x\<bar>;
            s = max (find_exponent 1100 a 0 - 52) (- 1074)
        in sgn x * of_int (round_half_even (a / pow2 s)) * pow2 s)"

definition double_range :: "rat \<Rightarrow> bool" where
  "double_range x = (\<bar>x\<bar> < 2 ^ 1024 - 2 ^ 970)"

definition float_add :: "rat \<Rightarrow> rat \<Rightarrow> rat" where
  "float_add a b = to_float (a + b)"

definition float_sub :: "rat \<Rightarrow> rat \<Rightarrow> rat" where
  "float_sub a b = to_float (a - b)"

definition float_mul :: "rat \<Rightarrow> rat \<Rightarrow> rat" where
  "float_mul a b = to_float (a * b)"

definition float_div :: "rat \<Rightarrow> rat \<Rightarrow> rat" where
  "float_div a b = to_float (a / b)"

section \<open>The parsed signal and its validation (execution_state_manager.py)\<close>

datatype ExecutionState =
  PENDING | PENDING_APPROVAL | VALIDATED | EXECUTING | EXECUTED | FAILED | CANCELLED | CLOSED

text \<open>
  \<^verbatim>\<open>parsed_signal.get("confidence_score", 0)\<close> is the one lookup with a default that is
  compared afterwards: a missing key reads as 0, a stored null raises TypeError at \<open><\<close>,
  with the text \<open>type_error_text\<close>.
\<close>

datatype conf_entry = Conf_absent | Conf_null | Conf rat

record parsed_signal =
  ps_symbol :: "string option"
  ps_signal_type :: "string option"
  ps_entry_price :: "rat option"
  ps_entry_range :: "rat list"
  ps_stop_loss :: "rat option"
  ps_take_profit :: "rat option"
  ps_take_profits :: "rat list"
  ps_confidence_score :: conf_entry

text \<open>The lines \<^verbatim>\<open>logger.warning\<close> writes in \<^verbatim>\<open>_validate_signal\<close>; the two
  price-level lines are the ones whose text reads "... invalid price levels ...".\<close>

datatype warning =
    Signal_missing_symbol
  | Signal_missing_signal_type
  | Low_confidence_signal rat
  | Buy_invalid_price_levels rat rat rat
  | Sell_invalid_price_levels rat rat rat

definition type_error_text :: string where
  "type_error_text =
     quoted ''<'' @ '' not supported between instances of '' @ quoted ''NoneType'' @ '' and ''
     @ quoted ''float''"

text \<open>Lines 390-393: the confidence threshold. \<open>Inr True\<close> is "the check passes".\<close>

definition check_confidence :: "conf_entry \<Rightarrow> string + bool" where
  "check_confidence c =
     (case c of
        Conf_null \<Rightarrow> Inl type_error_text
      | Conf_absent \<Rightarrow> Inr (\<not> ((0::rat) < 1 / 2))
      | Conf v \<Rightarrow> Inr (\<not> (v < 1 / 2)))"

definition conf_shown :: "conf_entry \<Rightarrow> rat" where
  "conf_shown c = (case c of Conf v \<Rightarrow> v | _ \<Rightarrow> 0)"

text \<open>Lines 395-412: the price-consistency check, entered only when entry, SL and TP are
  all truthy (neither null nor zero).\<close>

definition check_price_levels :: "parsed_signal \<Rightarrow> bool \<times> warning list" where
  "check_price_levels ps =
     (case (ps_entry_price ps, ps_stop_loss ps, ps_take_profit ps) of
        (Some entry, Some sl, Some tp) \<Rightarrow>
          if entry \<noteq> 0 \<and> sl \<noteq> 0 \<and> tp \<noteq> 0 then
            (if ps_signal_type ps = Some ''buy'' then
               (if \<not> (sl < entry \<and> entry < tp)
                then (False, [Buy_invalid_price_levels sl entry tp]) else (True, []))
             else if ps_signal_type ps = Some ''sell'' then
               (if \<not> (tp < entry \<and> entry < sl)
                then (False, [Sell_invalid_price_levels tp entry sl]) else (True, []))
             else (True, []))
          else (True, [])
      | _ \<Rightarrow> (True, []))"

text \<open>\<^verbatim>\<open>_validate_signal\<close>: the verdict and the warnings logged, or the exception raised.\<close>

definition validate_signal :: "parsed_signal \<Rightarrow> string + (bool \<times> warning list)" where
  "validate_signal ps =
     (if \<not> truthy_str (ps_symbol ps) then Inr (False, [Signal_missing_symbol])
      else if \<not> truthy_str (ps_signal_type ps) then Inr (False, [Signal_missing_signal_type])
      else (case check_confidence (ps_confidence_score ps) of
              Inl e \<Rightarrow> Inl e
            | Inr False \<Rightarrow>
                Inr (False, [Low_confidence_signal (conf_shown (ps_confidence_score ps))])
            | Inr True \<Rightarrow> Inr (check_price_levels ps)))"

section \<open>The broker adapter (mt5_executor.py) over the MetaTrader5 terminal\<close>

datatype mt5_order_type =
  ORDER_TYPE_BUY | ORDER_TYPE_SELL | ORDER_TYPE_BUY_LIMIT | ORDER_TYPE_SELL_LIMIT

datatype mt5_trade_action = TRADE_ACTION_DEAL | TRADE_ACTION_PENDING

datatype mt5_filling = ORDER_FILLING_FOK | ORDER_FILLING_IOC | ORDER_FILLING_RETURN

datatype order_comment = Comment_signal nat | Comment_fallback nat

record mt5_request =
  rq_action :: mt5_trade_action
  rq_symbol :: string
  rq_volume :: rat
  rq_type :: mt5_order_type
  rq_price :: "rat option"
  rq_comment :: order_comment
  rq_type_filling :: mt5_filling
  rq_sl :: "rat option"
  rq_tp :: "rat option"

record mt5_send_result =
  sr_retcode :: nat
  sr_comment :: string
  sr_order :: int

record mt5_symbol_info =
  si_ask :: rat
  si_bid :: rat
  si_point :: rat
  si_digits :: nat
  si_filling_mode :: nat

record mt5_tick =
  tk_bid :: rat
  tk_ask :: rat

record mt5_position =
  mp_ticket :: int
  mp_profit :: rat
  mp_price_current :: rat

record mt5_deal =
  md_ticket :: int
  md_entry :: nat
  md_price :: rat
  md_profit :: rat
  md_time :: nat

text \<open>
  The MetaTrader5 library is not code of this repository: the terminal is a record of
  its answers. \<open>None\<close> is the library's \<^verbatim>\<open>None\<close>.
\<close>

record mt5_terminal =
  t_login :: "int \<Rightarrow> string \<Rightarrow> string \<Rightarrow> bool"
  t_symbol_info :: "string \<Rightarrow> mt5_symbol_info option"
  t_symbol_info_tick :: "string \<Rightarrow> mt5_tick option"
  t_order_send :: "mt5_request \<Rightarrow> mt5_send_result option"
  t_positions_get :: "mt5_position list option"
  t_history_deals_get :: "int \<Rightarrow> mt5_deal list option"
  t_last_error :: string

definition TRADE_RETCODE_DONE :: nat where
  "TRADE_RETCODE_DONE = 10009"

definition DEAL_ENTRY_OUT :: nat where
  "DEAL_ENTRY_OUT = 1"

text \<open>The dictionaries the two order methods return; a key that a dictionary does not
  have reads as \<open>None\<close>.\<close>

record order_result =
  or_success :: bool
  or_error :: "string option"
  or_ticket :: "int option"
  or_entry_price :: "rat option"
  or_price :: "rat option"
  or_retcode :: "nat option"

definition order_failure :: "string \<Rightarrow> nat option \<Rightarrow> order_result" where
  "order_failure msg rc =
     \<lparr>or_success = False, or_error = Some msg, or_ticket = None, or_entry_price = None,
      or_price = None, or_retcode = rc\<rparr>"

definition keep_truthy :: "rat option \<Rightarrow> rat option" where
  "keep_truthy x = (if truthy_num x then x else None)"

definition comment_or_code :: "mt5_send_result \<Rightarrow> string" where
  "comment_or_code r =
     (if sr_comment r \<noteq> [] then sr_comment r else ''Error code '' @ str_nat (sr_retcode r))"

definition connect :: "mt5_terminal \<Rightarrow> int \<Rightarrow> string \<Rightarrow> string \<Rightarrow> bool \<Rightarrow> bool \<times> bool" where
  "connect term login password server is_connected =
     (if t_login term login password server then (True, True) else (False, is_connected))"

definition execute_market_order ::
  "mt5_terminal \<Rightarrow> bool \<Rightarrow> string \<Rightarrow> string \<Rightarrow> rat \<Rightarrow> rat option \<Rightarrow> rat option \<Rightarrow>
   order_comment \<Rightarrow> order_result" where
  "execute_market_order term is_connected symbol side volume stop_loss take_profit comment =
     (if \<not> is_connected then order_failure ''Not connected to MT5'' None
      else if lower side \<noteq> ''buy'' \<and> lower side \<noteq> ''sell''
        then order_failure ''Invalid side (must be 'buy' or 'sell')'' None
      else (case t_symbol_info term symbol of
          None \<Rightarrow> order_failure (''Symbol '' @ symbol @ '' not found'') None
        | Some symbol_info \<Rightarrow>
            let order_type = (if lower side = ''buy'' then ORDER_TYPE_BUY else ORDER_TYPE_SELL);
                current_price =
                  (if lower side = ''buy'' then si_ask symbol_info else si_bid symbol_info);
                filling_mode = si_filling_mode symbol_info;
                filling_type =
                  (if filling_mode mod 2 = 1 then ORDER_FILLING_FOK
                   else if (filling_mode div 2) mod 2 = 1 then ORDER_FILLING_IOC
                   else ORDER_FILLING_RETURN);
                request =
                  \<lparr>rq_action = TRADE_ACTION_DEAL, rq_symbol = symbol, rq_volume = volume,
                   rq_type = order_type, rq_price = None, rq_comment = comment,
                   rq_type_filling = filling_type, rq_sl = keep_truthy stop_loss,
                   rq_tp = keep_truthy take_profit\<rparr>
            in (case t_order_send term request of
                  None \<Rightarrow>
                    order_failure
                      (''Order send failed (result is None). Last error: '' @ t_last_error term)
                      None
                | Some result \<Rightarrow>
                    if sr_retcode result \<noteq> TRADE_RETCODE_DONE
                    then order_failure (comment_or_code result) (Some (sr_retcode result))
                    else \<lparr>or_success = True, or_error = None,
                          or_ticket = Some (sr_order result),
                          or_entry_price = Some current_price, or_price = None,
                          or_retcode = None\<rparr>)))"

definition execute_limit_order ::
  "mt5_terminal \<Rightarrow> bool \<Rightarrow> string \<Rightarrow> string \<Rightarrow> rat \<Rightarrow> rat \<Rightarrow> rat option \<Rightarrow> rat option \<Rightarrow>
   order_comment \<Rightarrow> order_result" where
  "execute_limit_order term is_connected symbol side price volume stop_loss take_profit comment =
     (if \<not> is_connected then order_failure ''Not connected to MT5'' None
      else if lower side \<noteq> ''buy'' \<and> lower side \<noteq> ''sell''
        then order_failure ''Invalid side'' None
      else
        let order_type =
              (if lower side = ''buy'' then ORDER_TYPE_BUY_LIMIT else ORDER_TYPE_SELL_LIMIT);
            request =
              \<lparr>rq_action = TRADE_ACTION_PENDING, rq_symbol = symbol, rq_volume = volume,
               rq_type = order_type, rq_price = Some price, rq_comment = comment,
               rq_type_filling = ORDER_FILLING_RETURN, rq_sl = keep_truthy stop_loss,
               rq_tp = keep_truthy take_profit\<rparr>
        in (case t_order_send term request of
              None \<Rightarrow>
                order_failure
                  (''Limit order failed (result is None). Last error: '' @ t_last_error term)
                  None
            | Some result \<Rightarrow>
                if sr_retcode result \<noteq> TRADE_RETCODE_DONE
                then order_failure (comment_or_code result) (Some (sr_retcode result))
                else \<lparr>or_success = True, or_error = None,
                      or_ticket = Some (sr_order result),
                      or_entry_price = None, or_price = Some price,
                      or_retcode = None\<rparr>))"

record price_info =
  pi_bid :: rat
  pi_ask :: rat
  pi_point :: rat
  pi_digits :: nat

definition get_current_price :: "mt5_terminal \<Rightarrow> bool \<Rightarrow> string \<Rightarrow> price_info option" where
  "get_current_price term is_connected symbol =
     (if \<not> is_connected then None
      else (case t_symbol_info term symbol of
          None \<Rightarrow> None
        | Some symbol_info \<Rightarrow>
            (case t_symbol_info_tick term symbol of
               None \<Rightarrow> None
             | Some tick \<Rightarrow>
                 Some \<lparr>pi_bid = tk_bid tick, pi_ask = tk_ask tick,
                       pi_point = si_point symbol_info, pi_digits = si_digits symbol_info\<rparr>)))"

section \<open>The persistent store, the notification trace and the collaborators\<close>

record execution =
  ex_id :: nat
  ex_user_id :: nat
  ex_signal_id :: nat
  ex_broker_config_id :: nat
  ex_symbol :: string
  ex_side :: string
  ex_volume :: rat
  ex_entry_price :: "rat option"
  ex_stop_loss :: "rat option"
  ex_take_profit :: "rat option"
  ex_execution_status :: ExecutionState
  ex_ticket_number :: "int option"
  ex_actual_entry_price :: "rat option"
  ex_close_price :: "rat option"
  ex_close_time :: "nat option"
  ex_profit_loss :: "rat option"
  ex_execution_error :: "string option"

record signal_row =
  sg_user_id :: nat
  sg_status :: string

record user_prefs =
  up_manual_approval :: bool
  up_risk_per_trade :: "rat option"
  up_max_slippage :: rat
  up_use_limit_orders :: bool

record broker_config =
  bc_login :: int
  bc_server :: string

text \<open>The events handed to \<^verbatim>\<open>manager.broadcast\<close>, each with the fields the claims read.\<close>

datatype ws_event =
    Signal_approval_required nat nat
  | Execution_update nat string "int option"
  | Error_event nat string
  | Signal_update nat string
  | Position_update nat rat rat
  | Position_closed nat rat rat

text \<open>The methods of the broker adapter, as the engine and the synchronizer call them.\<close>

datatype executor_call =
    Call_connect int string
  | Call_get_current_price string
  | Call_market_order string string rat "rat option" "rat option" order_comment
  | Call_limit_order string string rat rat "rat option" "rat option" order_comment
  | Call_get_positions
  | Call_get_history_deals int

text \<open>One trace holds broadcasts and broker calls in the order they happen.\<close>

datatype action = Broadcast ws_event nat | Broker executor_call

record world =
  w_executions :: "execution list"
  w_signals :: "nat \<Rightarrow> signal_row option"
  w_trace :: "action list"
  w_connected :: bool
  w_sync_connected :: bool
  w_next_id :: nat

text \<open>What the engine reads and never writes: the terminal, the broker configurations, the
  stored MT5 password of a (user, broker) pair and the users' preferences.\<close>

record env =
  e_terminal :: mt5_terminal
  e_broker_configs :: "nat \<Rightarrow> broker_config option"
  e_mt5_password :: "nat \<Rightarrow> nat \<Rightarrow> string option"
  e_prefs :: "nat \<Rightarrow> user_prefs option"

definition emit :: "action \<Rightarrow> world \<Rightarrow> world" where
  "emit a w = w\<lparr>w_trace := w_trace w @ [a]\<rparr>"

text \<open>An attribute write on an ORM object: the row with that primary key is replaced.\<close>

definition put_execution :: "execution \<Rightarrow> world \<Rightarrow> world" where
  "put_execution ex w =
     w\<lparr>w_executions := map (\<lambda>e. if ex_id e = ex_id ex then ex else e) (w_executions w)\<rparr>"

definition find_execution :: "nat \<Rightarrow> world \<Rightarrow> execution option" where
  "find_execution i w = find (\<lambda>e. ex_id e = i) (w_executions w)"

section \<open>The execution engine (execution_state_manager.py)\<close>

definition resolved_states :: "ExecutionState list" where
  "resolved_states = [CANCELLED, FAILED, EXECUTED, CLOSED]"

text \<open>\<^verbatim>\<open>_update_signal_status\<close>, lines 586-621.\<close>

definition update_signal_status :: "nat \<Rightarrow> world \<Rightarrow> world" where
  "update_signal_status signal_id w =
     (case w_signals w signal_id of
        None \<Rightarrow> w
      | Some signal \<Rightarrow>
          let all_executions = filter (\<lambda>e. ex_signal_id e = signal_id) (w_executions w) in
          if all_executions = [] then w
          else if list_all (\<lambda>e. ex_execution_status e \<in> set resolved_states) all_executions then
            let status =
                  (if list_all (\<lambda>e. ex_execution_status e = CANCELLED) all_executions
                   then ''rejected'' else ''processed'');
                w1 = w\<lparr>w_signals := (w_signals w)(signal_id \<mapsto> signal\<lparr>sg_status := status\<rparr>)\<rparr>
            in emit (Broadcast (Signal_update signal_id status) (sg_user_id signal)) w1
          else w)"

text \<open>Lines 259-268: the slippage test of the branch without a range, in floats:
  \<^verbatim>\<open>abs(current_price - target_price) > float(max_slippage) * 10 * point\<close>, without the
  factor 10 unless the symbol has 3 or 5 digits.\<close>

definition slippage_exceeded :: "user_prefs \<Rightarrow> price_info \<Rightarrow> rat \<Rightarrow> rat \<Rightarrow> bool" where
  "slippage_exceeded up price_info current_price entry_price =
     (let target_price = to_float entry_price;
          point = to_float (pi_point price_info);
          price_diff = \<bar>float_sub (to_float current_price) target_price\<bar>;
          pips_to_price =
            (if pi_digits price_info = 3 \<or> pi_digits price_info = 5
             then float_mul (float_mul (to_float (up_max_slippage up)) 10) point
             else float_mul (to_float (up_max_slippage up)) point)
      in pips_to_price < price_diff)"

text \<open>Lines 257-270: the branch taken when the signal dictionary has no range of two
  elements. A limit order at the planned entry is chosen when the user prefers limit orders,
  the planned entry is truthy and the quote is farther from it than the slippage allows.\<close>

definition single_entry_pricing ::
  "execution \<Rightarrow> user_prefs option \<Rightarrow> price_info \<Rightarrow> rat \<Rightarrow> bool \<times> rat" where
  "single_entry_pricing ex prefs price_info current_price =
     (let execution_price = (case ex_entry_price ex of None \<Rightarrow> 0 | Some p \<Rightarrow> p) in
      case (prefs, ex_entry_price ex) of
        (Some up, Some target_price) \<Rightarrow>
          if up_use_limit_orders up \<and> target_price \<noteq> 0
             \<and> slippage_exceeded up price_info current_price target_price
          then (True, target_price)
          else (False, execution_price)
      | _ \<Rightarrow> (False, execution_price))"

text \<open>Lines 227-270: the entry range and limit order logic; the result is
  \<^verbatim>\<open>(use_limit, execution_price)\<close>.\<close>

definition entry_pricing ::
  "execution \<Rightarrow> parsed_signal \<Rightarrow> user_prefs option \<Rightarrow> price_info option \<Rightarrow> bool \<times> rat" where
  "entry_pricing ex ps prefs price_info_opt =
     (let execution_price = (case ex_entry_price ex of None \<Rightarrow> 0 | Some p \<Rightarrow> p) in
      case price_info_opt of
        None \<Rightarrow> (False, execution_price)
      | Some price_info \<Rightarrow>
          let current_price =
                (if ex_side ex = ''buy'' then pi_ask price_info else pi_bid price_info)
          in (case ps_entry_range ps of
                [low, high] \<Rightarrow>
                  if ex_side ex = ''buy'' then
                    (if current_price \<le> high then (False, execution_price) else (True, high))
                  else
                    (if current_price \<ge> low then (False, execution_price) else (True, low))
              | _ \<Rightarrow> single_entry_pricing ex prefs price_info current_price))"

text \<open>The two calls of lines 286-304 and 318-326 with their arguments, as trace entries
  and as the adapter's answers.\<close>

definition market_call :: "execution \<Rightarrow> action" where
  "market_call ex =
     Broker (Call_market_order (ex_symbol ex) (ex_side ex) (ex_volume ex)
       (keep_truthy (ex_stop_loss ex)) (keep_truthy (ex_take_profit ex))
       (Comment_signal (ex_signal_id ex)))"

definition limit_call :: "execution \<Rightarrow> rat \<Rightarrow> order_comment \<Rightarrow> action" where
  "limit_call ex price comment =
     Broker (Call_limit_order (ex_symbol ex) (ex_side ex) price (ex_volume ex)
       (keep_truthy (ex_stop_loss ex)) (keep_truthy (ex_take_profit ex)) comment)"

definition send_market :: "mt5_terminal \<Rightarrow> bool \<Rightarrow> execution \<Rightarrow> order_result" where
  "send_market term is_connected ex =
     execute_market_order term is_connected (ex_symbol ex) (ex_side ex) (ex_volume ex)
       (keep_truthy (ex_stop_loss ex)) (keep_truthy (ex_take_profit ex))
       (Comment_signal (ex_signal_id ex))"

definition send_limit ::
  "mt5_terminal \<Rightarrow> bool \<Rightarrow> execution \<Rightarrow> rat \<Rightarrow> order_comment \<Rightarrow> order_result" where
  "send_limit term is_connected ex price comment =
     execute_limit_order term is_connected (ex_symbol ex) (ex_side ex) price (ex_volume ex)
       (keep_truthy (ex_stop_loss ex)) (keep_truthy (ex_take_profit ex)) comment"

definition falling_back_event :: "execution \<Rightarrow> action" where
  "falling_back_event ex =
     Broadcast (Execution_update (ex_id ex) ''falling_back'' None) (ex_user_id ex)"

text \<open>Lines 283-326: the order is sent; a failed market order with a truthy planned
  entry is retried once as a limit order at that entry.\<close>

definition place_order ::
  "mt5_terminal \<Rightarrow> execution \<Rightarrow> bool \<Rightarrow> rat \<Rightarrow> world \<Rightarrow> order_result \<times> world" where
  "place_order term ex use_limit execution_price w =
     (if use_limit then
        (send_limit term (w_connected w) ex execution_price (Comment_signal (ex_signal_id ex)),
         emit (limit_call ex execution_price (Comment_signal (ex_signal_id ex))) w)
      else
        let w1 = emit (market_call ex) w;
            order_result = send_market term (w_connected w) ex
        in (case ex_entry_price ex of
              Some entry_price \<Rightarrow>
                if \<not> or_success order_result \<and> entry_price \<noteq> 0 then
                  let w2 = emit (falling_back_event ex) w1;
                      w3 = emit (limit_call ex entry_price (Comment_fallback (ex_signal_id ex)))
                             w2
                  in (send_limit term (w_connected w) ex entry_price
                        (Comment_fallback (ex_signal_id ex)), w3)
                else (order_result, w1)
            | None \<Rightarrow> (order_result, w1)))"

text \<open>The dictionary \<^verbatim>\<open>_process_single_execution\<close> returns.\<close>

record process_result =
  pr_success :: bool
  pr_error :: "string option"
  pr_execution_id :: nat
  pr_ticket :: "int option"
  pr_entry_price :: "rat option"

definition process_failure :: "string \<Rightarrow> nat \<Rightarrow> process_result" where
  "process_failure msg i =
     \<lparr>pr_success = False, pr_error = Some msg, pr_execution_id = i, pr_ticket = None,
      pr_entry_price = None\<rparr>"

text \<open>The body of the \<^verbatim>\<open>try\<close> of \<^verbatim>\<open>_process_single_execution\<close> from the connection on
  (lines 216-358). \<open>Inl (msg, w)\<close> is an exception with text \<open>msg\<close> raised in world \<open>w\<close>.\<close>

definition process_connected ::
  "env \<Rightarrow> user_prefs option \<Rightarrow> parsed_signal \<Rightarrow> execution \<Rightarrow> broker_config \<Rightarrow> string \<Rightarrow> world \<Rightarrow>
   (string \<times> world) + (process_result \<times> world)" where
  "process_connected env prefs ps ex bc password w =
     (let w1 = emit (Broker (Call_connect (bc_login bc) (bc_server bc))) w;
          (connection_result, is_connected) =
            connect (e_terminal env) (bc_login bc) password (bc_server bc) (w_connected w1);
          w2 = w1\<lparr>w_connected := is_connected\<rparr>
      in if \<not> connection_result then Inl (''Failed to connect to MT5'', w2)
         else
           let w3 = emit (Broker (Call_get_current_price (ex_symbol ex))) w2;
               price_info = get_current_price (e_terminal env) (w_connected w3) (ex_symbol ex);
               (use_limit, execution_price) = entry_pricing ex ps prefs price_info;
               ex1 = ex\<lparr>ex_execution_status := EXECUTING\<rparr>;
               w4 = put_execution ex1 w3;
               w5 = emit (Broadcast (Execution_update (ex_id ex) ''executing'' None)
                      (ex_user_id ex)) w4;
               (order_result, w6) = place_order (e_terminal env) ex1 use_limit execution_price w5
           in if \<not> or_success order_result then
                Inl (case or_error order_result of
                       Some msg \<Rightarrow> msg | None \<Rightarrow> ''Order execution failed'', w6)
              else
                let ex2 = ex1\<lparr>ex_execution_status := EXECUTED,
                               ex_ticket_number := or_ticket order_result,
                               ex_actual_entry_price := or_entry_price order_result\<rparr>;
                    w7 = put_execution ex2 w6;
                    w8 = emit (Broadcast (Execution_update (ex_id ex) ''executed''
                           (ex_ticket_number ex2)) (ex_user_id ex)) w7;
                    w9 = update_signal_status (ex_signal_id ex) w8
                in Inr (\<lparr>pr_success = True, pr_error = None, pr_execution_id = ex_id ex,
                          pr_ticket = ex_ticket_number ex2,
                          pr_entry_price = keep_truthy (ex_actual_entry_price ex2)\<rparr>, w9))"

text \<open>The whole \<^verbatim>\<open>try\<close> body (lines 200-358).\<close>

definition process_try ::
  "env \<Rightarrow> user_prefs option \<Rightarrow> parsed_signal \<Rightarrow> execution \<Rightarrow> world \<Rightarrow>
   (string \<times> world) + (process_result \<times> world)" where
  "process_try env prefs ps ex w =
     (case validate_signal ps of
        Inl e \<Rightarrow> Inl (e, w)
      | Inr (False, _) \<Rightarrow>
          Inr (process_failure ''Signal validation failed'' (ex_id ex),
               put_execution (ex\<lparr>ex_execution_status := FAILED,
                                 ex_execution_error := Some ''Signal validation failed''\<rparr>) w)
      | Inr (True, _) \<Rightarrow>
          let ex1 = ex\<lparr>ex_execution_status := VALIDATED\<rparr>;
              w1 = put_execution ex1 w
          in (case e_mt5_password env (ex_user_id ex) (ex_broker_config_id ex) of
                None \<Rightarrow> Inl (''MT5 password not configured'', w1)
              | Some password \<Rightarrow>
                  if password = [] then Inl (''MT5 password not configured'', w1)
                  else (case e_broker_configs env (ex_broker_config_id ex) of
                          None \<Rightarrow>
                            Inl (quoted ''NoneType'' @ '' object has no attribute ''
                                 @ quoted ''login'', w1)
                        | Some bc \<Rightarrow> process_connected env prefs ps ex1 bc password w1)))"

text \<open>\<^verbatim>\<open>_process_single_execution\<close>: the \<^verbatim>\<open>try\<close> body and its \<^verbatim>\<open>except Exception\<close>
  handler (lines 360-377).\<close>

definition process_single_execution ::
  "env \<Rightarrow> user_prefs option \<Rightarrow> parsed_signal \<Rightarrow> execution \<Rightarrow> world \<Rightarrow>
   process_result \<times> world" where
  "process_single_execution env prefs ps ex w =
     (case process_try env prefs ps ex w of
        Inr r \<Rightarrow> r
      | Inl (msg, w1) \<Rightarrow>
          let w2 = put_execution (ex\<lparr>ex_execution_status := FAILED,
                                      ex_execution_error := Some msg\<rparr>) w1;
              w3 = update_signal_status (ex_signal_id ex) w2;
              w4 = emit (Broadcast (Error_event (ex_id ex) msg) (ex_user_id ex)) w3
          in (process_failure msg (ex_id ex), w4))"

text \<open>Lines 69-74 of \<^verbatim>\<open>execute_signal\<close>: the take-profit list.\<close>

definition compute_tps :: "parsed_signal \<Rightarrow> rat option list" where
  "compute_tps ps =
     (let tps = map Some (ps_take_profits ps);
          tps1 = (if tps = [] \<and> truthy_num (ps_take_profit ps) then [ps_take_profit ps] else tps)
      in if tps1 = [] then [None] else tps1)"

text \<open>\<^verbatim>\<open>round(x, 2)\<close> of a float \<open>x\<close>: Python rounds the exact value of the double to two
  places, ties to even, and returns the double nearest to that decimal. The result is
  written as the decimal.\<close>

definition py_round2 :: "rat \<Rightarrow> rat" where
  "py_round2 x = of_int (round_half_even (x * 100)) / 100"

text \<open>Line 79: \<^verbatim>\<open>float(user_prefs.risk_per_trade)\<close> when the preferences exist and the
  risk, a Decimal, is non-zero, and 1.0 otherwise.\<close>

definition total_volume :: "user_prefs option \<Rightarrow> rat" where
  "total_volume prefs =
     (case prefs of
        None \<Rightarrow> 1
      | Some up \<Rightarrow>
          (case up_risk_per_trade up of
             None \<Rightarrow> 1
           | Some r \<Rightarrow> if r \<noteq> 0 then to_float r else 1))"

text \<open>The risk, when it is set, rounds to a finite double.\<close>

definition risk_in_range :: "user_prefs option \<Rightarrow> bool" where
  "risk_in_range prefs =
     (case prefs of
        None \<Rightarrow> True
      | Some up \<Rightarrow> (case up_risk_per_trade up of None \<Rightarrow> True | Some r \<Rightarrow> double_range r))"

text \<open>Lines 80-81: the float quotient \<^verbatim>\<open>total_volume / len(tps)\<close>, rounded to two places
  and raised to 0.01.\<close>

definition pos_volume :: "user_prefs option \<Rightarrow> nat \<Rightarrow> rat" where
  "pos_volume prefs n =
     (let v = py_round2 (float_div (total_volume prefs) (of_nat n))
      in if v < 1 / 100 then 1 / 100 else v)"

text \<open>\<^verbatim>\<open>TradeExecution(...)\<close> followed by flush or commit. The columns \<^verbatim>\<open>symbol\<close> and
  \<^verbatim>\<open>side\<close> are declared \<^verbatim>\<open>nullable=False\<close> in models.py, so a null in either makes the
  insert raise; the text of that error is the database driver's, and stands here as one
  fixed line.\<close>

definition new_execution ::
  "nat \<Rightarrow> nat \<Rightarrow> nat \<Rightarrow> nat \<Rightarrow> parsed_signal \<Rightarrow> rat \<Rightarrow> rat option \<Rightarrow> ExecutionState \<Rightarrow>
   string + execution" where
  "new_execution i user_id signal_id broker_config_id ps volume tp st =
     (case (ps_symbol ps, ps_signal_type ps) of
        (Some symbol, Some side) \<Rightarrow>
          Inr \<lparr>ex_id = i, ex_user_id = user_id, ex_signal_id = signal_id,
               ex_broker_config_id = broker_config_id, ex_symbol = symbol, ex_side = side,
               ex_volume = volume, ex_entry_price = ps_entry_price ps,
               ex_stop_loss = ps_stop_loss ps, ex_take_profit = tp,
               ex_execution_status = st, ex_ticket_number = None,
               ex_actual_entry_price = None, ex_close_price = None, ex_close_time = None,
               ex_profit_loss = None, ex_execution_error = None\<rparr>
      | _ \<Rightarrow> Inl ''IntegrityError: null value violates not-null constraint'')"

definition add_execution :: "execution \<Rightarrow> world \<Rightarrow> world" where
  "add_execution ex w =
     w\<lparr>w_executions := w_executions w @ [ex], w_next_id := Suc (w_next_id w)\<rparr>"

text \<open>Lines 89-118: the loop of the approval path.\<close>

fun create_pending ::
  "nat \<Rightarrow> nat \<Rightarrow> nat \<Rightarrow> parsed_signal \<Rightarrow> rat \<Rightarrow> rat option list \<Rightarrow> world \<Rightarrow>
   (string \<times> world) + (nat list \<times> world)" where
  "create_pending user_id signal_id broker_config_id ps volume [] w = Inr ([], w)"
| "create_pending user_id signal_id broker_config_id ps volume (tp # tps) w =
     (case new_execution (w_next_id w) user_id signal_id broker_config_id ps volume tp
             PENDING_APPROVAL of
        Inl e \<Rightarrow> Inl (e, w)
      | Inr ex \<Rightarrow>
          let w1 = add_execution ex w;
              w2 = emit (Broadcast (Signal_approval_required signal_id (ex_id ex)) user_id) w1
          in (case create_pending user_id signal_id broker_config_id ps volume tps w2 of
                Inl x \<Rightarrow> Inl x
              | Inr (ids, w3) \<Rightarrow> Inr (ex_id ex # ids, w3)))"

text \<open>Lines 149-169: the loop of the automatic path.\<close>

fun auto_execute ::
  "env \<Rightarrow> user_prefs option \<Rightarrow> nat \<Rightarrow> nat \<Rightarrow> nat \<Rightarrow> parsed_signal \<Rightarrow> rat \<Rightarrow> rat option list \<Rightarrow>
   world \<Rightarrow> (string \<times> world) + (process_result list \<times> world)" where
  "auto_execute env prefs user_id signal_id broker_config_id ps volume [] w = Inr ([], w)"
| "auto_execute env prefs user_id signal_id broker_config_id ps volume (tp # tps) w =
     (case new_execution (w_next_id w) user_id signal_id broker_config_id ps volume tp
             PENDING of
        Inl e \<Rightarrow> Inl (e, w)
      | Inr ex \<Rightarrow>
          let w1 = add_execution ex w;
              (res, w2) = process_single_execution env prefs ps ex w1
          in (case auto_execute env prefs user_id signal_id broker_config_id ps volume tps w2 of
                Inl x \<Rightarrow> Inl x
              | Inr (results, w3) \<Rightarrow> Inr (res # results, w3)))"

datatype exec_outcome =
    Exec_error string
  | Pending_approval "nat list"
  | Resumed process_result
  | Auto_results "process_result list"

definition outcome_success :: "exec_outcome \<Rightarrow> bool" where
  "outcome_success r =
     (case r of Exec_error _ \<Rightarrow> False | Pending_approval _ \<Rightarrow> True
      | Resumed pr \<Rightarrow> pr_success pr | Auto_results _ \<Rightarrow> True)"

definition manual_approval_on :: "user_prefs option \<Rightarrow> bool" where
  "manual_approval_on prefs = (case prefs of None \<Rightarrow> False | Some up \<Rightarrow> up_manual_approval up)"

text \<open>\<^verbatim>\<open>execute_signal\<close>, lines 32-179. \<open>execution_id\<close> is \<open>Some i\<close> when a single position
  is resumed; identifiers are numbers here, and \<open>str_nat i\<close> stands for the text of the
  UUID.\<close>

definition execute_signal ::
  "env \<Rightarrow> nat \<Rightarrow> nat \<Rightarrow> nat \<Rightarrow> parsed_signal \<Rightarrow> nat option \<Rightarrow> world \<Rightarrow> exec_outcome \<times> world" where
  "execute_signal env signal_id broker_config_id user_id ps execution_id w =
     (let prefs = e_prefs env user_id in
      if w_signals w signal_id = None \<or> e_broker_configs env broker_config_id = None
      then (Exec_error ''Signal or broker config not found'', w)
      else
        let tps = compute_tps ps;
            volume = pos_volume prefs (length tps)
        in if execution_id = None \<and> manual_approval_on prefs then
             (case validate_signal ps of
                Inl e \<Rightarrow> (Exec_error e, w)
              | Inr (False, _) \<Rightarrow> (Exec_error ''Validation failed'', w)
              | Inr (True, _) \<Rightarrow>
                  (case create_pending user_id signal_id broker_config_id ps volume tps w of
                     Inl (e, w1) \<Rightarrow> (Exec_error e, w1\<lparr>w_executions := w_executions w\<rparr>)
                   | Inr (ids, w1) \<Rightarrow> (Pending_approval ids, w1)))
           else
             (case execution_id of
                Some i \<Rightarrow>
                  (case find_execution i w of
                     None \<Rightarrow> (Exec_error (''Execution '' @ str_nat i @ '' not found''), w)
                   | Some ex \<Rightarrow>
                       let ex1 = ex\<lparr>ex_entry_price := ps_entry_price ps,
                                     ex_stop_loss := ps_stop_loss ps,
                                     ex_take_profit := ps_take_profit ps\<rparr>;
                           w1 = put_execution ex1 w;
                           (r, w2) = process_single_execution env prefs ps ex1 w1
                       in (Resumed r, w2))
              | None \<Rightarrow>
                  (case auto_execute env prefs user_id signal_id broker_config_id ps volume
                          tps w of
                     Inl (e, w1) \<Rightarrow> (Exec_error e, w1)
                   | Inr (results, w1) \<Rightarrow> (Auto_results results, w1))))"

text \<open>\<^verbatim>\<open>reject_execution\<close>, lines 491-515.\<close>

definition reject_execution :: "nat \<Rightarrow> world \<Rightarrow> (string + unit) \<times> world" where
  "reject_execution execution_id w =
     (case find_execution execution_id w of
        None \<Rightarrow> (Inl ''Execution not found'', w)
      | Some ex \<Rightarrow>
          if ex_execution_status ex \<noteq> PENDING_APPROVAL
          then (Inl ''Only pending approvals can be rejected'', w)
          else
            let w1 = put_execution (ex\<lparr>ex_execution_status := CANCELLED\<rparr>) w
            in (Inr (), update_signal_status (ex_signal_id ex) w1))"

section \<open>The confirm endpoint (routes.py)\<close>

record trade_modify_request =
  tm_stop_loss :: "rat option"
  tm_take_profit :: "rat option"

text \<open>Lines 664-672: the signal-like dictionary built for the resumed run.\<close>

definition confirm_signal_data :: "execution \<Rightarrow> parsed_signal" where
  "confirm_signal_data ex =
     \<lparr>ps_symbol = Some (ex_symbol ex), ps_signal_type = Some (ex_side ex),
      ps_entry_price = ex_entry_price ex, ps_entry_range = [],
      ps_stop_loss = ex_stop_loss ex, ps_take_profit = ex_take_profit ex,
      ps_take_profits = [], ps_confidence_score = Conf 1\<rparr>"

definition apply_overrides :: "trade_modify_request \<Rightarrow> execution \<Rightarrow> execution" where
  "apply_overrides request ex =
     ex\<lparr>ex_stop_loss :=
          (case tm_stop_loss request of None \<Rightarrow> ex_stop_loss ex | Some v \<Rightarrow> Some v),
        ex_take_profit :=
          (case tm_take_profit request of None \<Rightarrow> ex_take_profit ex | Some v \<Rightarrow> Some v)\<rparr>"

text \<open>The values of the enumeration \<^verbatim>\<open>ExecutionState\<close>, which the column
  \<^verbatim>\<open>execution_status\<close> stores.\<close>

definition state_value :: "ExecutionState \<Rightarrow> string" where
  "state_value st =
     (case st of
        PENDING \<Rightarrow> ''pending'' | PENDING_APPROVAL \<Rightarrow> ''pending_approval''
      | VALIDATED \<Rightarrow> ''validated'' | EXECUTING \<Rightarrow> ''executing'' | EXECUTED \<Rightarrow> ''executed''
      | FAILED \<Rightarrow> ''failed'' | CANCELLED \<Rightarrow> ''cancelled'' | CLOSED \<Rightarrow> ''closed'')"

text \<open>The value of the key \<^verbatim>\<open>error\<close> in the dictionary \<^verbatim>\<open>execute_signal\<close> returns.\<close>

definition outcome_error :: "exec_outcome \<Rightarrow> string option" where
  "outcome_error r =
     (case r of Exec_error e \<Rightarrow> Some e | Resumed pr \<Rightarrow> pr_error pr | _ \<Rightarrow> None)"

text \<open>The detail of an \<^verbatim>\<open>HTTPException(status_code=400, detail=d)\<close> once the handler's own
  \<^verbatim>\<open>except Exception as e\<close> has caught it and raised it again with \<^verbatim>\<open>detail=str(e)\<close>:
  the status code, a colon and the detail, where a null detail reads as the phrase of the
  status code.\<close>

definition rewrapped_400 :: "string option \<Rightarrow> string" where
  "rewrapped_400 d = ''400: '' @ (case d of Some e \<Rightarrow> e | None \<Rightarrow> ''Bad Request'')"

text \<open>\<^verbatim>\<open>confirm_execution\<close>, lines 628-698. \<open>Inl\<close> is the HTTP 400 the handler ends with,
  with its detail.\<close>

definition confirm_execution ::
  "env \<Rightarrow> nat \<Rightarrow> trade_modify_request \<Rightarrow> nat \<Rightarrow> world \<Rightarrow> (string + exec_outcome) \<times> world" where
  "confirm_execution env execution_id request user_id w =
     (case find (\<lambda>e. ex_id e = execution_id \<and> ex_user_id e = user_id) (w_executions w) of
        None \<Rightarrow> (Inl ''404: Execution not found'', w)
      | Some ex \<Rightarrow>
          if ex_execution_status ex \<noteq> PENDING_APPROVAL \<and> ex_execution_status ex \<noteq> FAILED
          then (Inl (rewrapped_400 (Some (''Execution is in ''
                       @ state_value (ex_execution_status ex)
                       @ '' state, not pending_approval or failed''))), w)
          else
            let ex1 = apply_overrides request ex;
                w1 = put_execution ex1 w;
                signal_data = confirm_signal_data ex1;
                (result, w2) =
                  execute_signal env (ex_signal_id ex1) (ex_broker_config_id ex1) user_id
                    signal_data (Some execution_id) w1
            in if \<not> outcome_success result then
                 (Inl (rewrapped_400 (outcome_error result)), w2)
               else (Inr result, w2))"

section \<open>The position synchronizer (sync_manager.py)\<close>

definition get_positions :: "mt5_terminal \<Rightarrow> bool \<Rightarrow> mt5_position list" where
  "get_positions term is_connected =
     (if \<not> is_connected then []
      else (case t_positions_get term of None \<Rightarrow> [] | Some positions \<Rightarrow> positions))"

text \<open>\<^verbatim>\<open>get_history_deals\<close>: the last deal whose entry is \<^verbatim>\<open>DEAL_ENTRY_OUT\<close>, else the
  last deal of the position.\<close>

definition get_history_deals :: "mt5_terminal \<Rightarrow> bool \<Rightarrow> int \<Rightarrow> mt5_deal option" where
  "get_history_deals term is_connected ticket =
     (if \<not> is_connected then None
      else (case t_history_deals_get term ticket of
          None \<Rightarrow> None
        | Some deals \<Rightarrow>
            if deals = [] then None
            else (case find (\<lambda>d. md_entry d = DEAL_ENTRY_OUT) (rev deals) of
                    Some closing_deal \<Rightarrow> Some closing_deal
                  | None \<Rightarrow> Some (last deals))))"

text \<open>\<^verbatim>\<open>mt5_tickets = {p["ticket"]: p for p in mt5_positions}\<close>: a later position of the
  same ticket replaces an earlier one.\<close>

definition lookup_ticket :: "mt5_position list \<Rightarrow> int \<Rightarrow> mt5_position option" where
  "lookup_ticket mt5_positions t = find (\<lambda>p. mp_ticket p = t) (rev mt5_positions)"

text \<open>Lines 108-146: the body of the loop over the executions of one broker account.\<close>

definition sync_execution ::
  "mt5_terminal \<Rightarrow> mt5_position list \<Rightarrow> nat \<Rightarrow> execution \<Rightarrow> world \<Rightarrow> world" where
  "sync_execution term mt5_positions user_id ex w =
     (case ex_ticket_number ex of
        None \<Rightarrow> w
      | Some t \<Rightarrow>
          if t = 0 then w
          else (case lookup_ticket mt5_positions t of
              Some p \<Rightarrow>
                let ex1 = ex\<lparr>ex_profit_loss := Some (mp_profit p)\<rparr>;
                    w1 = put_execution ex1 w
                in emit (Broadcast (Position_update (ex_id ex) (mp_profit p)
                           (mp_price_current p)) user_id) w1
            | None \<Rightarrow>
                let w1 = emit (Broker (Call_get_history_deals t)) w in
                (case get_history_deals term (w_sync_connected w1) t of
                   Some deal \<Rightarrow>
                     let ex1 = ex\<lparr>ex_execution_status := CLOSED,
                                   ex_profit_loss := Some (md_profit deal),
                                   ex_close_price := Some (md_price deal),
                                   ex_close_time := Some (md_time deal)\<rparr>;
                         w2 = put_execution ex1 w1
                     in emit (Broadcast (Position_closed (ex_id ex) (md_profit deal)
                                (md_price deal)) user_id) w2
                 | None \<Rightarrow> w1)))"

fun sync_loop ::
  "mt5_terminal \<Rightarrow> mt5_position list \<Rightarrow> nat \<Rightarrow> execution list \<Rightarrow> world \<Rightarrow> world" where
  "sync_loop term mt5_positions user_id [] w = w"
| "sync_loop term mt5_positions user_id (ex # executions) w =
     sync_loop term mt5_positions user_id executions
       (sync_execution term mt5_positions user_id ex w)"

text \<open>\<^verbatim>\<open>_sync_broker_positions\<close>, lines 82-149.\<close>

definition sync_broker_positions :: "env \<Rightarrow> nat \<Rightarrow> execution list \<Rightarrow> world \<Rightarrow> world" where
  "sync_broker_positions env broker_id executions w =
     (case executions of
        [] \<Rightarrow> w
      | ex0 # _ \<Rightarrow>
          let user_id = ex_user_id ex0 in
          (case e_broker_configs env broker_id of
             None \<Rightarrow> w
           | Some bc \<Rightarrow>
               (case e_mt5_password env user_id broker_id of
                  None \<Rightarrow> w
                | Some password \<Rightarrow>
                    if password = [] then w
                    else
                      let w1 = emit (Broker (Call_connect (bc_login bc) (bc_server bc))) w;
                          (connected, is_connected) =
                            connect (e_terminal env) (bc_login bc) password (bc_server bc)
                              (w_sync_connected w1);
                          w2 = w1\<lparr>w_sync_connected := is_connected\<rparr>
                      in if \<not> connected then w2
                         else
                           let w3 = emit (Broker Call_get_positions) w2;
                               mt5_positions =
                                 get_positions (e_terminal env) (w_sync_connected w3)
                           in sync_loop (e_terminal env) mt5_positions user_id executions w3)))"

text \<open>Lines 69-74: grouping by broker configuration, in a dictionary that keeps the order
  of first insertion.\<close>

fun group_insert ::
  "execution \<Rightarrow> (nat \<times> execution list) list \<Rightarrow> (nat \<times> execution list) list" where
  "group_insert ex [] = [(ex_broker_config_id ex, [ex])]"
| "group_insert ex ((b, items) # by_broker) =
     (if b = ex_broker_config_id ex then (b, items @ [ex]) # by_broker
      else (b, items) # group_insert ex by_broker)"

definition group_by_broker :: "execution list \<Rightarrow> (nat \<times> execution list) list" where
  "group_by_broker active_executions = foldl (\<lambda>by_broker ex. group_insert ex by_broker) []
     active_executions"

fun sync_groups :: "env \<Rightarrow> (nat \<times> execution list) list \<Rightarrow> world \<Rightarrow> world" where
  "sync_groups env [] w = w"
| "sync_groups env ((broker_id, items) # by_broker) w =
     sync_groups env by_broker (sync_broker_positions env broker_id items w)"

text \<open>\<^verbatim>\<open>sync_all_active_positions\<close>, lines 57-80: one synchronizer pass.\<close>

definition sync_all_active_positions :: "env \<Rightarrow> world \<Rightarrow> world" where
  "sync_all_active_positions env w =
     (let active_executions =
            filter (\<lambda>e. ex_execution_status e = EXECUTED) (w_executions w)
      in if active_executions = [] then w
         else sync_groups env (group_by_broker active_executions) w)"

section \<open>The notification hub (websockets.py)\<close>

text \<open>\<^verbatim>\<open>active_connections\<close> maps a user to the list of the user's sessions, in a
  dictionary kept in insertion order. A session is named by a number; \<open>send_ok c\<close> tells
  whether \<^verbatim>\<open>send_text\<close> on session \<open>c\<close> returns (\<open>True\<close>) or raises.\<close>

record connection_manager =
  cm_active_connections :: "(nat \<times> nat list) list"

datatype hub_action = Send_text nat ws_event | Log_send_error nat

definition hub_connect :: "nat \<Rightarrow> nat \<Rightarrow> connection_manager \<Rightarrow> connection_manager" where
  "hub_connect websocket user_id m =
     (case map_of (cm_active_connections m) user_id of
        None \<Rightarrow> m\<lparr>cm_active_connections := cm_active_connections m @ [(user_id, [websocket])]\<rparr>
      | Some conns \<Rightarrow>
          m\<lparr>cm_active_connections :=
              map (\<lambda>(u, cs). if u = user_id then (u, cs @ [websocket]) else (u, cs))
                (cm_active_connections m)\<rparr>)"

definition hub_disconnect :: "nat \<Rightarrow> nat \<Rightarrow> connection_manager \<Rightarrow> connection_manager" where
  "hub_disconnect websocket user_id m =
     (case map_of (cm_active_connections m) user_id of
        None \<Rightarrow> m
      | Some conns \<Rightarrow>
          let conns1 = remove1 websocket conns in
          if conns1 = [] then
            m\<lparr>cm_active_connections := filter (\<lambda>(u, cs). u \<noteq> user_id) (cm_active_connections m)\<rparr>
          else
            m\<lparr>cm_active_connections :=
                map (\<lambda>(u, cs). if u = user_id then (u, conns1) else (u, cs))
                  (cm_active_connections m)\<rparr>)"

text \<open>The loops of \<^verbatim>\<open>broadcast\<close> (lines 45-49 and 53-57): one \<^verbatim>\<open>send_text\<close> per list
  entry; an exception is logged and the loop goes on.\<close>

fun send_all :: "(nat \<Rightarrow> bool) \<Rightarrow> ws_event \<Rightarrow> nat list \<Rightarrow> hub_action list" where
  "send_all send_ok message [] = []"
| "send_all send_ok message (connection # connections) =
     (if send_ok connection then [Send_text connection message]
      else [Send_text connection message, Log_send_error connection])
     @ send_all send_ok message connections"

text \<open>\<^verbatim>\<open>ConnectionManager.broadcast\<close>, lines 38-57. It returns nothing and assigns to no
  attribute: the manager comes back as it went in.\<close>

definition broadcast ::
  "(nat \<Rightarrow> bool) \<Rightarrow> connection_manager \<Rightarrow> ws_event \<Rightarrow> nat option \<Rightarrow>
   connection_manager \<times> hub_action list" where
  "broadcast send_ok m message user_id =
     (case user_id of
        Some u \<Rightarrow>
          (case map_of (cm_active_connections m) u of
             Some conns \<Rightarrow> (m, send_all send_ok message conns)
           | None \<Rightarrow> (m, []))
      | None \<Rightarrow>
          (m, concat (map (\<lambda>(u, conns). send_all send_ok message conns)
                (cm_active_connections m))))"

section \<open>Reading traces, and sample inputs\<close>

text \<open>Python's \<^verbatim>\<open>needle in haystack\<close> on strings.\<close>

fun is_prefix :: "string \<Rightarrow> string \<Rightarrow> bool" where
  "is_prefix [] ys = True"
| "is_prefix (x # xs) [] = False"
| "is_prefix (x # xs) (y # ys) = (x = y \<and> is_prefix xs ys)"

fun contains :: "string \<Rightarrow> string \<Rightarrow> bool" where
  "contains needle [] = (needle = [])"
| "contains needle (c # cs) = (is_prefix needle (c # cs) \<or> contains needle cs)"

text \<open>The actions a run adds to the trace, and the orders among them.\<close>

definition new_actions :: "world \<Rightarrow> world \<Rightarrow> action list" where
  "new_actions w w' = drop (length (w_trace w)) (w_trace w')"

fun is_broker_call :: "action \<Rightarrow> bool" where
  "is_broker_call (Broker c) = True"
| "is_broker_call (Broadcast e u) = False"

fun is_order_call :: "action \<Rightarrow> bool" where
  "is_order_call (Broker (Call_market_order symb side vol sl tp c)) = True"
| "is_order_call (Broker (Call_limit_order symb side price vol sl tp c)) = True"
| "is_order_call a = False"

definition order_calls :: "action list \<Rightarrow> action list" where
  "order_calls as = filter is_order_call as"

definition first_order :: "action list \<Rightarrow> action option" where
  "first_order as = (case order_calls as of [] \<Rightarrow> None | a # _ \<Rightarrow> Some a)"

definition outcome_world :: "(string \<times> world) + (process_result \<times> world) \<Rightarrow> world" where
  "outcome_world x = (case x of Inl (msg, w) \<Rightarrow> w | Inr (r, w) \<Rightarrow> w)"

text \<open>The order sequence the specification describes (4.3, entry pricing and
  market-to-limit fallback), to compare \<open>place_order\<close> with: a limit order alone; or a market
  order; or a failed market order, the \<^verbatim>\<open>falling_back\<close> event and one limit order at the
  planned entry.\<close>

definition expected_order_actions ::
  "mt5_terminal \<Rightarrow> execution \<Rightarrow> bool \<Rightarrow> rat \<Rightarrow> action list" where
  "expected_order_actions term ex use_limit price =
     (if use_limit then [limit_call ex price (Comment_signal (ex_signal_id ex))]
      else (case ex_entry_price ex of
              Some entry \<Rightarrow>
                if \<not> or_success (send_market term True ex) \<and> entry \<noteq> 0
                then [market_call ex, falling_back_event ex,
                      limit_call ex entry (Comment_fallback (ex_signal_id ex))]
                else [market_call ex]
            | None \<Rightarrow> [market_call ex]))"

definition demo_symbol_info :: mt5_symbol_info where
  "demo_symbol_info =
     \<lparr>si_ask = 11010 / 10000, si_bid = 11008 / 10000, si_point = 1 / 100000, si_digits = 5,
      si_filling_mode = 1\<rparr>"

text \<open>A terminal that accepts every login and quotes 1.1008 / 1.1010; \<open>market_ok\<close> and
  \<open>limit_ok\<close> say whether it fills a market order (ticket 1001) and accepts a pending
  order (ticket 1002), or answers with retcode 10016.\<close>

definition demo_terminal :: "bool \<Rightarrow> bool \<Rightarrow> mt5_terminal" where
  "demo_terminal market_ok limit_ok =
     \<lparr>t_login = (\<lambda>login password server. True),
      t_symbol_info = (\<lambda>symbol. Some demo_symbol_info),
      t_symbol_info_tick = (\<lambda>symbol. Some \<lparr>tk_bid = 11008 / 10000, tk_ask = 11010 / 10000\<rparr>),
      t_order_send =
        (\<lambda>request.
           if rq_action request = TRADE_ACTION_DEAL then
             (if market_ok
              then Some \<lparr>sr_retcode = 10009, sr_comment = ''Request executed'', sr_order = 1001\<rparr>
              else Some \<lparr>sr_retcode = 10016, sr_comment = ''Invalid stops'', sr_order = 0\<rparr>)
           else
             (if limit_ok
              then Some \<lparr>sr_retcode = 10009, sr_comment = ''Request executed'', sr_order = 1002\<rparr>
              else Some \<lparr>sr_retcode = 10016, sr_comment = ''Invalid stops'', sr_order = 0\<rparr>)),
      t_positions_get = Some [],
      t_history_deals_get = (\<lambda>ticket. None),
      t_last_error = []\<rparr>"

definition demo_env :: "mt5_terminal \<Rightarrow> user_prefs option \<Rightarrow> env" where
  "demo_env term prefs =
     \<lparr>e_terminal = term,
      e_broker_configs = (\<lambda>b. Some \<lparr>bc_login = 5001, bc_server = ''Demo-Server''\<rparr>),
      e_mt5_password = (\<lambda>u b. Some ''secret''),
      e_prefs = (\<lambda>u. prefs)\<rparr>"

definition demo_signal :: parsed_signal where
  "demo_signal =
     \<lparr>ps_symbol = Some ''EURUSD'', ps_signal_type = Some ''buy'',
      ps_entry_price = Some (11000 / 10000), ps_entry_range = [],
      ps_stop_loss = Some (10950 / 10000), ps_take_profit = Some (11100 / 10000),
      ps_take_profits = [11100 / 10000], ps_confidence_score = Conf (9 / 10)\<rparr>"

definition demo_execution :: "ExecutionState \<Rightarrow> execution" where
  "demo_execution st =
     \<lparr>ex_id = 0, ex_user_id = 7, ex_signal_id = 1, ex_broker_config_id = 3,
      ex_symbol = ''EURUSD'', ex_side = ''buy'', ex_volume = 1,
      ex_entry_price = Some (11000 / 10000), ex_stop_loss = Some (10950 / 10000),
      ex_take_profit = Some (11100 / 10000), ex_execution_status = st,
      ex_ticket_number = None, ex_actual_entry_price = None, ex_close_price = None,
      ex_close_time = None, ex_profit_loss = None, ex_execution_error = None\<rparr>"

definition demo_world :: "execution list \<Rightarrow> world" where
  "demo_world executions =
     \<lparr>w_executions = executions,
      w_signals = (\<lambda>i. if i = 1 then Some \<lparr>sg_user_id = 7, sg_status = ''pending''\<rparr> else None),
      w_trace = [], w_connected = False, w_sync_connected = False,
      w_next_id = length executions\<rparr>"

text \<open>Scenario 4 of the specification: a buy at 1.1000 with SL 1.1100 and TP 1.0900.\<close>

definition demo_bad_buy :: parsed_signal where
  "demo_bad_buy =
     demo_signal\<lparr>ps_stop_loss := Some (11100 / 10000), ps_take_profit := Some (10900 / 10000),
                 ps_take_profits := [10900 / 10000]\<rparr>"

text \<open>A buy with the entry range 1.0990 - 1.1000, below the quoted ask 1.1010.\<close>

definition demo_range_signal :: parsed_signal where
  "demo_range_signal =
     demo_signal\<lparr>ps_entry_price := Some (10990 / 10000),
                 ps_entry_range := [10990 / 10000, 11000 / 10000]\<rparr>"

text \<open>A hub with one user, 7, and two sessions, 1 and 2.\<close>

definition demo_manager :: connection_manager where
  "demo_manager = \<lparr>cm_active_connections = [(7, [1, 2])]\<rparr>"

text \<open>The executions a run adds to the store, and the fields of an execution that the
  fan-out fixes.\<close>

definition created_executions :: "world \<Rightarrow> world \<Rightarrow> execution list" where
  "created_executions w w' = drop (length (w_executions w)) (w_executions w')"

definition fan_out_fields :: "execution \<Rightarrow> nat \<times> rat \<times> rat option" where
  "fan_out_fields e = (ex_id e, ex_volume e, ex_take_profit e)"

definition statics :: "world \<Rightarrow> (nat \<times> rat \<times> rat option) list" where
  "statics w = map fan_out_fields (w_executions w)"

definition demo_prefs :: "bool \<Rightarrow> rat option \<Rightarrow> user_prefs" where
  "demo_prefs manual risk =
     \<lparr>up_manual_approval = manual, up_risk_per_trade = risk, up_max_slippage = 5,
      up_use_limit_orders = True\<rparr>"

text \<open>Scenario 1 of the specification: a sell of gold with seven take-profit levels.\<close>

definition demo_gold_signal :: parsed_signal where
  "demo_gold_signal =
     \<lparr>ps_symbol = Some ''XAUUSD'', ps_signal_type = Some ''sell'',
      ps_entry_price = Some (46015 / 10), ps_entry_range = [46015 / 10, 46055 / 10],
      ps_stop_loss = Some (46095 / 10), ps_take_profit = Some 4600,
      ps_take_profits = [4600, 4598, 4596, 4594, 4592, 4588, 4583],
      ps_confidence_score = Conf 1\<rparr>"

text \<open>What the specification says the synchronizer does to an execution on a closing
  deal (4.5), to compare \<open>sync_execution\<close> with.\<close>

definition closed_by :: "mt5_deal \<Rightarrow> execution \<Rightarrow> execution" where
  "closed_by deal ex =
     ex\<lparr>ex_execution_status := CLOSED, ex_profit_loss := Some (md_profit deal),
        ex_close_price := Some (md_price deal), ex_close_time := Some (md_time deal)\<rparr>"

text \<open>The pass obtains a broker session for the account \<open>broker_id\<close>: the account has a
  live execution, its configuration and the password of the first live execution's user
  exist, and the login succeeds (lines 85-102).\<close>

definition broker_session_ok :: "env \<Rightarrow> world \<Rightarrow> nat \<Rightarrow> bool" where
  "broker_session_ok env w broker_id =
     (case filter (\<lambda>e. ex_broker_config_id e = broker_id)
             (filter (\<lambda>e. ex_execution_status e = EXECUTED) (w_executions w)) of
        [] \<Rightarrow> False
      | ex0 # _ \<Rightarrow>
          (case e_broker_configs env broker_id of
             None \<Rightarrow> False
           | Some bc \<Rightarrow>
               (case e_mt5_password env (ex_user_id ex0) broker_id of
                  None \<Rightarrow> False
                | Some password \<Rightarrow>
                    password \<noteq> []
                    \<and> t_login (e_terminal env) (bc_login bc) password (bc_server bc))))"

definition session_user :: "world \<Rightarrow> nat \<Rightarrow> nat" where
  "session_user w broker_id =
     (case filter (\<lambda>e. ex_broker_config_id e = broker_id)
             (filter (\<lambda>e. ex_execution_status e = EXECUTED) (w_executions w)) of
        [] \<Rightarrow> 0
      | ex0 # _ \<Rightarrow> ex_user_id ex0)"

text \<open>The outcome the specification gives for an execution whose ticket is absent from
  the open positions: closed by the returned deal, with \<^verbatim>\<open>position_closed\<close> emitted, or
  left as it was when no deal is returned.\<close>

definition closure_outcome :: "mt5_terminal \<Rightarrow> int \<Rightarrow> nat \<Rightarrow> execution \<Rightarrow> world \<Rightarrow> bool" where
  "closure_outcome term t u ex w' =
     (case get_history_deals term True t of
        Some deal \<Rightarrow>
          find_execution (ex_id ex) w' = Some (closed_by deal ex)
          \<and> Broadcast (Position_closed (ex_id ex) (md_profit deal) (md_price deal)) u
              \<in> set (w_trace w')
      | None \<Rightarrow> find_execution (ex_id ex) w' = Some ex)"

text \<open>Scenario 6 of the specification: ticket 1001 is no longer open, and its history
  holds an opening deal and a closing deal with profit 42.5 at 1.1230.\<close>

definition demo_closing_deal :: mt5_deal where
  "demo_closing_deal =
     \<lparr>md_ticket = 2002, md_entry = 1, md_price = 11230 / 10000, md_profit = 425 / 10,
      md_time = 200\<rparr>"

definition demo_sync_terminal :: mt5_terminal where
  "demo_sync_terminal =
     (demo_terminal True True)
       \<lparr>t_history_deals_get :=
          (\<lambda>ticket. if ticket = 1001
             then Some [\<lparr>md_ticket = 2001, md_entry = 0, md_price = 11010 / 10000,
                          md_profit = 0, md_time = 100\<rparr>, demo_closing_deal]
             else None)\<rparr>"

definition demo_open_execution :: execution where
  "demo_open_execution =
     (demo_execution EXECUTED)
       \<lparr>ex_ticket_number := Some 1001, ex_actual_entry_price := Some (11010 / 10000)\<rparr>"

text \<open>A confirmation without overrides; an environment whose user requires manual
  approval, with \<^verbatim>\<open>use_limit_orders\<close> as given; and the world after the range signal has
  arrived there, with its one execution waiting for approval.\<close>

definition no_overrides :: trade_modify_request where
  "no_overrides = \<lparr>tm_stop_loss = None, tm_take_profit = None\<rparr>"



text \<open>Scenario 1 cut to four take-profit levels.\<close>

definition demo_four_tp_signal :: parsed_signal where
  "demo_four_tp_signal = demo_gold_signal\<lparr>ps_take_profits := [4600, 4598, 4596, 4594]\<rparr>"

section \<open>Regular expressions (Python's re, as signal_parser.py uses it)\<close>

text \<open>
  The module \<^verbatim>\<open>re\<close> is not code of this repository. It is modelled by a backtracking
  matcher with the priorities of Python's engine: alternatives from left to right, greedy
  repetition, and the first match from the leftmost start. A text is the list of the bytes
  of its UTF-8 encoding. On ASCII characters \<^verbatim>\<open>\d\<close>, \<^verbatim>\<open>\s\<close>, \<^verbatim>\<open>\w\<close>, \<^verbatim>\<open>\b\<close>, \<^verbatim>\<open>lower\<close> and
  \<^verbatim>\<open>upper\<close> are as in Python; a byte above 127 is in none of the classes and is left as it
  is, so the model is exact for texts whose only non-ASCII characters are punctuation such
  as the en dash, the em dash and the check mark of the patterns.
\<close>

datatype cclass = C_chr char | C_range char char | C_digit | C_space | C_word | C_any

definition is_digit :: "char \<Rightarrow> bool" where
  "is_digit c = (let n = (of_char c :: nat) in 48 \<le> n \<and> n \<le> 57)"

definition is_space :: "char \<Rightarrow> bool" where
  "is_space c =
     (let n = (of_char c :: nat) in n = 32 \<or> (9 \<le> n \<and> n \<le> 13) \<or> (28 \<le> n \<and> n \<le> 31))"

definition is_word :: "char \<Rightarrow> bool" where
  "is_word c =
     (let n = (of_char c :: nat)
      in (48 \<le> n \<and> n \<le> 57) \<or> (65 \<le> n \<and> n \<le> 90) \<or> (97 \<le> n \<and> n \<le> 122) \<or> n = 95)"

fun in_class :: "cclass \<Rightarrow> char \<Rightarrow> bool" where
  "in_class (C_chr x) c = (c = x)"
| "in_class (C_range a b) c =
     ((of_char a :: nat) \<le> of_char c \<and> (of_char c :: nat) \<le> of_char b)"
| "in_class C_digit c = is_digit c"
| "in_class C_space c = is_space c"
| "in_class C_word c = is_word c"
| "in_class C_any c = (c \<noteq> CHR 0x0A)"

text \<open>\<open>Atom cs\<close> is one character of any of the classes \<open>cs\<close>; \<open>Group i r\<close> is the
  capturing group number \<open>i\<close>; \<open>Bound\<close> is \<^verbatim>\<open>\b\<close>; \<open>Star\<close> and \<open>Opt\<close> are greedy.\<close>

datatype regex =
    Eps | Atom "cclass list" | Seq regex regex | Alt regex regex | Star regex | Opt regex
  | Group nat regex | Bound

text \<open>A matcher state: the character before the position, the text from the position on,
  and the groups captured so far (latest first).\<close>

datatype mstate = MS "char option" string "(nat \<times> string) list"

fun ms_rest :: "mstate \<Rightarrow> string" where
  "ms_rest (MS p r g) = r"

fun ms_groups :: "mstate \<Rightarrow> (nat \<times> string) list" where
  "ms_groups (MS p r g) = g"

fun word_before :: "char option \<Rightarrow> bool" where
  "word_before None = False"
| "word_before (Some c) = is_word c"

fun word_after :: "string \<Rightarrow> bool" where
  "word_after [] = False"
| "word_after (c # cs) = is_word c"

text \<open>Greedy repetition of a matcher \<open>f\<close>, at most \<open>n\<close> times, each round consuming at
  least one character; \<open>k\<close> is what has to match afterwards.\<close>

fun star_iter ::
  "(mstate \<Rightarrow> (mstate \<Rightarrow> mstate option) \<Rightarrow> mstate option) \<Rightarrow> nat \<Rightarrow> mstate \<Rightarrow>
   (mstate \<Rightarrow> mstate option) \<Rightarrow> mstate option" where
  "star_iter f 0 st k = k st"
| "star_iter f (Suc n) st k =
     (case f st (\<lambda>st'. if length (ms_rest st') < length (ms_rest st)
                         then star_iter f n st' k else None) of
        Some x \<Rightarrow> Some x
      | None \<Rightarrow> k st)"

primrec rmatch :: "regex \<Rightarrow> mstate \<Rightarrow> (mstate \<Rightarrow> mstate option) \<Rightarrow> mstate option" where
  "rmatch Eps st k = k st"
| "rmatch (Atom cs) st k =
     (case st of MS p r g \<Rightarrow>
        (case r of
           [] \<Rightarrow> None
         | c # r' \<Rightarrow> if list_ex (\<lambda>x. in_class x c) cs then k (MS (Some c) r' g) else None))"
| "rmatch (Seq a b) st k = rmatch a st (\<lambda>st'. rmatch b st' k)"
| "rmatch (Alt a b) st k = (case rmatch a st k of Some x \<Rightarrow> Some x | None \<Rightarrow> rmatch b st k)"
| "rmatch (Star a) st k = star_iter (rmatch a) (length (ms_rest st)) st k"
| "rmatch (Opt a) st k = (case rmatch a st k of Some x \<Rightarrow> Some x | None \<Rightarrow> k st)"
| "rmatch (Group i a) st k =
     rmatch a st (\<lambda>st'. case st' of MS p r g \<Rightarrow>
        k (MS p r ((i, take (length (ms_rest st) - length r) (ms_rest st)) # g)))"
| "rmatch Bound st k =
     (case st of MS p r g \<Rightarrow> if word_before p \<noteq> word_after r then k st else None)"

definition re_chr :: "char \<Rightarrow> regex" where
  "re_chr c = Atom [C_chr c]"

definition re_lit :: "string \<Rightarrow> regex" where
  "re_lit s = foldr (\<lambda>c r. Seq (re_chr c) r) s Eps"

fun re_seqs :: "regex list \<Rightarrow> regex" where
  "re_seqs [] = Eps"
| "re_seqs [r] = r"
| "re_seqs (r # rs) = Seq r (re_seqs rs)"

fun re_alts :: "regex list \<Rightarrow> regex" where
  "re_alts [] = Atom []"
| "re_alts [r] = r"
| "re_alts (r # rs) = Alt r (re_alts rs)"

definition re_words :: "string list \<Rightarrow> regex" where
  "re_words ws = re_alts (map re_lit ws)"

definition re_plus :: "regex \<Rightarrow> regex" where
  "re_plus r = Seq r (Star r)"

text \<open>\<open>re_upto n r\<close> is \<^verbatim>\<open>r{0,n}\<close>, so \<^verbatim>\<open>r{1,7}\<close> is \<open>Seq r (re_upto 6 r)\<close>.\<close>

fun re_upto :: "nat \<Rightarrow> regex \<Rightarrow> regex" where
  "re_upto 0 r = Eps"
| "re_upto (Suc n) r = Opt (Seq r (re_upto n r))"

definition re_digit :: regex where
  "re_digit = Atom [C_digit]"

definition re_space :: regex where
  "re_space = Atom [C_space]"

definition re_spaces :: regex where
  "re_spaces = Star re_space"

record re_match =
  m_start :: nat
  m_text :: string
  m_groups :: "(nat \<times> string) list"

text \<open>\<^verbatim>\<open>re.search\<close>: the first match from the leftmost position where there is one.\<close>

fun search_at :: "regex \<Rightarrow> char option \<Rightarrow> string \<Rightarrow> nat \<Rightarrow> re_match option" where
  "search_at r prev [] i =
     (case rmatch r (MS prev [] []) Some of
        Some st \<Rightarrow> Some \<lparr>m_start = i, m_text = [], m_groups = ms_groups st\<rparr>
      | None \<Rightarrow> None)"
| "search_at r prev (c # cs) i =
     (case rmatch r (MS prev (c # cs) []) Some of
        Some st \<Rightarrow>
          Some \<lparr>m_start = i,
                m_text = take (length (c # cs) - length (ms_rest st)) (c # cs),
                m_groups = ms_groups st\<rparr>
      | None \<Rightarrow> search_at r (Some c) cs (Suc i))"

definition re_search :: "regex \<Rightarrow> string \<Rightarrow> re_match option" where
  "re_search r s = search_at r None s 0"

definition re_found :: "regex \<Rightarrow> string \<Rightarrow> bool" where
  "re_found r s = (re_search r s \<noteq> None)"

definition re_group :: "re_match \<Rightarrow> nat \<Rightarrow> string" where
  "re_group m i = (case map_of (m_groups m) i of Some s \<Rightarrow> s | None \<Rightarrow> [])"

text \<open>\<^verbatim>\<open>re.finditer\<close>: the successive matches that do not overlap; \<open>skip\<close> counts the
  characters still inside the match found last.\<close>

fun scan_matches :: "regex \<Rightarrow> char option \<Rightarrow> string \<Rightarrow> nat \<Rightarrow> nat \<Rightarrow> re_match list" where
  "scan_matches r prev [] i skip =
     (if skip = 0 then
        (case rmatch r (MS prev [] []) Some of
           Some st \<Rightarrow> [\<lparr>m_start = i, m_text = [], m_groups = ms_groups st\<rparr>]
         | None \<Rightarrow> [])
      else [])"
| "scan_matches r prev (c # cs) i skip =
     (if 0 < skip then scan_matches r (Some c) cs (Suc i) (skip - 1)
      else (case rmatch r (MS prev (c # cs) []) Some of
          None \<Rightarrow> scan_matches r (Some c) cs (Suc i) 0
        | Some st \<Rightarrow>
            let n = length (c # cs) - length (ms_rest st)
            in \<lparr>m_start = i, m_text = take n (c # cs), m_groups = ms_groups st\<rparr>
               # scan_matches r (Some c) cs (Suc i) (n - 1)))"

definition re_finditer :: "regex \<Rightarrow> string \<Rightarrow> re_match list" where
  "re_finditer r s = scan_matches r None s 0 0"

text \<open>\<^verbatim>\<open>re.findall\<close> for a pattern without capturing groups: the matched texts.\<close>

definition re_findall :: "regex \<Rightarrow> string \<Rightarrow> string list" where
  "re_findall r s = map m_text (re_finditer r s)"

text \<open>\<^verbatim>\<open>float(s)\<close> for a text \<open>s\<close> that matched the price pattern: digits, and optionally
  a point and more digits.\<close>

definition digits_value :: "string \<Rightarrow> nat" where
  "digits_value s = foldl (\<lambda>n c. 10 * n + (of_char c - 48)) 0 s"

definition py_float :: "string \<Rightarrow> rat" where
  "py_float s =
     (let ip = takeWhile (\<lambda>c. c \<noteq> CHR ''.'') s;
          fp = drop (Suc (length ip)) s
      in of_nat (digits_value ip) + of_nat (digits_value fp) / 10 ^ length fp)"

section \<open>The classifier and extractor (signal_parser.py)\<close>

definition common_symbols :: "string list" where
  "common_symbols =
     [''EURUSD'', ''GBPUSD'', ''USDJPY'', ''USDCHF'', ''AUDUSD'', ''NZDUSD'',
      ''EURJPY'', ''EURGBP'', ''GBPJPY'', ''AUDNZD'', ''CADCHF'', ''AUDCAD'',
      ''BTC'', ''ETH'', ''XRP'', ''ADA'', ''DOT'', ''SOL'', ''AAPL'', ''GOOGL'', ''MSFT'',
      ''XAUUSD'', ''GOLD'', ''XAGUSD'', ''SILVER'', ''USOIL'', ''UKOIL'', ''XTIUSD'', ''XBRUSD'',
      ''US30'', ''NAS100'', ''GER30'', ''DE30'', ''DE40'', ''SPX500'', ''US500'', ''HK30'',
      ''JPN225'']"

definition symbol_map :: "(string \<times> string) list" where
  "symbol_map =
     [(''GOLD'', ''XAUUSD''), (''SILVER'', ''XAGUSD''), (''OIL'', ''USOIL''), (''US30'', ''DJI''),
      (''NAS100'', ''NAS100''), (''NASDAQ'', ''NAS100''), (''DOW'', ''US30'')]"

text \<open>The three characters of the class \<^verbatim>\<open>[-\<dots>]\<close>: hyphen, en dash and em dash (UTF-8).\<close>

definition re_dash :: regex where
  "re_dash = re_alts [re_chr (CHR ''-''), re_lit [CHR 0xE2, CHR 0x80, CHR 0x93],
                      re_lit [CHR 0xE2, CHR 0x80, CHR 0x94]]"

definition check_mark :: string where
  "check_mark = [CHR 0xE2, CHR 0x9C, CHR 0x85]"

text \<open>\<^verbatim>\<open>\d+\.?\d*\<close> and \<^verbatim>\<open>\d+\.?\d+\<close>.\<close>

definition re_loose_number :: regex where
  "re_loose_number = re_seqs [re_plus re_digit, Opt (re_chr (CHR ''.'')), Star re_digit]"

definition re_loose_number2 :: regex where
  "re_loose_number2 = re_seqs [re_plus re_digit, Opt (re_chr (CHR ''.'')), re_plus re_digit]"

text \<open>\<^verbatim>\<open>[@:at]?\<close>.\<close>

definition re_at_sign :: regex where
  "re_at_sign = Opt (Atom [C_chr (CHR ''@''), C_chr (CHR '':''), C_chr (CHR ''a''), C_chr (CHR ''t'')])"

text \<open>\<^verbatim>\<open>[:\s]*\<close>.\<close>

definition re_colon_spaces :: regex where
  "re_colon_spaces = Star (Atom [C_chr (CHR '':''), C_space])"

definition commentary_patterns :: "regex list" where
  "commentary_patterns =
     [re_seqs [re_lit ''tp'', re_plus re_digit, re_spaces,
               Group 1 (re_alts [re_lit ''hit'', re_lit check_mark, re_lit ''reached''])],
      re_seqs [re_plus re_digit, Opt (re_chr (CHR ''+'')), re_spaces, re_lit ''pips''],
      re_seqs [Group 1 (re_words [''nfp'', ''cpi'', ''fomc'', ''news'']), re_spaces,
               Group 2 (re_words [''in'', ''alert''])],
      re_lit ''my analysis'',
      re_seqs [re_lit ''i '', Group 1 (re_words [''hope'', ''wish'', ''expect''])],
      re_seqs [Group 1 (re_words [''managing'', ''manage'']), re_spaces, re_lit ''risk''],
      re_lit ''patience is key'',
      re_lit ''you guys know'',
      re_seqs [Group 1 (re_words [''worst'', ''best'']), re_spaces, re_lit ''positions''],
      re_seqs [re_lit ''signal'', re_spaces, Group 1 (re_words [''get ready'', ''coming''])],
      re_lit ''this is not financial advice'']"

definition modification_patterns :: "(string \<times> regex list) list" where
  "modification_patterns =
     [(''breakeven_move'',
       [re_seqs [Bound, Group 1 (re_alts [re_lit ''be'', re_lit ''breakeven'',
                   re_seqs [re_lit ''break'', re_spaces, re_lit ''even'']]), Bound],
        re_seqs [re_lit ''moving'', re_spaces,
                 Group 1 (re_alts [re_lit ''stops'', re_lit ''sl'',
                    re_seqs [re_lit ''stop'', re_spaces, re_lit ''loss'']]),
                 Star (Atom [C_any]), Bound,
                 Opt (Group 2 (re_seqs [re_lit ''to'', re_spaces])),
                 Group 3 (re_words [''be'', ''breakeven''])],
        re_seqs [re_lit ''stop'', Opt (re_chr (CHR ''s'')), re_spaces,
                 Group 1 (re_words [''from'', ''to'']), re_spaces,
                 Opt (Group 2 (re_seqs [re_lit ''top'', re_spaces])), re_lit ''be''],
        re_seqs [re_lit ''position'', Opt (re_chr (CHR ''s'')), re_spaces, re_lit ''at'',
                 re_spaces, re_lit ''be'']]),
      (''cancellation'',
       [re_seqs [re_lit ''cancel'', Opt (Group 1 (re_chr (CHR ''l''))), re_lit ''ing''],
        re_seqs [re_lit ''cancel'', re_spaces, Group 1 (re_words [''sell'', ''buy'']), re_spaces,
                 Group 2 (re_words [''limit'', ''stop''])],
        re_seqs [re_lit ''delete'', re_spaces, Group 1 (re_words [''order'', ''pending''])]]),
      (''partial_close'',
       [re_seqs [re_lit ''partial'', Opt (Group 1 (re_lit ''ly'')), re_spaces,
                 Group 2 (re_words [''close'', ''exit''])],
        re_seqs [re_lit ''close'', re_spaces, re_lit ''half''],
        re_seqs [Group 1 (re_words [''some'', ''few'']), re_spaces, re_lit ''position'',
                 Opt (re_chr (CHR ''s'')), re_spaces, re_lit ''closed''],
        re_seqs [re_lit ''filled'', re_spaces, re_lit ''the'', re_spaces, re_lit ''zone'']]),
      (''stop_adjustment'',
       [re_seqs [Group 1 (re_words [''adjust'', ''move'', ''moving'', ''trail'']), re_spaces,
                 Group 2 (re_words [''stop'', ''sl''])],
        re_seqs [re_lit ''new'', re_spaces, re_lit ''stop'']])]"

text \<open>\<^verbatim>\<open>_has_price_structure\<close>, lines 172-184.\<close>

definition has_price_structure :: "string \<Rightarrow> bool" where
  "has_price_structure message_text =
     (let normalized = lower message_text;
          has_entry =
            (re_found (re_seqs [re_loose_number, re_spaces, re_dash, re_spaces, re_loose_number])
               message_text
             \<or> re_found (re_seqs [Group 1 (re_words [''entry'', ''buy'', ''sell'']), re_spaces,
                    re_at_sign, re_spaces, re_loose_number2]) normalized);
          has_sl =
            re_found (re_seqs [Group 1 (re_alts [re_lit ''sl'',
                        re_seqs [re_lit ''stop'', re_spaces, re_lit ''loss''], re_lit ''stoploss'']),
                      re_spaces, re_at_sign, re_spaces, re_loose_number2]) normalized;
          has_tp =
            re_found (re_seqs [Group 1 (re_alts [re_seqs [re_lit ''tp'', Star re_digit],
                        re_seqs [re_lit ''take'', re_spaces, re_lit ''profit''], re_lit ''target'']),
                      re_spaces, re_at_sign, re_spaces, re_loose_number2]) normalized
      in has_entry \<and> (has_sl \<or> has_tp))"

definition re_upper3 :: regex where
  "re_upper3 = re_seqs [Atom [C_range (CHR ''A'') (CHR ''Z'')], Atom [C_range (CHR ''A'') (CHR ''Z'')],
                        Atom [C_range (CHR ''A'') (CHR ''Z'')]]"

text \<open>\<^verbatim>\<open>_extract_symbol\<close>, lines 351-377. \<open>syms\<close> is \<^verbatim>\<open>self.common_symbols\<close> in the order the
  set is iterated, which Python does not fix.\<close>

definition extract_symbol :: "string list \<Rightarrow> string \<Rightarrow> string option" where
  "extract_symbol syms message_text =
     (let message_upper = upper message_text in
      case find (\<lambda>symbol. contains symbol message_upper) syms of
        Some symbol \<Rightarrow>
          Some (case map_of symbol_map symbol of Some mapped \<Rightarrow> mapped | None \<Rightarrow> symbol)
      | None \<Rightarrow>
          (case re_search (re_seqs [Bound, Group 1 re_upper3,
                   Opt (Atom [C_chr (CHR ''/''), C_space]), Group 2 re_upper3, Bound])
                  message_upper of
             Some forex_match \<Rightarrow> Some (re_group forex_match 1 @ re_group forex_match 2)
           | None \<Rightarrow>
               (case re_search (re_seqs [Bound,
                        Group 1 (re_words [''BTC'', ''ETH'', ''XRP'', ''ADA'', ''SOL'']), Bound])
                       message_upper of
                  Some crypto_match \<Rightarrow> Some (re_group crypto_match 1)
                | None \<Rightarrow>
                    (case re_search (re_seqs [Bound,
                             Group 1 (Seq (Atom [C_range (CHR ''A'') (CHR ''Z'')])
                                        (re_upto 4 (Atom [C_range (CHR ''A'') (CHR ''Z'')]))),
                             Bound, re_spaces, Group 2 (re_words [''stock'', ''share''])])
                            message_upper of
                       Some stock_match \<Rightarrow> Some (re_group stock_match 1)
                     | None \<Rightarrow> None))))"

text \<open>\<^verbatim>\<open>classify_message\<close>, lines 91-170: the category and the modification type.\<close>

definition classify_message :: "string list \<Rightarrow> string \<Rightarrow> string \<times> string option" where
  "classify_message syms message_text =
     (let normalized = lower message_text in
      if list_ex (\<lambda>pattern. re_found pattern normalized) commentary_patterns
      then (''commentary'', None)
      else (case find (\<lambda>(mod_type, patterns).
                         list_ex (\<lambda>pattern. re_found pattern normalized) patterns)
                   modification_patterns of
          Some (mod_type, patterns) \<Rightarrow> (''modification'', Some mod_type)
        | None \<Rightarrow>
            let has_symbol = (extract_symbol syms message_text \<noteq> None);
                has_prices = has_price_structure message_text
            in if has_symbol \<and> has_prices then (''actionable_signal'', None)
               else (''commentary'', None)))"

text \<open>\<^verbatim>\<open>_determine_signal_type\<close>, lines 316-349.\<close>

definition any_word_in :: "string list \<Rightarrow> string \<Rightarrow> bool" where
  "any_word_in ws normalized_message = list_ex (\<lambda>word. contains word normalized_message) ws"

definition determine_signal_type :: "string \<Rightarrow> string option" where
  "determine_signal_type normalized_message =
     (if any_word_in [''buy'', ''long'', ''entrada'', ''compra'', ''go long'', ''bullish'', ''upside'',
                      ''buy stop'', ''buy limit''] normalized_message then Some ''buy''
      else if any_word_in [''sell'', ''short'', ''salida'', ''venta'', ''go short'', ''bearish'',
                           ''downside'', ''sell stop'', ''sell limit''] normalized_message
      then Some ''sell''
      else if any_word_in [''close'', ''cierre'', ''cancelar'', ''exit'', ''liquidate'']
                normalized_message then Some ''close''
      else if any_word_in [''tp update'', ''take profit update'', ''target update'', ''nuevo tp'']
                normalized_message then Some ''tp_update''
      else if any_word_in [''sl update'', ''stop loss update'', ''nuevo sl'', ''stoploss update'']
                normalized_message then Some ''sl_update''
      else if any_word_in [''modify'', ''update'', ''change'', ''adjust'', ''modify position'']
                normalized_message then Some ''modify''
      else None)"

text \<open>\<^verbatim>\<open>_extract_prices\<close>, lines 379-513. The dictionary \<^verbatim>\<open>prices\<close> is a record; the
  function is cut at its numbered comments into steps that pass the record on.\<close>

record prices =
  px_entry :: "rat option"
  px_entry_range :: "rat list"
  px_stop_loss :: "rat option"
  px_take_profit :: "rat option"
  px_take_profits :: "rat list"

text \<open>\<^verbatim>\<open>\b\d{1,7}(?:\.\d{1,5})?\b\<close>.\<close>

definition price_pattern :: regex where
  "price_pattern =
     re_seqs [Bound, re_digit, re_upto 6 re_digit,
              Opt (re_seqs [re_chr (CHR ''.''), re_digit, re_upto 4 re_digit]), Bound]"

definition range_pattern :: regex where
  "range_pattern =
     re_seqs [Opt (re_words [''entry'', ''enter'', ''entrada'', ''@'', ''at'', ''price'', ''buy'',
                             ''sell'']),
              re_colon_spaces, Group 1 price_pattern, re_spaces,
              re_alts [re_lit ''-'', re_lit [CHR 0xE2, CHR 0x80, CHR 0x93],
                       re_lit [CHR 0xE2, CHR 0x80, CHR 0x94], re_lit ''to'', re_lit ''/''],
              re_spaces, Group 2 price_pattern]"

definition entry_patterns :: "regex list" where
  "entry_patterns =
     [re_seqs [re_words [''entry'', ''enter'', ''entrada'', ''open'', ''initial'', ''@'', ''at'',
                         ''price''],
               re_colon_spaces, Group 1 price_pattern],
      re_seqs [re_words [''buy'', ''sell''], re_plus re_space,
               Opt (re_alts [re_lit ''gold'', re_lit ''silver'', re_lit ''oil'', re_lit ''us30'',
                             re_lit ''nas100'', re_lit ''eurusd'', re_lit ''gbpusd'',
                             re_plus (Atom [C_word, C_chr (CHR ''/'')])]),
               re_spaces, Group 1 price_pattern]]"

definition sl_patterns :: "regex list" where
  "sl_patterns =
     [re_seqs [re_words [''sl'', ''stop loss'', ''stoploss'', ''stop'', ''risk''],
               re_colon_spaces, Group 1 price_pattern]]"

definition tp_words :: regex where
  "tp_words = re_words [''tp'', ''take profit'', ''target'']"

definition tp_label_pattern :: regex where
  "tp_label_pattern =
     re_seqs [tp_words, re_spaces, Opt (re_plus re_digit), re_spaces,
              Opt (re_words [''open'', ''at'', ''target'']), re_colon_spaces,
              Group 1 price_pattern]"

text \<open>\<^verbatim>\<open>price(?:\s*[/|]\s*price)*\<close>.\<close>

definition price_list :: regex where
  "price_list =
     Seq price_pattern
       (Star (re_seqs [re_spaces, Atom [C_chr (CHR ''/''), C_chr (CHR ''|'')], re_spaces,
                       price_pattern]))"

definition list_patterns :: "regex list" where
  "list_patterns =
     [re_seqs [tp_words, Opt (re_chr (CHR ''s'')), re_colon_spaces, Group 1 price_list],
      re_seqs [re_chr (CHR ''(''), re_spaces, Group 1 price_list, re_spaces, re_chr (CHR '')'')]]"

definition tp_patterns :: "regex list" where
  "tp_patterns = [re_seqs [tp_words, re_colon_spaces, Group 1 price_pattern]]"

text \<open>A loop over patterns that stops at the first one found.\<close>

fun search_first :: "regex list \<Rightarrow> string \<Rightarrow> re_match option" where
  "search_first [] s = None"
| "search_first (pattern # patterns) s =
     (case re_search pattern s of Some m \<Rightarrow> Some m | None \<Rightarrow> search_first patterns s)"

text \<open>\<^verbatim>\<open>if val not in xs: xs.append(val)\<close>, for one value and for a list of them.\<close>

definition append_new :: "rat \<Rightarrow> rat list \<Rightarrow> rat list" where
  "append_new val xs = (if val \<in> set xs then xs else xs @ [val])"

definition append_all_new :: "rat list \<Rightarrow> rat list \<Rightarrow> rat list" where
  "append_all_new vals xs = foldl (\<lambda>acc val. append_new val acc) xs vals"

definition zero_division_text :: string where
  "zero_division_text = ''float division by zero''"

text \<open>Lines 393-418: the entry. \<open>Inl\<close> is the ZeroDivisionError of \<^verbatim>\<open>p1 / p2\<close>, which the
  handler for ValueError and IndexError lets through.\<close>

definition extract_entry :: "string \<Rightarrow> prices \<Rightarrow> string + prices" where
  "extract_entry message_lower prices0 =
     (case (case re_search range_pattern message_lower of
              None \<Rightarrow> Inr prices0
            | Some m \<Rightarrow>
                let p1 = py_float (re_group m 1); p2 = py_float (re_group m 2)
                in if p2 = 0 then Inl zero_division_text
                   else if 1 / 2 < p1 / p2 \<and> p1 / p2 < 2
                   then Inr (prices0\<lparr>px_entry_range := [min p1 p2, max p1 p2],
                                     px_entry := Some (min p1 p2)\<rparr>)
                   else Inr prices0) of
        Inl e \<Rightarrow> Inl e
      | Inr prices1 \<Rightarrow>
          if \<not> truthy_num (px_entry prices1) then
            (case search_first entry_patterns message_lower of
               Some m \<Rightarrow> Inr (prices1\<lparr>px_entry := Some (py_float (re_group m 1))\<rparr>)
             | None \<Rightarrow> Inr prices1)
          else Inr prices1)"

text \<open>Lines 420-428: the stop loss.\<close>

definition extract_stop_loss :: "string \<Rightarrow> prices \<Rightarrow> prices" where
  "extract_stop_loss message_lower prices1 =
     (case search_first sl_patterns message_lower of
        Some m \<Rightarrow> prices1\<lparr>px_stop_loss := Some (py_float (re_group m 1))\<rparr>
      | None \<Rightarrow> prices1)"

text \<open>Lines 430-471: the take profits, from labels, from lists, and the single fallback.\<close>

definition extract_take_profits :: "string \<Rightarrow> prices \<Rightarrow> prices" where
  "extract_take_profits message_lower prices2 =
     (let labelled =
            append_all_new
              (map (\<lambda>tp_match. py_float (re_group tp_match 1))
                 (re_finditer tp_label_pattern message_lower))
              (px_take_profits prices2);
          listed =
            foldl (\<lambda>acc pattern.
                     case re_search pattern message_lower of
                       Some list_match \<Rightarrow>
                         append_all_new
                           (map py_float (re_findall price_pattern (re_group list_match 1))) acc
                     | None \<Rightarrow> acc)
              labelled list_patterns;
          prices3 = prices2\<lparr>px_take_profits := listed\<rparr>;
          prices4 = (case listed of [] \<Rightarrow> prices3
                     | first # others \<Rightarrow> prices3\<lparr>px_take_profit := Some first\<rparr>)
      in if \<not> truthy_num (px_take_profit prices4) then
           (case search_first tp_patterns message_lower of
              Some m \<Rightarrow>
                let val = py_float (re_group m 1)
                in prices4\<lparr>px_take_profit := Some val,
                           px_take_profits := append_new val (px_take_profits prices4)\<rparr>
            | None \<Rightarrow> prices4)
         else prices4)"

text \<open>Lines 473-513: the general fallback over all numbers of the message.\<close>

definition significant_numbers :: "rat option \<Rightarrow> rat list \<Rightarrow> rat list" where
  "significant_numbers entry all_numbers =
     filter (\<lambda>n. 10 < n \<or>
                  (case entry of
                     Some e \<Rightarrow> e \<noteq> 0 \<and> 1 / 2 < n / e \<and> n / e < 2
                   | None \<Rightarrow> False))
       all_numbers"

definition general_fallback :: "string \<Rightarrow> prices \<Rightarrow> prices" where
  "general_fallback message_text prices5 =
     (let all_numbers = map py_float (re_findall price_pattern message_text);
          significant = significant_numbers (px_entry prices5) all_numbers;
          found_values =
            (case px_entry prices5 of Some v \<Rightarrow> [v] | None \<Rightarrow> [])
            @ (case px_stop_loss prices5 of Some v \<Rightarrow> [v] | None \<Rightarrow> [])
            @ px_entry_range prices5 @ px_take_profits prices5;
          remaining0 = filter (\<lambda>n. n \<notin> set found_values) significant;
          (prices6, remaining1) =
            (if \<not> truthy_num (px_entry prices5) then
               (case significant of
                  first # others \<Rightarrow> (prices5\<lparr>px_entry := Some first\<rparr>, remove1 first remaining0)
                | [] \<Rightarrow> (prices5, remaining0))
             else (prices5, remaining0));
          (prices7, remaining2) =
            (if \<not> truthy_num (px_stop_loss prices6) then
               (case remaining1 of
                  first # others \<Rightarrow> (prices6\<lparr>px_stop_loss := Some first\<rparr>, others)
                | [] \<Rightarrow> (prices6, remaining1))
             else (prices6, remaining1));
          prices8 =
            prices7\<lparr>px_take_profits := append_all_new remaining2 (px_take_profits prices7)\<rparr>
      in if \<not> truthy_num (px_take_profit prices8) then
           (case px_take_profits prices8 of
              first # others \<Rightarrow> prices8\<lparr>px_take_profit := Some first\<rparr>
            | [] \<Rightarrow> prices8)
         else prices8)"

definition extract_prices :: "string \<Rightarrow> string + prices" where
  "extract_prices message_text =
     (let message_lower = lower message_text in
      case extract_entry message_lower
             \<lparr>px_entry = None, px_entry_range = [], px_stop_loss = None, px_take_profit = None,
              px_take_profits = []\<rparr> of
        Inl e \<Rightarrow> Inl e
      | Inr prices1 \<Rightarrow>
          Inr (general_fallback message_text
                 (extract_take_profits message_lower (extract_stop_loss message_lower prices1))))"

text \<open>\<^verbatim>\<open>len\<close> of a text counts its characters: in UTF-8, the bytes that are not
  continuation bytes.\<close>

definition py_len :: "string \<Rightarrow> nat" where
  "py_len s = length (filter (\<lambda>c. \<not> (128 \<le> (of_char c :: nat) \<and> (of_char c :: nat) < 192)) s)"

text \<open>\<^verbatim>\<open>_calculate_confidence\<close>, lines 515-549, in floats.\<close>

definition calculate_confidence ::
  "string option \<Rightarrow> string option \<Rightarrow> rat option \<Rightarrow> rat option \<Rightarrow> rat option \<Rightarrow> string \<Rightarrow> rat" where
  "calculate_confidence signal_type symbol entry stop_loss take_profit message_text =
     (let c0 = to_float (1 / 2);
          c1 = (if truthy_str signal_type then float_add c0 (to_float (15 / 100)) else c0);
          c2 = (if truthy_str symbol then float_add c1 (to_float (15 / 100)) else c1);
          c3 = (if truthy_num entry then float_add c2 (to_float (10 / 100)) else c2);
          c4 = (if truthy_num stop_loss then float_add c3 (to_float (10 / 100)) else c3);
          c5 = (if truthy_num take_profit then float_add c4 (to_float (10 / 100)) else c4);
          c6 = (if 50 < py_len message_text then float_add c5 (to_float (5 / 100)) else c5);
          c7 = (if py_len message_text < 10 then float_sub c6 (to_float (2 / 10)) else c6);
          c8 = (if \<not> truthy_str symbol \<or> \<not> truthy_str signal_type
                then float_mul c7 (to_float (7 / 10)) else c7)
      in min 1 (max 0 c8))"

text \<open>The dictionary \<^verbatim>\<open>parse_signal\<close> returns: the signal fields, and the keys added to
  them. The keys \<^verbatim>\<open>raw_data\<close> and \<^verbatim>\<open>parsed_at\<close> (a timestamp) are left out. The three
  classification keys are missing from the error response.\<close>

record parsed_message =
  pm_signal :: parsed_signal
  pm_parsing_method :: string
  pm_valid :: bool
  pm_error :: "string option"
  pm_message_category :: "string option"
  pm_modification_type :: "string option"
  pm_is_actionable :: "bool option"

text \<open>\<^verbatim>\<open>_parse_with_heuristics\<close>, lines 217-257.\<close>

definition parse_with_heuristics :: "string list \<Rightarrow> string \<Rightarrow> string + parsed_message" where
  "parse_with_heuristics syms message_text =
     (let normalized = lower message_text;
          signal_type = determine_signal_type normalized;
          symbol = extract_symbol syms message_text
      in case extract_prices message_text of
           Inl e \<Rightarrow> Inl e
         | Inr prices \<Rightarrow>
             let entry = px_entry prices;
                 stop_loss = px_stop_loss prices;
                 take_profit = px_take_profit prices;
                 confidence =
                   calculate_confidence signal_type symbol entry stop_loss take_profit message_text
             in Inr \<lparr>pm_signal =
                       \<lparr>ps_symbol = symbol, ps_signal_type = signal_type, ps_entry_price = entry,
                        ps_entry_range = px_entry_range prices, ps_stop_loss = stop_loss,
                        ps_take_profit = take_profit, ps_take_profits = px_take_profits prices,
                        ps_confidence_score = Conf confidence\<rparr>,
                     pm_parsing_method = ''heuristic'',
                     pm_valid = (signal_type \<noteq> None \<and> symbol \<noteq> None),
                     pm_error = None,
                     pm_message_category = None,
                     pm_modification_type = None,
                     pm_is_actionable = None\<rparr>)"

text \<open>What the language model answered, once \<^verbatim>\<open>_parse_llm_response\<close> has read it as a
  JSON object: the values its \<^verbatim>\<open>get\<close> returns. The HTTP call and the JSON reader are not
  code of this repository.\<close>

record llm_reply =
  lr_signal_type :: "string option"
  lr_symbol :: "string option"
  lr_entry_price :: "rat option"
  lr_stop_loss :: "rat option"
  lr_take_profit :: "rat option"
  lr_confidence :: conf_entry

text \<open>\<^verbatim>\<open>_parse_llm_response\<close>, lines 297-311: the record has neither an entry range nor a
  list of take profits.\<close>

definition parse_llm_response :: "llm_reply \<Rightarrow> parsed_message" where
  "parse_llm_response parsed =
     \<lparr>pm_signal =
        \<lparr>ps_symbol = lr_symbol parsed, ps_signal_type = lr_signal_type parsed,
         ps_entry_price = lr_entry_price parsed, ps_entry_range = [],
         ps_stop_loss = lr_stop_loss parsed, ps_take_profit = lr_take_profit parsed,
         ps_take_profits = [],
         ps_confidence_score =
           (case lr_confidence parsed of Conf_absent \<Rightarrow> Conf (1 / 2) | c \<Rightarrow> c)\<rparr>,
      pm_parsing_method = ''llm'',
      pm_valid = (lr_signal_type parsed \<noteq> None \<and> lr_symbol parsed \<noteq> None),
      pm_error = None,
      pm_message_category = None,
      pm_modification_type = None,
      pm_is_actionable = None\<rparr>"

text \<open>\<^verbatim>\<open>_error_response\<close>, lines 551-564.\<close>

definition error_response :: "string \<Rightarrow> parsed_message" where
  "error_response error_message =
     \<lparr>pm_signal =
        \<lparr>ps_symbol = None, ps_signal_type = None, ps_entry_price = None, ps_entry_range = [],
         ps_stop_loss = None, ps_take_profit = None, ps_take_profits = [],
         ps_confidence_score = Conf 0\<rparr>,
      pm_parsing_method = ''error'',
      pm_valid = False,
      pm_error = Some error_message,
      pm_message_category = None,
      pm_modification_type = None,
      pm_is_actionable = None\<rparr>"

text \<open>\<^verbatim>\<open>parse_signal\<close>, lines 64-89. \<open>llm\<close> is \<open>Some\<close> of the model's answer when the parser
  has an API key and the call returned a JSON object; it is \<open>None\<close> when there is no key, and
  when the call or the reading of its answer failed, where the code falls back to the
  heuristics.\<close>

definition parse_signal :: "string list \<Rightarrow> llm_reply option \<Rightarrow> string \<Rightarrow> parsed_message" where
  "parse_signal syms llm message_text =
     (let classification = classify_message syms message_text in
      case (case llm of
              Some parsed \<Rightarrow> Inr (parse_llm_response parsed)
            | None \<Rightarrow> parse_with_heuristics syms message_text) of
        Inl e \<Rightarrow> error_response e
      | Inr result \<Rightarrow>
          result\<lparr>pm_message_category := Some (fst classification),
                 pm_modification_type := snd classification,
                 pm_is_actionable := Some (fst classification = ''actionable_signal'')\<rparr>)"

text \<open>Sample messages: one with a range and a stop loss, one whose range has ends that are
  not within a factor of two, and one whose range ends at zero.\<close>

definition demo_range_message :: string where
  "demo_range_message = ''BTC 50-60 sl 45''"

definition demo_wide_range_message :: string where
  "demo_wide_range_message = ''BTC 1-3 sl 3.5''"

definition demo_zero_range_message :: string where
  "demo_zero_range_message = ''BTC 1-0 sl 3.5''"

section \<open>Properties\<close>

subsection \<open>Stores and traces\<close>

lemma trace_emit [simp]: "w_trace (emit a w) = w_trace w @ [a]"
  by (simp add: emit_def)

lemma trace_put [simp]: "w_trace (put_execution ex w) = w_trace w"
  by (simp add: put_execution_def)

lemma executions_emit [simp]: "w_executions (emit a w) = w_executions w"
  by (simp add: emit_def)

lemma find_execution_emit [simp]: "find_execution i (emit a w) = find_execution i w"
  by (simp add: find_execution_def)

lemma find_map_replace:
  "find (\<lambda>e. ex_id e = ex_id ex) xs \<noteq> None \<Longrightarrow>
   find (\<lambda>e. ex_id e = ex_id ex) (map (\<lambda>e. if ex_id e = ex_id ex then ex else e) xs) = Some ex"
  by (induction xs) auto

lemma find_put_same:
  "find_execution (ex_id ex) w \<noteq> None \<Longrightarrow>
   find_execution (ex_id ex) (put_execution ex w) = Some ex"
  by (simp add: find_execution_def put_execution_def find_map_replace)

lemma find_map_put:
  "find (\<lambda>e. ex_id e = i) (map (\<lambda>e. if ex_id e = ex_id ex then ex else e) xs) =
     (if i = ex_id ex then (case find (\<lambda>e. ex_id e = i) xs of None \<Rightarrow> None | Some r \<Rightarrow> Some ex)
      else find (\<lambda>e. ex_id e = i) xs)"
  by (induction xs) auto

lemma find_put:
  "find_execution i (put_execution ex w) =
     (if i = ex_id ex then (case find_execution i w of None \<Rightarrow> None | Some r \<Rightarrow> Some ex)
      else find_execution i w)"
  by (simp add: find_execution_def put_execution_def find_map_put)

lemma find_execution_mem:
  "distinct (map ex_id xs) \<Longrightarrow> ex \<in> set xs \<Longrightarrow> find (\<lambda>e. ex_id e = ex_id ex) xs = Some ex"
  by (induction xs) (auto simp: image_iff)

lemma distinct_ids_eq:
  "distinct (map ex_id xs) \<Longrightarrow> x \<in> set xs \<Longrightarrow> y \<in> set xs \<Longrightarrow> ex_id x = ex_id y \<Longrightarrow> x = y"
  by (meson distinct_map inj_on_def)

lemma find_Some_mem: "find P xs = Some x \<Longrightarrow> x \<in> set xs \<and> P x"
  by (induction xs) (auto split: if_splits)

lemma new_actions_self [simp]: "new_actions w w = []"
  by (simp add: new_actions_def)

lemma new_actions_put [simp]: "new_actions w (put_execution ex w) = []"
  by (simp add: new_actions_def)

subsection \<open>Pre-trade validation\<close>

text \<open>When validation returns false: exactly the cases the specification lists, with
  "present" read as Python truthiness (neither null nor empty nor zero).\<close>

lemma check_price_levels_fails_iff:
  "fst (check_price_levels ps) = False \<longleftrightarrow>
     (\<exists>entry sl tp. ps_entry_price ps = Some entry \<and> ps_stop_loss ps = Some sl
        \<and> ps_take_profit ps = Some tp \<and> entry \<noteq> 0 \<and> sl \<noteq> 0 \<and> tp \<noteq> 0
        \<and> ((ps_signal_type ps = Some ''buy'' \<and> \<not> (sl < entry \<and> entry < tp))
           \<or> (ps_signal_type ps = Some ''sell'' \<and> \<not> (tp < entry \<and> entry < sl))))"
  by (auto simp: check_price_levels_def split: option.splits)

lemma validate_signal_fails_iff:
  "(\<exists>ws. validate_signal ps = Inr (False, ws)) \<longleftrightarrow>
     (\<not> truthy_str (ps_symbol ps) \<or> \<not> truthy_str (ps_signal_type ps)
      \<or> (ps_confidence_score ps \<noteq> Conf_null \<and> conf_shown (ps_confidence_score ps) < 1 / 2)
      \<or> (ps_confidence_score ps \<noteq> Conf_null \<and> fst (check_price_levels ps) = False))"
  by (cases "ps_confidence_score ps"; cases "check_price_levels ps")
     (auto simp: validate_signal_def check_confidence_def conf_shown_def
           split: sum.splits bool.splits)

text \<open>
  C3 (amended). An execution whose signal fails pre-trade validation is moved to FAILED
  with the recorded error string "Signal validation failed", whatever the reason was; the
  run adds nothing to the trace, so no broker operation (and no broadcast) happens, and
  the result reports the failure. The text "invalid price levels" goes to the log only
  (the warning \<open>Buy_invalid_price_levels\<close>), not into the execution's error.
\<close>

theorem validation_failure_marks_failed:
  assumes "validate_signal ps = Inr (False, ws)"
    and "find_execution (ex_id ex) w \<noteq> None"
  shows "(case process_single_execution env prefs ps ex w of
            (r, w') \<Rightarrow>
              find_execution (ex_id ex) w' =
                Some (ex\<lparr>ex_execution_status := FAILED,
                          ex_execution_error := Some ''Signal validation failed''\<rparr>)
              \<and> new_actions w w' = []
              \<and> \<not> pr_success r \<and> pr_error r = Some ''Signal validation failed'')"
proof -
  let ?ex' = "ex\<lparr>ex_execution_status := FAILED,
                  ex_execution_error := Some ''Signal validation failed''\<rparr>"
  have run: "process_single_execution env prefs ps ex w =
               (process_failure ''Signal validation failed'' (ex_id ex), put_execution ?ex' w)"
    using assms(1) by (simp add: process_single_execution_def process_try_def)
  have "ex_id ?ex' = ex_id ex" by simp
  then have "find_execution (ex_id ex) (put_execution ?ex' w) = Some ?ex'"
    using find_put_same [of ?ex' w] assms(2) by simp
  then show ?thesis
    by (simp add: run process_failure_def)
qed

theorem validation_failure_marks_failed_witness:
  "(case process_single_execution (demo_env (demo_terminal True True) None) None demo_bad_buy
           (demo_execution PENDING) (demo_world [demo_execution PENDING]) of
      (r, w') \<Rightarrow>
        find_execution (ex_id (demo_execution PENDING)) w' =
          Some ((demo_execution PENDING)\<lparr>ex_execution_status := FAILED,
                    ex_execution_error := Some ''Signal validation failed''\<rparr>)
        \<and> new_actions (demo_world [demo_execution PENDING]) w' = []
        \<and> \<not> pr_success r \<and> pr_error r = Some ''Signal validation failed'')"
proof -
  have v: "validate_signal demo_bad_buy =
             Inr (False, [Buy_invalid_price_levels (111 / 100) (11 / 10) (109 / 100)])"
    by code_simp
  have f: "find_execution (ex_id (demo_execution PENDING)) (demo_world [demo_execution PENDING])
             \<noteq> None"
    by (simp add: find_execution_def demo_world_def)
  show ?thesis
    by (rule validation_failure_marks_failed [OF v f])
qed

text \<open>The claim as stated fails on scenario 4: the orientation rule is violated, the
  execution ends FAILED, and its recorded error does not contain "invalid price levels".\<close>

theorem orientation_error_text_counterexample:
  "validate_signal demo_bad_buy =
     Inr (False, [Buy_invalid_price_levels (111 / 100) (11 / 10) (109 / 100)])
   \<and> map ex_execution_status (w_executions (snd (process_single_execution
           (demo_env (demo_terminal True True) None) None demo_bad_buy
           (demo_execution PENDING) (demo_world [demo_execution PENDING])))) = [FAILED]
   \<and> map ex_execution_error (w_executions (snd (process_single_execution
           (demo_env (demo_terminal True True) None) None demo_bad_buy
           (demo_execution PENDING) (demo_world [demo_execution PENDING]))))
       = [Some ''Signal validation failed'']
   \<and> \<not> contains ''invalid price levels'' ''Signal validation failed''"
  by code_simp

subsection \<open>Order placement: pricing and fallback\<close>

lemma order_calls_append [simp]: "order_calls (xs @ ys) = order_calls xs @ order_calls ys"
  by (simp add: order_calls_def)

lemma order_calls_Nil [simp]: "order_calls [] = []"
  by (simp add: order_calls_def)

lemma order_calls_Cons [simp]:
  "order_calls (a # as) = (if is_order_call a then a # order_calls as else order_calls as)"
  by (simp add: order_calls_def)

lemma is_order_call_simps [simp]:
  "is_order_call (market_call ex)" "is_order_call (limit_call ex p c)"
  "\<not> is_order_call (falling_back_event ex)"
  by (simp_all add: market_call_def limit_call_def falling_back_event_def)

lemma update_signal_status_trace:
  "\<exists>evs. w_trace (update_signal_status s w) = w_trace w @ evs \<and> order_calls evs = []"
  by (auto simp: update_signal_status_def Let_def split: option.splits)

lemma connected_emit [simp]: "w_connected (emit a w) = w_connected w"
  by (simp add: emit_def)

lemma connected_put [simp]: "w_connected (put_execution ex w) = w_connected w"
  by (simp add: put_execution_def)

lemma place_order_trace:
  "w_connected w \<Longrightarrow>
   w_trace (snd (place_order term ex use_limit price w)) =
     w_trace w @ expected_order_actions term ex use_limit price"
  by (auto simp: place_order_def expected_order_actions_def Let_def split: option.splits)

lemma call_status_irrelevant [simp]:
  "market_call (ex\<lparr>ex_execution_status := s\<rparr>) = market_call ex"
  "limit_call (ex\<lparr>ex_execution_status := s\<rparr>) p c = limit_call ex p c"
  "falling_back_event (ex\<lparr>ex_execution_status := s\<rparr>) = falling_back_event ex"
  "send_market term conn (ex\<lparr>ex_execution_status := s\<rparr>) = send_market term conn ex"
  by (simp_all add: market_call_def limit_call_def falling_back_event_def send_market_def)

lemma single_entry_pricing_status_irrelevant [simp]:
  "single_entry_pricing (ex\<lparr>ex_execution_status := s\<rparr>) prefs q c =
   single_entry_pricing ex prefs q c"
  by (simp add: single_entry_pricing_def Let_def
        cong: option.case_cong prod.case_cong if_cong)

lemma entry_pricing_status_irrelevant [simp]:
  "entry_pricing (ex\<lparr>ex_execution_status := s\<rparr>) ps prefs qi = entry_pricing ex ps prefs qi"
  by (simp add: entry_pricing_def Let_def
        cong: option.case_cong list.case_cong prod.case_cong if_cong)

lemma expected_status_irrelevant [simp]:
  "expected_order_actions term (ex\<lparr>ex_execution_status := s\<rparr>) ul p =
   expected_order_actions term ex ul p"
  by (simp add: expected_order_actions_def cong: option.case_cong if_cong)

lemma process_connected_trace:
  assumes "t_login (e_terminal env) (bc_login bc) password (bc_server bc)"
  shows "\<exists>post.
     w_trace (outcome_world (process_connected env prefs ps ex bc password w)) =
       w_trace w
       @ [Broker (Call_connect (bc_login bc) (bc_server bc)),
          Broker (Call_get_current_price (ex_symbol ex)),
          Broadcast (Execution_update (ex_id ex) ''executing'' None) (ex_user_id ex)]
       @ expected_order_actions (e_terminal env) ex
           (fst (entry_pricing ex ps prefs (get_current_price (e_terminal env) True (ex_symbol ex))))
           (snd (entry_pricing ex ps prefs (get_current_price (e_terminal env) True (ex_symbol ex))))
       @ post
     \<and> order_calls post = []"
proof -
  let ?trm = "e_terminal env"
  let ?pi = "get_current_price ?trm True (ex_symbol ex)"
  let ?ul = "fst (entry_pricing ex ps prefs ?pi)"
  let ?price = "snd (entry_pricing ex ps prefs ?pi)"
  let ?ex1 = "ex\<lparr>ex_execution_status := EXECUTING\<rparr>"
  let ?w3 = "emit (Broker (Call_get_current_price (ex_symbol ex)))
               ((emit (Broker (Call_connect (bc_login bc) (bc_server bc))) w)\<lparr>w_connected := True\<rparr>)"
  let ?w5 = "emit (Broadcast (Execution_update (ex_id ex) ''executing'' None) (ex_user_id ex))
               (put_execution ?ex1 ?w3)"
  obtain r w6 where po: "place_order ?trm ?ex1 ?ul ?price ?w5 = (r, w6)"
    by (cases "place_order ?trm ?ex1 ?ul ?price ?w5")
  have c5: "w_connected ?w5" by (simp add: emit_def put_execution_def)
  have t6: "w_trace w6 = w_trace ?w5 @ expected_order_actions ?trm ex ?ul ?price"
    using place_order_trace [OF c5, of ?trm ?ex1 ?ul ?price] po by simp
  have t5: "w_trace ?w5 = w_trace w @ [Broker (Call_connect (bc_login bc) (bc_server bc)),
          Broker (Call_get_current_price (ex_symbol ex)),
          Broadcast (Execution_update (ex_id ex) ''executing'' None) (ex_user_id ex)]"
    by (simp add: emit_def put_execution_def)
  have w3c: "w_connected ?w3" by (simp add: emit_def)
  show ?thesis
  proof (cases "or_success r")
    case False
    have "process_connected env prefs ps ex bc password w =
            Inl (case or_error r of Some msg \<Rightarrow> msg | None \<Rightarrow> ''Order execution failed'', w6)"
      using assms po False w3c
      by (simp add: process_connected_def connect_def Let_def split_beta emit_def)
    then show ?thesis
      by (simp add: outcome_world_def t6 t5)
  next
    case True
    let ?ex2 = "?ex1\<lparr>ex_execution_status := EXECUTED, ex_ticket_number := or_ticket r,
                      ex_actual_entry_price := or_entry_price r\<rparr>"
    let ?w8 = "emit (Broadcast (Execution_update (ex_id ex) ''executed'' (ex_ticket_number ?ex2))
                (ex_user_id ex)) (put_execution ?ex2 w6)"
    obtain evs where ev: "w_trace (update_signal_status (ex_signal_id ex) ?w8) = w_trace ?w8 @ evs"
      "order_calls evs = []"
      using update_signal_status_trace by blast
    have "outcome_world (process_connected env prefs ps ex bc password w) =
            update_signal_status (ex_signal_id ex) ?w8"
      using assms po True w3c
      by (simp add: process_connected_def connect_def Let_def split_beta emit_def outcome_world_def)
    then have "w_trace (outcome_world (process_connected env prefs ps ex bc password w)) =
            w_trace ?w8 @ evs"
      using ev(1) by metis
    moreover have "w_trace ?w8 = w_trace w6 @
        [Broadcast (Execution_update (ex_id ex) ''executed'' (or_ticket r)) (ex_user_id ex)]"
      by simp
    ultimately have "w_trace (outcome_world (process_connected env prefs ps ex bc password w)) =
        w_trace w6 @
        [Broadcast (Execution_update (ex_id ex) ''executed'' (or_ticket r)) (ex_user_id ex)] @ evs"
      by simp
    then show ?thesis
      using ev(2) by (simp add: t6 t5)
  qed
qed

lemma run_actions:
  assumes v: "validate_signal ps = Inr (True, ws)"
    and pw: "e_mt5_password env (ex_user_id ex) (ex_broker_config_id ex) = Some password"
            "password \<noteq> []"
    and bc: "e_broker_configs env (ex_broker_config_id ex) = Some bc"
    and login: "t_login (e_terminal env) (bc_login bc) password (bc_server bc)"
  shows "\<exists>post.
     new_actions w (snd (process_single_execution env prefs ps ex w)) =
       [Broker (Call_connect (bc_login bc) (bc_server bc)),
        Broker (Call_get_current_price (ex_symbol ex)),
        Broadcast (Execution_update (ex_id ex) ''executing'' None) (ex_user_id ex)]
       @ expected_order_actions (e_terminal env) ex
           (fst (entry_pricing ex ps prefs (get_current_price (e_terminal env) True (ex_symbol ex))))
           (snd (entry_pricing ex ps prefs (get_current_price (e_terminal env) True (ex_symbol ex))))
       @ post
     \<and> order_calls post = []"
proof -
  let ?ex1 = "ex\<lparr>ex_execution_status := VALIDATED\<rparr>"
  let ?w1 = "put_execution ?ex1 w"
  let ?res = "process_connected env prefs ps ?ex1 bc password ?w1"
  have pt: "process_try env prefs ps ex w = ?res"
    using v pw bc by (simp add: process_try_def Let_def)
  obtain post where tr:
    "w_trace (outcome_world ?res) =
       w_trace ?w1
       @ [Broker (Call_connect (bc_login bc) (bc_server bc)),
          Broker (Call_get_current_price (ex_symbol ?ex1)),
          Broadcast (Execution_update (ex_id ?ex1) ''executing'' None) (ex_user_id ?ex1)]
       @ expected_order_actions (e_terminal env) ?ex1
           (fst (entry_pricing ?ex1 ps prefs (get_current_price (e_terminal env) True (ex_symbol ?ex1))))
           (snd (entry_pricing ?ex1 ps prefs (get_current_price (e_terminal env) True (ex_symbol ?ex1))))
       @ post"
    and oc: "order_calls post = []"
    using process_connected_trace [OF login, of prefs ps ?ex1 ?w1] by blast
  show ?thesis
  proof (cases ?res)
    case (Inr rw)
    then have "snd (process_single_execution env prefs ps ex w) = outcome_world ?res"
      by (cases rw) (simp add: process_single_execution_def pt outcome_world_def)
    then show ?thesis
      using tr oc by (auto simp: new_actions_def)
  next
    case (Inl mw)
    obtain msg w6 where mw: "mw = (msg, w6)" by (cases mw)
    let ?w2 = "put_execution (ex\<lparr>ex_execution_status := FAILED, ex_execution_error := Some msg\<rparr>) w6"
    obtain evs where ev: "w_trace (update_signal_status (ex_signal_id ex) ?w2) = w_trace ?w2 @ evs"
      "order_calls evs = []"
      using update_signal_status_trace by blast
    have ow: "outcome_world ?res = w6"
      using Inl mw by (simp add: outcome_world_def)
    have "snd (process_single_execution env prefs ps ex w) =
            emit (Broadcast (Error_event (ex_id ex) msg) (ex_user_id ex))
              (update_signal_status (ex_signal_id ex) ?w2)"
      using Inl mw by (simp add: process_single_execution_def pt Let_def)
    then have "w_trace (snd (process_single_execution env prefs ps ex w)) =
            w_trace w6 @ evs @ [Broadcast (Error_event (ex_id ex) msg) (ex_user_id ex)]"
      using ev by simp
    then show ?thesis
      using tr oc ev(2) ow by (auto simp: new_actions_def)
  qed
qed

lemma first_order_pre:
  "order_calls pre = [] \<Longrightarrow> is_order_call a \<Longrightarrow> first_order (pre @ a # rest) = Some a"
  by (simp add: first_order_def)





subsection \<open>The confirm endpoint\<close>

lemma validate_confirm_signal_data:
  "validate_signal (confirm_signal_data ex) =
     (if ex_symbol ex = [] then Inr (False, [Signal_missing_symbol])
      else if ex_side ex = [] then Inr (False, [Signal_missing_signal_type])
      else Inr (check_price_levels (confirm_signal_data ex)))"
  by (simp add: validate_signal_def confirm_signal_data_def truthy_str_def check_confidence_def)

lemma check_price_levels_warnings:
  "fst (check_price_levels ps) \<Longrightarrow> check_price_levels ps = (True, [])"
  by (auto simp: check_price_levels_def split: option.splits if_splits)

lemma apply_overrides_fields [simp]:
  "ex_id (apply_overrides request ex) = ex_id ex"
  "ex_user_id (apply_overrides request ex) = ex_user_id ex"
  "ex_signal_id (apply_overrides request ex) = ex_signal_id ex"
  "ex_broker_config_id (apply_overrides request ex) = ex_broker_config_id ex"
  "ex_symbol (apply_overrides request ex) = ex_symbol ex"
  "ex_side (apply_overrides request ex) = ex_side ex"
  "ex_entry_price (apply_overrides request ex) = ex_entry_price ex"
  by (simp_all add: apply_overrides_def)

lemma put_execution_twice [simp]:
  "put_execution ex (put_execution ex w) = put_execution ex w"
  by (simp add: put_execution_def comp_def cong: map_cong)

lemma signals_put [simp]: "w_signals (put_execution ex w) = w_signals w"
  by (simp add: put_execution_def)

lemma new_actions_after_put [simp]:
  "new_actions (put_execution ex w) w' = new_actions w w'"
  by (simp add: new_actions_def)

text \<open>Confirming an execution that is found, has a unique identifier, is in
  PENDING_APPROVAL or FAILED and whose signal and broker configuration exist runs
  \<open>process_single_execution\<close> on the execution with the request's overrides applied and on the
  dictionary built from it.\<close>

lemma confirm_execution_resumes:
  assumes found: "find (\<lambda>e. ex_id e = i \<and> ex_user_id e = u) (w_executions w) = Some ex"
    and ids: "distinct (map ex_id (w_executions w))"
    and st: "ex_execution_status ex = PENDING_APPROVAL \<or> ex_execution_status ex = FAILED"
    and sig: "w_signals w (ex_signal_id ex) \<noteq> None"
    and bc: "e_broker_configs env (ex_broker_config_id ex) \<noteq> None"
  shows "confirm_execution env i request u w =
     (case process_single_execution env (e_prefs env u)
             (confirm_signal_data (apply_overrides request ex)) (apply_overrides request ex)
             (put_execution (apply_overrides request ex) w) of
        (r, w') \<Rightarrow>
          (if pr_success r then Inr (Resumed r) else Inl (rewrapped_400 (pr_error r)), w'))"
proof -
  let ?ex1 = "apply_overrides request ex"
  let ?w1 = "put_execution ?ex1 w"
  let ?sd = "confirm_signal_data ?ex1"
  have mem: "ex \<in> set (w_executions w)" and idu: "ex_id ex = i" "ex_user_id ex = u"
    using find_Some_mem [OF found] by auto
  have f0: "find_execution i w = Some ex"
    using find_execution_mem [OF ids mem] idu by (simp add: find_execution_def)
  have f1: "find_execution i ?w1 = Some ?ex1"
    using find_put_same [of ?ex1 w] f0 idu by simp
  have same: "?ex1\<lparr>ex_entry_price := ps_entry_price ?sd, ex_stop_loss := ps_stop_loss ?sd,
                   ex_take_profit := ps_take_profit ?sd\<rparr> = ?ex1"
    by (simp add: confirm_signal_data_def)
  obtain r w2 where run: "process_single_execution env (e_prefs env u) ?sd ?ex1 ?w1 = (r, w2)"
    by (cases "process_single_execution env (e_prefs env u) ?sd ?ex1 ?w1")
  have es: "execute_signal env (ex_signal_id ex) (ex_broker_config_id ex) u ?sd (Some i) ?w1
              = (Resumed r, w2)"
    using sig bc f1 run by (simp add: execute_signal_def Let_def same)
  show ?thesis
    using st
  proof
    assume "ex_execution_status ex = PENDING_APPROVAL"
    then show ?thesis
      unfolding confirm_execution_def
      using found es run
      by (simp add: Let_def outcome_success_def outcome_error_def)
  next
    assume "ex_execution_status ex = FAILED"
    then show ?thesis
      unfolding confirm_execution_def
      using found es run
      by (simp add: Let_def outcome_success_def outcome_error_def)
  qed
qed

text \<open>
  C10. Confirming an execution \<open>ex\<close> that is found under its user, is in PENDING_APPROVAL or
  FAILED, has a unique identifier and whose signal and broker configuration exist:
  the endpoint re-enters \<open>execute_signal\<close> in resume mode with the dictionary
  \<open>confirm_signal_data\<close>, whose confidence score is the constant 1.0, and answers with the
  engine's result or with an HTTP 400 that carries its error. The engine validates that
  dictionary, and its verdict is the verdict of the other checks alone: when the symbol or
  the side is empty or the price levels are inconsistent, the run stops at validation (the
  detail is "400: Signal validation failed", the execution is FAILED with that error, and
  nothing is broadcast or sent to the broker); otherwise validation passes and the run goes
  on: without a stored password it ends with "MT5 password not configured", and with a
  password and a successful login it connects, asks for the quote and announces the
  execution. The confidence of the original parse is not read at all.
\<close>

theorem confirm_reenters_with_full_confidence:
  assumes found: "find (\<lambda>e. ex_id e = i \<and> ex_user_id e = u) (w_executions w) = Some ex"
    and ids: "distinct (map ex_id (w_executions w))"
    and st: "ex_execution_status ex = PENDING_APPROVAL \<or> ex_execution_status ex = FAILED"
    and sig: "w_signals w (ex_signal_id ex) \<noteq> None"
    and bc: "e_broker_configs env (ex_broker_config_id ex) = Some cfg"
  shows "confirm_execution env i request u w =
           (case execute_signal env (ex_signal_id ex) (ex_broker_config_id ex) u
                   (confirm_signal_data (apply_overrides request ex)) (Some i)
                   (put_execution (apply_overrides request ex) w) of
              (result, w2) \<Rightarrow>
                if outcome_success result then (Inr result, w2)
                else (Inl (rewrapped_400 (outcome_error result)), w2))
       \<and> ps_confidence_score (confirm_signal_data (apply_overrides request ex)) = Conf 1
       \<and> (ex_symbol ex = [] \<or> ex_side ex = []
            \<or> \<not> fst (check_price_levels (confirm_signal_data (apply_overrides request ex))) \<longrightarrow>
          fst (confirm_execution env i request u w) = Inl ''400: Signal validation failed''
          \<and> new_actions w (snd (confirm_execution env i request u w)) = []
          \<and> find_execution i (snd (confirm_execution env i request u w)) =
              Some ((apply_overrides request ex)
                      \<lparr>ex_execution_status := FAILED,
                       ex_execution_error := Some ''Signal validation failed''\<rparr>))
       \<and> (ex_symbol ex \<noteq> [] \<and> ex_side ex \<noteq> []
            \<and> fst (check_price_levels (confirm_signal_data (apply_overrides request ex))) \<longrightarrow>
          (\<not> truthy_str (e_mt5_password env u (ex_broker_config_id ex)) \<longrightarrow>
             fst (confirm_execution env i request u w) = Inl ''400: MT5 password not configured'')
          \<and> (\<forall>password.
                e_mt5_password env u (ex_broker_config_id ex) = Some password \<and> password \<noteq> []
                \<and> t_login (e_terminal env) (bc_login cfg) password (bc_server cfg) \<longrightarrow>
                (\<exists>rest. new_actions w (snd (confirm_execution env i request u w)) =
                   [Broker (Call_connect (bc_login cfg) (bc_server cfg)),
                    Broker (Call_get_current_price (ex_symbol ex)),
                    Broadcast (Execution_update i ''executing'' None) u] @ rest)))"
proof -
  let ?ex1 = "apply_overrides request ex"
  let ?w1 = "put_execution ?ex1 w"
  let ?sd = "confirm_signal_data ?ex1"
  let ?prefs = "e_prefs env u"
  let ?run = "process_single_execution env ?prefs ?sd ?ex1 ?w1"
  have idu: "ex_id ex = i" "ex_user_id ex = u"
    using find_Some_mem [OF found] by auto
  have mem: "ex \<in> set (w_executions w)"
    using find_Some_mem [OF found] by auto
  have f0: "find_execution i w = Some ex"
    using find_execution_mem [OF ids mem] idu by (simp add: find_execution_def)
  have f1: "find_execution i ?w1 = Some ?ex1"
    using find_put_same [of ?ex1 w] f0 idu by simp
  have bc': "e_broker_configs env (ex_broker_config_id ex) \<noteq> None"
    using bc by simp
  have conf: "confirm_execution env i request u w =
     (case ?run of (r, w') \<Rightarrow>
        (if pr_success r then Inr (Resumed r) else Inl (rewrapped_400 (pr_error r)), w'))"
    by (rule confirm_execution_resumes [OF found ids st sig bc'])
  have reenter: "confirm_execution env i request u w =
           (case execute_signal env (ex_signal_id ex) (ex_broker_config_id ex) u ?sd (Some i) ?w1 of
              (result, w2) \<Rightarrow>
                if outcome_success result then (Inr result, w2)
                else (Inl (rewrapped_400 (outcome_error result)), w2))"
    using st
  proof
    assume "ex_execution_status ex = PENDING_APPROVAL"
    then show ?thesis
      unfolding confirm_execution_def
      using found
      by (cases "execute_signal env (ex_signal_id ex) (ex_broker_config_id ex) u ?sd (Some i) ?w1")
         (simp add: Let_def)
  next
    assume "ex_execution_status ex = FAILED"
    then show ?thesis
      unfolding confirm_execution_def
      using found
      by (cases "execute_signal env (ex_signal_id ex) (ex_broker_config_id ex) u ?sd (Some i) ?w1")
         (simp add: Let_def)
  qed
  have one: "ps_confidence_score ?sd = Conf 1"
    by (simp add: confirm_signal_data_def)
  have bad: "fst (confirm_execution env i request u w) = Inl ''400: Signal validation failed''
          \<and> new_actions w (snd (confirm_execution env i request u w)) = []
          \<and> find_execution i (snd (confirm_execution env i request u w)) =
              Some (?ex1\<lparr>ex_execution_status := FAILED,
                         ex_execution_error := Some ''Signal validation failed''\<rparr>)"
    if fails: "ex_symbol ex = [] \<or> ex_side ex = [] \<or> \<not> fst (check_price_levels ?sd)"
  proof -
    have "\<exists>ws. validate_signal ?sd = Inr (False, ws)"
      using fails by (cases "check_price_levels ?sd") (auto simp: validate_confirm_signal_data)
    then obtain ws where v: "validate_signal ?sd = Inr (False, ws)" by blast
    let ?exf = "?ex1\<lparr>ex_execution_status := FAILED,
                      ex_execution_error := Some ''Signal validation failed''\<rparr>"
    have run: "?run = (process_failure ''Signal validation failed'' i, put_execution ?exf ?w1)"
      using v idu by (simp add: process_single_execution_def process_try_def)
    have c: "confirm_execution env i request u w =
               (Inl ''400: Signal validation failed'', put_execution ?exf ?w1)"
      unfolding conf run by (simp add: process_failure_def rewrapped_400_def)
    have "find_execution i (put_execution ?exf ?w1) = Some ?exf"
      using find_put_same [of ?exf ?w1] f1 idu by simp
    then show ?thesis
      unfolding c by (simp add: new_actions_def)
  qed
  have good: "(\<not> truthy_str (e_mt5_password env u (ex_broker_config_id ex)) \<longrightarrow>
             fst (confirm_execution env i request u w) = Inl ''400: MT5 password not configured'')
          \<and> (\<forall>password.
                e_mt5_password env u (ex_broker_config_id ex) = Some password \<and> password \<noteq> []
                \<and> t_login (e_terminal env) (bc_login cfg) password (bc_server cfg) \<longrightarrow>
                (\<exists>rest. new_actions w (snd (confirm_execution env i request u w)) =
                   [Broker (Call_connect (bc_login cfg) (bc_server cfg)),
                    Broker (Call_get_current_price (ex_symbol ex)),
                    Broadcast (Execution_update i ''executing'' None) u] @ rest))"
    if passes: "ex_symbol ex \<noteq> [] \<and> ex_side ex \<noteq> [] \<and> fst (check_price_levels ?sd)"
  proof -
    have v: "validate_signal ?sd = Inr (True, [])"
      using passes check_price_levels_warnings [of ?sd]
      by (simp add: validate_confirm_signal_data)
    have nopw: "fst (confirm_execution env i request u w) = Inl ''400: MT5 password not configured''"
      if "\<not> truthy_str (e_mt5_password env u (ex_broker_config_id ex))"
    proof -
      have "process_try env ?prefs ?sd ?ex1 ?w1 =
              Inl (''MT5 password not configured'',
                   put_execution (?ex1\<lparr>ex_execution_status := VALIDATED\<rparr>) ?w1)"
        using v that idu
        by (auto simp: process_try_def Let_def truthy_str_def split: option.splits)
      then have "fst ?run = process_failure ''MT5 password not configured'' i"
        using idu by (simp add: process_single_execution_def Let_def)
      then show ?thesis
        unfolding conf
        by (cases ?run) (simp add: process_failure_def rewrapped_400_def)
    qed
    have reach: "\<exists>rest. new_actions w (snd (confirm_execution env i request u w)) =
                   [Broker (Call_connect (bc_login cfg) (bc_server cfg)),
                    Broker (Call_get_current_price (ex_symbol ex)),
                    Broadcast (Execution_update i ''executing'' None) u] @ rest"
      if pw: "e_mt5_password env u (ex_broker_config_id ex) = Some password" "password \<noteq> []"
        and login: "t_login (e_terminal env) (bc_login cfg) password (bc_server cfg)"
      for password
    proof -
      have pw1: "e_mt5_password env (ex_user_id ?ex1) (ex_broker_config_id ?ex1) = Some password"
        using pw idu by simp
      have bc1: "e_broker_configs env (ex_broker_config_id ?ex1) = Some cfg"
        using bc by simp
      obtain post where
        "new_actions ?w1 (snd ?run) =
           [Broker (Call_connect (bc_login cfg) (bc_server cfg)),
            Broker (Call_get_current_price (ex_symbol ?ex1)),
            Broadcast (Execution_update (ex_id ?ex1) ''executing'' None) (ex_user_id ?ex1)]
           @ expected_order_actions (e_terminal env) ?ex1
               (fst (entry_pricing ?ex1 ?sd ?prefs
                  (get_current_price (e_terminal env) True (ex_symbol ?ex1))))
               (snd (entry_pricing ?ex1 ?sd ?prefs
                  (get_current_price (e_terminal env) True (ex_symbol ?ex1))))
           @ post"
        using run_actions [OF v pw1 pw(2) bc1 login, where prefs = ?prefs and w = ?w1] by blast
      moreover have "snd (confirm_execution env i request u w) = snd ?run"
        unfolding conf by (cases ?run) simp
      ultimately show ?thesis
        using idu by simp
    qed
    show ?thesis
      using nopw reach by blast
  qed
  show ?thesis
    using reenter one bad good by blast
qed

theorem confirm_reenters_with_full_confidence_witness:
  "ps_confidence_score (confirm_signal_data (apply_overrides no_overrides
       (demo_execution PENDING_APPROVAL))) = Conf 1
   \<and> (\<exists>rest.
        new_actions (demo_world [demo_execution PENDING_APPROVAL])
          (snd (confirm_execution (demo_env (demo_terminal True True) None) 0 no_overrides 7
                  (demo_world [demo_execution PENDING_APPROVAL]))) =
          [Broker (Call_connect 5001 ''Demo-Server''),
           Broker (Call_get_current_price ''EURUSD''),
           Broadcast (Execution_update 0 ''executing'' None) 7] @ rest)"
proof -
  let ?env = "demo_env (demo_terminal True True) None"
  let ?ex = "demo_execution PENDING_APPROVAL"
  let ?w = "demo_world [?ex]"
  let ?cfg = "\<lparr>bc_login = 5001, bc_server = ''Demo-Server''\<rparr>"
  have found: "find (\<lambda>e. ex_id e = 0 \<and> ex_user_id e = 7) (w_executions ?w) = Some ?ex"
    by (simp add: demo_world_def demo_execution_def)
  have ids: "distinct (map ex_id (w_executions ?w))"
    by (simp add: demo_world_def)
  have st: "ex_execution_status ?ex = PENDING_APPROVAL \<or> ex_execution_status ?ex = FAILED"
    by (simp add: demo_execution_def)
  have sig: "w_signals ?w (ex_signal_id ?ex) \<noteq> None"
    by (simp add: demo_world_def demo_execution_def)
  have bc: "e_broker_configs ?env (ex_broker_config_id ?ex) = Some ?cfg"
    by (simp add: demo_env_def)
  have fields: "ex_symbol ?ex \<noteq> []" "ex_side ?ex \<noteq> []"
    by (simp_all add: demo_execution_def)
  have levels: "fst (check_price_levels (confirm_signal_data (apply_overrides no_overrides ?ex)))"
    by code_simp
  have pw: "e_mt5_password ?env 7 (ex_broker_config_id ?ex) = Some ''secret''" "''secret'' \<noteq> []"
    by (simp_all add: demo_env_def)
  have login: "t_login (e_terminal ?env) (bc_login ?cfg) ''secret'' (bc_server ?cfg)"
    by (simp add: demo_env_def demo_terminal_def)
  note th = confirm_reenters_with_full_confidence [OF found ids st sig bc,
              where request = no_overrides]
  have one: "ps_confidence_score (confirm_signal_data (apply_overrides no_overrides ?ex)) = Conf 1"
    using th by blast
  have "\<exists>rest. new_actions ?w (snd (confirm_execution ?env 0 no_overrides 7 ?w)) =
          [Broker (Call_connect (bc_login ?cfg) (bc_server ?cfg)),
           Broker (Call_get_current_price (ex_symbol ?ex)),
           Broadcast (Execution_update 0 ''executing'' None) 7] @ rest"
    using th fields levels pw login by blast
  then have reach: "\<exists>rest. new_actions ?w (snd (confirm_execution ?env 0 no_overrides 7 ?w)) =
          [Broker (Call_connect 5001 ''Demo-Server''),
           Broker (Call_get_current_price ''EURUSD''),
           Broadcast (Execution_update 0 ''executing'' None) 7] @ rest"
    by (simp add: demo_execution_def)
  show ?thesis
    using one reach by blast
qed

subsection \<open>Range pricing on the automatic path and on the confirm path\<close>





subsection \<open>Runs of the engine at concrete inputs\<close>

text \<open>
  C1 at a failing input. A buy with entry range 1.0990 - 1.1000 while the ask is 1.1010 is
  placed as a limit order at 1.1000; the terminal accepts it (ticket 1002). The execution
  is then EXECUTED with its ticket set and its actual entry price null: the dictionary
  \<open>execute_limit_order\<close> returns has the key \<^verbatim>\<open>price\<close> and no key \<^verbatim>\<open>entry_price\<close>, which
  is the key \<^verbatim>\<open>_process_single_execution\<close> reads. The same holds on the fallback path.
\<close>

theorem executed_limit_order_has_no_actual_entry:
  "map (\<lambda>e. (ex_execution_status e, ex_ticket_number e, ex_actual_entry_price e))
     (w_executions (snd (process_single_execution
        (demo_env (demo_terminal True True) None) None demo_range_signal
        (demo_execution PENDING) (demo_world [demo_execution PENDING]))))
   = [(EXECUTED, Some 1002, None)]
   \<and> map (\<lambda>e. (ex_execution_status e, ex_ticket_number e, ex_actual_entry_price e))
     (w_executions (snd (process_single_execution
        (demo_env (demo_terminal False True) None) None demo_signal
        (demo_execution PENDING) (demo_world [demo_execution PENDING]))))
   = [(EXECUTED, Some 1002, None)]"
  by code_simp

text \<open>
  C2 at a failing input. The only execution of signal 1 fails at the broker (market order
  and fallback limit order both rejected): the execution is FAILED, none is EXECUTED or
  CLOSED, and the signal's status becomes "processed".
\<close>

theorem all_failed_signal_is_processed:
  "map ex_execution_status (w_executions (snd (process_single_execution
        (demo_env (demo_terminal False False) None) None demo_signal
        (demo_execution PENDING) (demo_world [demo_execution PENDING])))) = [FAILED]
   \<and> map_option sg_status (w_signals (snd (process_single_execution
        (demo_env (demo_terminal False False) None) None demo_signal
        (demo_execution PENDING) (demo_world [demo_execution PENDING]))) 1) = Some ''processed''"
  by code_simp

subsection \<open>The notification hub\<close>

lemma send_all_count:
  "count_list (send_all send_ok message conns) (Send_text c message) = count_list conns c"
  by (induction conns) auto

lemma send_all_sends:
  "Send_text c e \<in> set (send_all send_ok message conns) \<longleftrightarrow> c \<in> set conns \<and> e = message"
  by (induction conns) auto

lemma send_all_logs:
  "Log_send_error c \<in> set (send_all send_ok message conns) \<longleftrightarrow> c \<in> set conns \<and> \<not> send_ok c"
  by (induction conns) auto

lemma count_list_distinct: "distinct xs \<Longrightarrow> count_list xs x \<le> Suc 0"
  by (induction xs) auto

text \<open>
  C9 (amended). A broadcast to a user whose registry entry is the list \<open>conns\<close> calls
  \<^verbatim>\<open>send_text\<close> once per entry of the list, so a session registered once is sent the
  message at most once; an error of \<^verbatim>\<open>send_text\<close> is logged, for exactly the sessions
  whose send raises; and the registry is left as it was: no session is removed.
\<close>

theorem broadcast_sends_once_and_keeps_sessions:
  assumes "map_of (cm_active_connections m) u = Some conns"
  shows "fst (broadcast send_ok m message (Some u)) = m
       \<and> (\<forall>c. count_list (snd (broadcast send_ok m message (Some u))) (Send_text c message)
                = count_list conns c)
       \<and> (distinct conns \<longrightarrow>
            (\<forall>c. count_list (snd (broadcast send_ok m message (Some u))) (Send_text c message)
                   \<le> 1))
       \<and> (\<forall>c. Log_send_error c \<in> set (snd (broadcast send_ok m message (Some u)))
                \<longleftrightarrow> c \<in> set conns \<and> \<not> send_ok c)"
  using assms
  by (simp add: broadcast_def send_all_count send_all_logs count_list_distinct)

theorem broadcast_sends_once_and_keeps_sessions_witness:
  "fst (broadcast (\<lambda>c. c \<noteq> 2) demo_manager (Signal_update 1 ''processed'') (Some 7)) = demo_manager
   \<and> (\<forall>c. count_list (snd (broadcast (\<lambda>c. c \<noteq> 2) demo_manager (Signal_update 1 ''processed'') (Some 7)))
              (Send_text c (Signal_update 1 ''processed'')) \<le> 1)
   \<and> (\<forall>c. Log_send_error c \<in> set (snd (broadcast (\<lambda>c. c \<noteq> 2) demo_manager
              (Signal_update 1 ''processed'') (Some 7))) \<longleftrightarrow> c = 2)"
proof -
  have m: "map_of (cm_active_connections demo_manager) 7 = Some [1, 2]"
    by (simp add: demo_manager_def)
  show ?thesis
    using broadcast_sends_once_and_keeps_sessions [OF m, where send_ok = "\<lambda>c. c \<noteq> 2"
            and message = "Signal_update 1 ''processed''"]
    by auto
qed

text \<open>The claim as stated fails: user 7 has the sessions 1 and 2, the send to session 2
  raises; the error is logged and session 2 is still registered after the broadcast.\<close>

theorem failed_session_stays_registered_counterexample:
  "broadcast (\<lambda>c. c \<noteq> 2) demo_manager (Signal_update 1 ''processed'') (Some 7) =
     (demo_manager,
      [Send_text 1 (Signal_update 1 ''processed''), Send_text 2 (Signal_update 1 ''processed''),
       Log_send_error 2])
   \<and> map_of (cm_active_connections (fst (broadcast (\<lambda>c. c \<noteq> 2) demo_manager
         (Signal_update 1 ''processed'') (Some 7)))) 7 = Some [1, 2]"
  by (simp add: broadcast_def demo_manager_def)

subsection \<open>Fan-out\<close>

lemma statics_emit [simp]: "statics (emit a w) = statics w"
  by (simp add: statics_def)

lemma statics_connected [simp]: "statics (w\<lparr>w_connected := b\<rparr>) = statics w"
  by (simp add: statics_def)

lemma statics_update_signal_status [simp]: "statics (update_signal_status s w) = statics w"
  by (simp add: update_signal_status_def statics_def Let_def emit_def split: option.splits)

lemma next_id_update_signal_status [simp]:
  "w_next_id (update_signal_status s w) = w_next_id w"
  by (simp add: update_signal_status_def Let_def emit_def split: option.splits)

lemma statics_place_order [simp]: "statics (snd (place_order term ex ul price w)) = statics w"
  by (simp add: place_order_def Let_def split: option.splits)

lemma next_id_place_order [simp]:
  "w_next_id (snd (place_order term ex ul price w)) = w_next_id w"
  by (simp add: place_order_def Let_def emit_def split: option.splits)

lemma next_id_emit [simp]: "w_next_id (emit a w) = w_next_id w"
  by (simp add: emit_def)

lemma next_id_put [simp]: "w_next_id (put_execution ex w) = w_next_id w"
  by (simp add: put_execution_def)

lemma statics_put:
  "\<forall>t\<in>set (statics w). fst t = ex_id ex \<longrightarrow> t = fan_out_fields ex \<Longrightarrow>
   statics (put_execution ex w) = statics w"
  unfolding statics_def put_execution_def
  by (induction "w_executions w" arbitrary: w) (auto simp: fan_out_fields_def)

lemma fan_out_fields_update [simp]:
  "fan_out_fields (ex\<lparr>ex_execution_status := s\<rparr>) = fan_out_fields ex"
  "fan_out_fields (ex\<lparr>ex_execution_error := e\<rparr>) = fan_out_fields ex"
  "fan_out_fields (ex\<lparr>ex_ticket_number := t\<rparr>) = fan_out_fields ex"
  "fan_out_fields (ex\<lparr>ex_actual_entry_price := a\<rparr>) = fan_out_fields ex"
  by (simp_all add: fan_out_fields_def)

lemma process_connected_statics:
  assumes "\<forall>t\<in>set (statics w). fst t = ex_id ex \<longrightarrow> t = fan_out_fields ex"
  shows "statics (outcome_world (process_connected env prefs ps ex bc password w)) = statics w
       \<and> w_next_id (outcome_world (process_connected env prefs ps ex bc password w)) = w_next_id w"
  using assms
  by (simp add: process_connected_def outcome_world_def Let_def split_beta statics_put)

lemma process_single_execution_statics:
  assumes "\<forall>t\<in>set (statics w). fst t = ex_id ex \<longrightarrow> t = fan_out_fields ex"
  shows "statics (snd (process_single_execution env prefs ps ex w)) = statics w
       \<and> w_next_id (snd (process_single_execution env prefs ps ex w)) = w_next_id w"
proof (cases "process_try env prefs ps ex w")
  case (Inr rw)
  obtain r w' where rw: "rw = (r, w')" by (cases rw)
  have "statics w' = statics w \<and> w_next_id w' = w_next_id w"
  proof (cases "validate_signal ps")
    case (Inl e)
    then show ?thesis using Inr rw by (simp add: process_try_def)
  next
    case (Inr bw)
    obtain b ws where bw: "bw = (b, ws)" by (cases bw)
    show ?thesis
    proof (cases b)
      case False
      then show ?thesis
        using \<open>process_try env prefs ps ex w = Inr rw\<close> rw Inr bw assms
        by (auto simp: process_try_def statics_put)
    next
      case True
      let ?ex1 = "ex\<lparr>ex_execution_status := VALIDATED\<rparr>"
      let ?w1 = "put_execution ?ex1 w"
      have s1: "statics ?w1 = statics w" "w_next_id ?w1 = w_next_id w"
        using assms by (simp_all add: statics_put)
      have pre: "\<forall>t\<in>set (statics ?w1). fst t = ex_id ?ex1 \<longrightarrow> t = fan_out_fields ?ex1"
        using assms s1 by simp
      from \<open>process_try env prefs ps ex w = Inr rw\<close> rw Inr bw True
      obtain bc password where
        "process_connected env prefs ps ?ex1 bc password ?w1 = Inr (r, w')"
        by (auto simp: process_try_def Let_def split: option.splits if_splits)
      then show ?thesis
        using process_connected_statics [OF pre, of env prefs ps bc password] s1
        by (simp add: outcome_world_def)
    qed
  qed
  then show ?thesis
    using Inr rw by (simp add: process_single_execution_def)
next
  case (Inl mw)
  obtain msg w1 where mw: "mw = (msg, w1)" by (cases mw)
  have "statics w1 = statics w \<and> w_next_id w1 = w_next_id w"
  proof (cases "validate_signal ps")
    case (Inl e)
    then show ?thesis
      using \<open>process_try env prefs ps ex w = Inl mw\<close> mw by (simp add: process_try_def)
  next
    case (Inr bw)
    obtain b ws where bw: "bw = (b, ws)" by (cases bw)
    show ?thesis
    proof (cases b)
      case False
      then show ?thesis
        using \<open>process_try env prefs ps ex w = Inl mw\<close> mw Inr bw
        by (simp add: process_try_def)
    next
      case True
      let ?ex1 = "ex\<lparr>ex_execution_status := VALIDATED\<rparr>"
      let ?w1 = "put_execution ?ex1 w"
      have s1: "statics ?w1 = statics w" "w_next_id ?w1 = w_next_id w"
        using assms by (simp_all add: statics_put)
      have pre: "\<forall>t\<in>set (statics ?w1). fst t = ex_id ?ex1 \<longrightarrow> t = fan_out_fields ?ex1"
        using assms s1 by simp
      from \<open>process_try env prefs ps ex w = Inl mw\<close> mw Inr bw True
      have "w1 = ?w1 \<or> (\<exists>bc password.
              process_connected env prefs ps ?ex1 bc password ?w1 = Inl (msg, w1))"
        by (auto simp: process_try_def Let_def split: option.splits if_splits)
      then show ?thesis
      proof
        assume "w1 = ?w1" then show ?thesis using s1 by simp
      next
        assume "\<exists>bc password. process_connected env prefs ps ?ex1 bc password ?w1 = Inl (msg, w1)"
        then obtain bc password where
          "process_connected env prefs ps ?ex1 bc password ?w1 = Inl (msg, w1)" by blast
        then show ?thesis
          using process_connected_statics [OF pre, of env prefs ps bc password] s1
          by (simp add: outcome_world_def)
      qed
    qed
  qed
  then show ?thesis
    using Inl mw assms by (simp add: process_single_execution_def Let_def statics_put)
qed

lemma statics_add:
  "statics (add_execution ex w) = statics w @ [fan_out_fields ex]"
  "w_next_id (add_execution ex w) = Suc (w_next_id w)"
  by (simp_all add: statics_def add_execution_def)

lemma new_execution_fields:
  "ps_symbol ps = Some sy \<Longrightarrow> ps_signal_type ps = Some si \<Longrightarrow>
   \<exists>ex. new_execution i u s b ps v tp st = Inr ex \<and> fan_out_fields ex = (i, v, tp)
        \<and> ex_id ex = i \<and> ex_execution_status ex = st"
  by (simp add: new_execution_def fan_out_fields_def)

lemma auto_execute_statics:
  assumes "ps_symbol ps = Some sy" "ps_signal_type ps = Some si"
    and "\<forall>t\<in>set (statics w). fst t < w_next_id w"
  shows "\<exists>results w'. auto_execute env prefs u s b ps v tps w = Inr (results, w')
       \<and> statics w' = statics w @ map (\<lambda>(k, tp). (w_next_id w + k, v, tp)) (enumerate 0 tps)
       \<and> w_next_id w' = w_next_id w + length tps \<and> length results = length tps"
  using assms(3)
proof (induction tps arbitrary: w)
  case Nil
  then show ?case by simp
next
  case (Cons tp tps)
  obtain ex where ex: "new_execution (w_next_id w) u s b ps v tp PENDING = Inr ex"
    "fan_out_fields ex = (w_next_id w, v, tp)" "ex_id ex = w_next_id w"
    using new_execution_fields [OF assms(1,2)] by blast
  let ?w1 = "add_execution ex w"
  obtain res w2 where run: "process_single_execution env prefs ps ex ?w1 = (res, w2)"
    by (cases "process_single_execution env prefs ps ex ?w1")
  have pre: "\<forall>t\<in>set (statics ?w1). fst t = ex_id ex \<longrightarrow> t = fan_out_fields ex"
    using Cons.prems ex by (auto simp: statics_add)
  have s2: "statics w2 = statics w @ [(w_next_id w, v, tp)]" "w_next_id w2 = Suc (w_next_id w)"
    using process_single_execution_statics [OF pre, of env prefs ps] run ex
    by (simp_all add: statics_add)
  have fresh2: "\<forall>t\<in>set (statics w2). fst t < w_next_id w2"
    using Cons.prems s2 by auto
  obtain results w' where rec: "auto_execute env prefs u s b ps v tps w2 = Inr (results, w')"
    "statics w' = statics w2 @ map (\<lambda>(k, tp). (w_next_id w2 + k, v, tp)) (enumerate 0 tps)"
    "w_next_id w' = w_next_id w2 + length tps" "length results = length tps"
    using Cons.IH [OF fresh2] by blast
  have "auto_execute env prefs u s b ps v (tp # tps) w = Inr (res # results, w')"
    using ex run rec by (simp add: Let_def)
  moreover have "map (\<lambda>(k, tp). (w_next_id w2 + k, v, tp)) (enumerate 0 tps) =
         map (\<lambda>(k, tp). (w_next_id w + k, v, tp)) (enumerate 1 tps)"
    by (simp add: s2 enumerate_eq_zip map_zip_map2 [symmetric] zip_map1 
             del: upt_Suc) (simp add: map_Suc_upt [symmetric] zip_map1 split_def del: upt_Suc)
  ultimately show ?case
    using rec s2 by (simp add: enumerate_simps)
qed

lemma create_pending_statics:
  assumes "ps_symbol ps = Some sy" "ps_signal_type ps = Some si"
  shows "\<exists>ids w'. create_pending u s b ps v tps w = Inr (ids, w')
       \<and> statics w' = statics w @ map (\<lambda>(k, tp). (w_next_id w + k, v, tp)) (enumerate 0 tps)
       \<and> w_next_id w' = w_next_id w + length tps"
proof (induction tps arbitrary: w)
  case Nil
  then show ?case by simp
next
  case (Cons tp tps)
  obtain ex where ex: "new_execution (w_next_id w) u s b ps v tp PENDING_APPROVAL = Inr ex"
    "fan_out_fields ex = (w_next_id w, v, tp)" "ex_id ex = w_next_id w"
    using new_execution_fields [OF assms] by blast
  let ?w2 = "emit (Broadcast (Signal_approval_required s (ex_id ex)) u) (add_execution ex w)"
  have s2: "statics ?w2 = statics w @ [(w_next_id w, v, tp)]" "w_next_id ?w2 = Suc (w_next_id w)"
    using ex by (simp_all add: statics_add)
  obtain ids w' where rec: "create_pending u s b ps v tps ?w2 = Inr (ids, w')"
    "statics w' = statics ?w2 @ map (\<lambda>(k, tp). (w_next_id ?w2 + k, v, tp)) (enumerate 0 tps)"
    "w_next_id w' = w_next_id ?w2 + length tps"
    using Cons.IH by blast
  have "create_pending u s b ps v (tp # tps) w = Inr (ex_id ex # ids, w')"
    using ex rec by (simp add: Let_def)
  moreover have "map (\<lambda>(k, tp). (w_next_id ?w2 + k, v, tp)) (enumerate 0 tps) =
         map (\<lambda>(k, tp). (w_next_id w + k, v, tp)) (enumerate 1 tps)"
    by (simp add: statics_add enumerate_eq_zip map_zip_map2 [symmetric] zip_map1
             del: upt_Suc) (simp add: map_Suc_upt [symmetric] zip_map1 split_def del: upt_Suc)
  ultimately show ?case
    using rec s2 by (simp add: enumerate_simps statics_add)
qed

lemma length_compute_tps: "length (compute_tps ps) = max 1 (length (ps_take_profits ps))"
  by (cases "ps_take_profits ps") (simp_all add: compute_tps_def Let_def)

lemma pos_volume_eq:
  "pos_volume prefs n = max (1 / 100) (py_round2 (float_div (total_volume prefs) (of_nat n)))"
  by (simp add: pos_volume_def Let_def max_def)

lemma created_from_statics:
  assumes "statics w' = statics w @ map (\<lambda>(k, tp). (n + k, v, tp)) (enumerate 0 tps)"
  shows "length (created_executions w w') = length tps
       \<and> map ex_take_profit (created_executions w w') = tps
       \<and> (\<forall>e\<in>set (created_executions w w'). ex_volume e = v)"
proof -
  have len: "length (w_executions w') = length (w_executions w) + length tps"
    using arg_cong [OF assms, of length] by (simp add: statics_def)
  have "drop (length (w_executions w)) (statics w') =
          map (\<lambda>(k, tp). (n + k, v, tp)) (enumerate 0 tps)"
    using assms by (simp add: statics_def)
  then have m: "map fan_out_fields (created_executions w w') =
          map (\<lambda>(k, tp). (n + k, v, tp)) (enumerate 0 tps)"
    by (simp add: statics_def created_executions_def drop_map)
  have l: "length (created_executions w w') = length tps"
    using len by (simp add: created_executions_def)
  have "map (\<lambda>e. snd (snd (fan_out_fields e))) (created_executions w w') =
          map (\<lambda>t. snd (snd t)) (map (\<lambda>(k, tp). (n + k, v, tp)) (enumerate 0 tps))"
    using arg_cong [OF m, of "map (\<lambda>t. snd (snd t))"] by (simp add: comp_def)
  then have tp: "map ex_take_profit (created_executions w w') = tps"
    by (simp add: fan_out_fields_def comp_def split_def enumerate_eq_zip)
  have "\<forall>e\<in>set (created_executions w w'). ex_volume e = v"
  proof
    fix e assume "e \<in> set (created_executions w w')"
    then have "fan_out_fields e \<in> set (map fan_out_fields (created_executions w w'))"
      by simp
    then have "fan_out_fields e \<in> set (map (\<lambda>(k, tp). (n + k, v, tp)) (enumerate 0 tps))"
      using m by simp
    then show "ex_volume e = v"
      by (auto simp: fan_out_fields_def)
  qed
  then show ?thesis using l tp by blast
qed

text \<open>
  C6 (amended). For a first (non-resume) call of \<open>execute_signal\<close> on a signal whose row and
  broker configuration exist, in a store whose identifiers come from its counter.
  When manual approval is on and the signal does not pass validation, no execution is
  created and the call reports failure.
  Otherwise, when the record has a symbol and a side (and the risk, if set, is in the range
  of floats): the number of executions created is \<open>max 1 (length take_profits)\<close>, their
  take-profits are the elements of the TP list in order, and each has the volume
  \<open>max 0.01 (round (T / number of TPs, 2))\<close>, computed in floats as Python does, where \<open>T\<close>
  is \<open>float(risk_per_trade)\<close> when the preferences exist and the risk is non-zero, and 1.0
  otherwise (\<open>total_volume\<close>).
\<close>

theorem fan_out_count_and_volume:
  assumes sig: "w_signals w signal_id \<noteq> None"
    and bc: "e_broker_configs env broker_config_id \<noteq> None"
    and fresh: "\<forall>e\<in>set (w_executions w). ex_id e < w_next_id w"
  shows "(manual_approval_on (e_prefs env user_id)
            \<and> (\<forall>ws. validate_signal ps \<noteq> Inr (True, ws)) \<longrightarrow>
          created_executions w
            (snd (execute_signal env signal_id broker_config_id user_id ps None w)) = []
          \<and> \<not> outcome_success
                (fst (execute_signal env signal_id broker_config_id user_id ps None w)))
       \<and> ((manual_approval_on (e_prefs env user_id) \<longrightarrow>
             (\<exists>ws. validate_signal ps = Inr (True, ws)))
            \<and> ps_symbol ps = Some sy \<and> ps_signal_type ps = Some si
            \<and> risk_in_range (e_prefs env user_id) \<longrightarrow>
          length (created_executions w
            (snd (execute_signal env signal_id broker_config_id user_id ps None w)))
           = max 1 (length (ps_take_profits ps))
          \<and> map ex_take_profit (created_executions w
            (snd (execute_signal env signal_id broker_config_id user_id ps None w)))
           = compute_tps ps
          \<and> (\<forall>e\<in>set (created_executions w
                (snd (execute_signal env signal_id broker_config_id user_id ps None w))).
                ex_volume e =
                  max (1 / 100)
                    (py_round2 (float_div (total_volume (e_prefs env user_id))
                       (of_nat (max 1 (length (ps_take_profits ps))))))))"
proof -
  let ?prefs = "e_prefs env user_id"
  let ?tps = "compute_tps ps"
  let ?v = "pos_volume ?prefs (length ?tps)"
  let ?run = "execute_signal env signal_id broker_config_id user_id ps None w"
  let ?w' = "snd ?run"
  obtain sg where sg: "w_signals w signal_id = Some sg"
    using sig by auto
  obtain cfg where cfg: "e_broker_configs env broker_config_id = Some cfg"
    using bc by auto
  have refused: "created_executions w ?w' = [] \<and> \<not> outcome_success (fst ?run)"
    if manual: "manual_approval_on ?prefs" and invalid: "\<forall>ws. validate_signal ps \<noteq> Inr (True, ws)"
  proof (cases "validate_signal ps")
    case (Inl e)
    then have "?run = (Exec_error e, w)"
      using sg cfg manual by (simp add: execute_signal_def Let_def)
    then show ?thesis
      by (simp add: created_executions_def outcome_success_def)
  next
    case (Inr bw)
    obtain b ws where bw: "bw = (b, ws)" by (cases bw)
    have "\<not> b" using invalid Inr bw by auto
    then have "?run = (Exec_error ''Validation failed'', w)"
      using sg cfg manual Inr bw by (simp add: execute_signal_def Let_def)
    then show ?thesis
      by (simp add: created_executions_def outcome_success_def)
  qed
  have created: "length (created_executions w ?w') = max 1 (length (ps_take_profits ps))
          \<and> map ex_take_profit (created_executions w ?w') = compute_tps ps
          \<and> (\<forall>e\<in>set (created_executions w ?w').
                ex_volume e =
                  max (1 / 100)
                    (py_round2 (float_div (total_volume ?prefs)
                       (of_nat (max 1 (length (ps_take_profits ps)))))))"
    if gate: "manual_approval_on ?prefs \<longrightarrow> (\<exists>ws. validate_signal ps = Inr (True, ws))"
      and sym: "ps_symbol ps = Some sy" and side: "ps_signal_type ps = Some si"
  proof -
    have "statics ?w' = statics w @ map (\<lambda>(k, tp). (w_next_id w + k, ?v, tp)) (enumerate 0 ?tps)"
    proof (cases "manual_approval_on ?prefs")
      case True
      then obtain ws where v: "validate_signal ps = Inr (True, ws)" using gate by blast
      obtain ids w1 where cp:
        "create_pending user_id signal_id broker_config_id ps ?v ?tps w = Inr (ids, w1)"
        "statics w1 = statics w @ map (\<lambda>(k, tp). (w_next_id w + k, ?v, tp)) (enumerate 0 ?tps)"
        using create_pending_statics [OF sym side] by blast
      have "?w' = w1"
        using sig bc True v cp(1) by (auto simp: execute_signal_def Let_def)
      then show ?thesis using cp(2) by simp
    next
      case False
      have fresh': "\<forall>t\<in>set (statics w). fst t < w_next_id w"
        using fresh by (auto simp: statics_def fan_out_fields_def)
      obtain results w1 where ae:
        "auto_execute env ?prefs user_id signal_id broker_config_id ps ?v ?tps w = Inr (results, w1)"
        "statics w1 = statics w @ map (\<lambda>(k, tp). (w_next_id w + k, ?v, tp)) (enumerate 0 ?tps)"
        using auto_execute_statics [OF sym side fresh'] by blast
      have "?w' = w1"
        using sig bc False ae(1) by (auto simp: execute_signal_def Let_def)
      then show ?thesis using ae(2) by simp
    qed
    from created_from_statics [OF this]
    show ?thesis
      by (simp add: length_compute_tps pos_volume_eq)
  qed
  show ?thesis
    using refused created by blast
qed

lemma map_const_replicate: "\<forall>x\<in>set xs. f x = c \<Longrightarrow> map f xs = replicate (length xs) c"
  by (induction xs) auto

theorem fan_out_count_and_volume_witness:
  "map ex_take_profit (created_executions (demo_world [])
     (snd (execute_signal (demo_env (demo_terminal True True)
                             (Some (demo_prefs False (Some (1 / 10)))))
             1 3 7 demo_four_tp_signal None (demo_world []))))
     = map Some [4600, 4598, 4596, 4594]
   \<and> map ex_volume (created_executions (demo_world [])
     (snd (execute_signal (demo_env (demo_terminal True True)
                             (Some (demo_prefs False (Some (1 / 10)))))
             1 3 7 demo_four_tp_signal None (demo_world []))))
     = replicate 4 (3 / 100)
   \<and> created_executions (demo_world [])
     (snd (execute_signal (demo_env (demo_terminal True True) (Some (demo_prefs True (Some 1))))
             1 3 7 (demo_signal\<lparr>ps_signal_type := None\<rparr>) None (demo_world []))) = []"
proof -
  let ?env = "demo_env (demo_terminal True True) (Some (demo_prefs False (Some (1 / 10))))"
  let ?env2 = "demo_env (demo_terminal True True) (Some (demo_prefs True (Some 1)))"
  have sig: "w_signals (demo_world []) 1 \<noteq> None"
    by (simp add: demo_world_def)
  have bc: "e_broker_configs ?env 3 \<noteq> None" "e_broker_configs ?env2 3 \<noteq> None"
    by (simp_all add: demo_env_def)
  have fresh: "\<forall>e\<in>set (w_executions (demo_world [])). ex_id e < w_next_id (demo_world [])"
    by (simp add: demo_world_def)
  have sym: "ps_symbol demo_four_tp_signal = Some ''XAUUSD''"
    and side: "ps_signal_type demo_four_tp_signal = Some ''sell''"
    by (simp_all add: demo_four_tp_signal_def demo_gold_signal_def)
  have gate: "manual_approval_on (e_prefs ?env 7) \<longrightarrow>
                (\<exists>ws. validate_signal demo_four_tp_signal = Inr (True, ws))"
    by (simp add: manual_approval_on_def demo_env_def demo_prefs_def)
  have range: "risk_in_range (e_prefs ?env 7)"
    by (simp add: risk_in_range_def demo_env_def demo_prefs_def double_range_def)
  have n: "max 1 (length (ps_take_profits demo_four_tp_signal)) = 4"
    by (simp add: demo_four_tp_signal_def)
  have tps: "compute_tps demo_four_tp_signal = map Some [4600, 4598, 4596, 4594]"
    by (simp add: compute_tps_def demo_four_tp_signal_def)
  have vol: "max (1 / 100) (py_round2 (float_div (total_volume (e_prefs ?env 7)) (of_nat 4)))
               = 3 / 100"
    by code_simp
  let ?c = "created_executions (demo_world [])
     (snd (execute_signal ?env 1 3 7 demo_four_tp_signal None (demo_world [])))"
  have th: "length ?c = 4 \<and> map ex_take_profit ?c = compute_tps demo_four_tp_signal
      \<and> (\<forall>e\<in>set ?c. ex_volume e =
            max (1 / 100) (py_round2 (float_div (total_volume (e_prefs ?env 7)) (of_nat 4))))"
    using fan_out_count_and_volume [OF sig bc(1) fresh, where user_id = 7
            and ps = demo_four_tp_signal and sy = "''XAUUSD''" and si = "''sell''"]
      gate sym side range
    unfolding n by blast
  then have all: "\<forall>e\<in>set ?c. ex_volume e = 3 / 100"
    unfolding vol by blast
  have "map ex_volume ?c = replicate (length ?c) (3 / 100)"
    by (rule map_const_replicate [OF all])
  then have vols: "map ex_volume ?c = replicate 4 (3 / 100)"
    using th by metis
  have manual: "manual_approval_on (e_prefs ?env2 7)"
    by (simp add: manual_approval_on_def demo_env_def demo_prefs_def)
  have invalid: "\<forall>ws. validate_signal (demo_signal\<lparr>ps_signal_type := None\<rparr>) \<noteq> Inr (True, ws)"
    by (simp add: validate_signal_def demo_signal_def truthy_str_def)
  have none: "created_executions (demo_world [])
     (snd (execute_signal ?env2 1 3 7 (demo_signal\<lparr>ps_signal_type := None\<rparr>) None
             (demo_world []))) = []"
    using fan_out_count_and_volume [OF sig bc(2) fresh, where user_id = 7
            and ps = "demo_signal\<lparr>ps_signal_type := None\<rparr>"]
      manual invalid
    by blast
  show ?thesis
    using th vols none unfolding tps by blast
qed

text \<open>The claim as stated fails twice. With \<open>risk_per_trade = 0\<close> the created execution has
  volume 1.0, not \<open>max 0.01 (round (0 / 1, 2)) = 0.01\<close>. With manual approval on and a signal
  without a side, validation fails and no execution is created, though the TP list has one
  element.\<close>

theorem fan_out_counterexample:
  "map ex_volume (created_executions (demo_world [])
     (snd (execute_signal (demo_env (demo_terminal True True) (Some (demo_prefs False (Some 0))))
             1 3 7 demo_signal None (demo_world [])))) = [1]
   \<and> max (1 / 100)
       (py_round2 (float_div (to_float 0)
          (of_nat (max 1 (length (ps_take_profits demo_signal))))))
       = 1 / 100
   \<and> created_executions (demo_world [])
     (snd (execute_signal (demo_env (demo_terminal True True) (Some (demo_prefs True (Some 1))))
             1 3 7 (demo_signal\<lparr>ps_signal_type := None\<rparr>) None (demo_world []))) = []
   \<and> max 1 (length (ps_take_profits (demo_signal\<lparr>ps_signal_type := None\<rparr>))) = 1"
  by code_simp

subsection \<open>The position synchronizer\<close>

lemma sync_flag_emit [simp]: "w_sync_connected (emit a w) = w_sync_connected w"
  by (simp add: emit_def)

lemma sync_flag_put [simp]: "w_sync_connected (put_execution ex w) = w_sync_connected w"
  by (simp add: put_execution_def)

lemma sync_execution_flag [simp]:
  "w_sync_connected (sync_execution term ps u ex w) = w_sync_connected w"
  by (simp add: sync_execution_def Let_def split: option.splits)

lemma sync_execution_other:
  "i \<noteq> ex_id ex \<Longrightarrow> find_execution i (sync_execution term ps u ex w) = find_execution i w"
  by (simp add: sync_execution_def Let_def find_put split: option.splits)

lemma sync_execution_trace:
  "set (w_trace w) \<subseteq> set (w_trace (sync_execution term ps u ex w))"
  by (auto simp: sync_execution_def Let_def split: option.splits)

lemma sync_execution_absent:
  assumes "ex_ticket_number ex = Some t" "t \<noteq> 0" "lookup_ticket ps t = None"
    and "find_execution (ex_id ex) w = Some ex" "w_sync_connected w"
  shows "(case get_history_deals term True t of
            Some deal \<Rightarrow>
              find_execution (ex_id ex) (sync_execution term ps u ex w) = Some (closed_by deal ex)
              \<and> Broadcast (Position_closed (ex_id ex) (md_profit deal) (md_price deal)) u
                  \<in> set (w_trace (sync_execution term ps u ex w))
          | None \<Rightarrow> find_execution (ex_id ex) (sync_execution term ps u ex w) = Some ex)"
  using assms
  by (simp add: sync_execution_def Let_def find_put closed_by_def split: option.splits)

lemma sync_loop_flag [simp]:
  "w_sync_connected (sync_loop term ps u exs w) = w_sync_connected w"
  by (induction exs arbitrary: w) simp_all

lemma sync_loop_other:
  "i \<notin> ex_id ` set exs \<Longrightarrow> find_execution i (sync_loop term ps u exs w) = find_execution i w"
  by (induction exs arbitrary: w) (simp_all add: sync_execution_other)

lemma sync_loop_trace: "set (w_trace w) \<subseteq> set (w_trace (sync_loop term ps u exs w))"
proof (induction exs arbitrary: w)
  case Nil
  then show ?case by simp
next
  case (Cons ex exs)
  show ?case
    using sync_execution_trace [of w "term" ps u ex]
      Cons.IH [of "sync_execution term ps u ex w"] by auto
qed

lemma sync_loop_absent:
  assumes "ex_ticket_number ex = Some t" "t \<noteq> 0" "lookup_ticket ps t = None"
    and "distinct (map ex_id exs)" "ex \<in> set exs"
    and "find_execution (ex_id ex) w = Some ex" "w_sync_connected w"
  shows "(case get_history_deals term True t of
            Some deal \<Rightarrow>
              find_execution (ex_id ex) (sync_loop term ps u exs w) = Some (closed_by deal ex)
              \<and> Broadcast (Position_closed (ex_id ex) (md_profit deal) (md_price deal)) u
                  \<in> set (w_trace (sync_loop term ps u exs w))
          | None \<Rightarrow> find_execution (ex_id ex) (sync_loop term ps u exs w) = Some ex)"
  using assms(4-7)
proof (induction exs arbitrary: w)
  case Nil
  then show ?case by simp
next
  case (Cons x exs)
  let ?w1 = "sync_execution term ps u x w"
  show ?case
  proof (cases "x = ex")
    case True
    then have notin: "ex_id ex \<notin> ex_id ` set exs"
      using Cons.prems(1) by auto
    let ?v = "sync_execution term ps u ex w"
    have row: "find_execution (ex_id ex) (sync_loop term ps u exs ?v) =
                 find_execution (ex_id ex) ?v"
      by (rule sync_loop_other [OF notin])
    have step: "(case get_history_deals term True t of
            Some deal \<Rightarrow>
              find_execution (ex_id ex) ?v = Some (closed_by deal ex)
              \<and> Broadcast (Position_closed (ex_id ex) (md_profit deal) (md_price deal)) u
                  \<in> set (w_trace ?v)
          | None \<Rightarrow> find_execution (ex_id ex) ?v = Some ex)"
      by (rule sync_execution_absent [OF assms(1-3) Cons.prems(3,4)])
    have goal: "(case get_history_deals term True t of
            Some deal \<Rightarrow>
              find_execution (ex_id ex) (sync_loop term ps u exs ?v) = Some (closed_by deal ex)
              \<and> Broadcast (Position_closed (ex_id ex) (md_profit deal) (md_price deal)) u
                  \<in> set (w_trace (sync_loop term ps u exs ?v))
          | None \<Rightarrow> find_execution (ex_id ex) (sync_loop term ps u exs ?v) = Some ex)"
      using step row sync_loop_trace [of ?v "term" ps u exs]
      by (auto split: option.splits)
    show ?thesis
      unfolding True sync_loop.simps by (rule goal)
  next
    case False
    then have mem: "ex \<in> set exs" using Cons.prems(2) by simp
    have "ex_id x \<noteq> ex_id ex"
      using Cons.prems(1) mem by auto
    then have row: "find_execution (ex_id ex) ?w1 = Some ex"
      using sync_execution_other [of "ex_id ex" x "term" ps u w] Cons.prems(3) by simp
    have d: "distinct (map ex_id exs)" using Cons.prems(1) by simp
    have fl: "w_sync_connected ?w1" using Cons.prems(4) by simp
    show ?thesis
      unfolding sync_loop.simps by (rule Cons.IH [OF d mem row fl])
  qed
qed

lemma find_execution_sync_flag [simp]:
  "find_execution i (w\<lparr>w_sync_connected := b\<rparr>) = find_execution i w"
  by (simp add: find_execution_def)

lemma sbp_other:
  "i \<notin> ex_id ` set exs \<Longrightarrow>
   find_execution i (sync_broker_positions env b exs w) = find_execution i w"
  by (simp add: sync_broker_positions_def Let_def connect_def sync_loop_other
           split: list.splits option.splits)

lemma sbp_trace: "set (w_trace w) \<subseteq> set (w_trace (sync_broker_positions env b exs w))"
proof (cases exs)
  case Nil
  then show ?thesis by (simp add: sync_broker_positions_def)
next
  case (Cons ex0 rest)
  let ?r = "sync_broker_positions env b (ex0 # rest) w"
  have "set (w_trace w) \<subseteq> set (w_trace ?r)"
  proof (cases "e_broker_configs env b")
    case None
    then show ?thesis by (simp add: sync_broker_positions_def)
  next
    case bcS: (Some bc)
    show ?thesis
    proof (cases "e_mt5_password env (ex_user_id ex0) b")
      case None
      then show ?thesis using bcS by (simp add: sync_broker_positions_def)
    next
      case pwS: (Some pw)
      show ?thesis
      proof (cases "pw \<noteq> [] \<and> t_login (e_terminal env) (bc_login bc) pw (bc_server bc)")
        case False
        then show ?thesis
          using bcS pwS
          by (auto simp: sync_broker_positions_def Let_def connect_def
                simp del: sync_loop.simps)
      next
        case True
        let ?w3 = "emit (Broker Call_get_positions)
               ((emit (Broker (Call_connect (bc_login bc) (bc_server bc))) w)
                  \<lparr>w_sync_connected := True\<rparr>)"
        have eq: "?r = sync_loop (e_terminal env) (get_positions (e_terminal env) True)
                    (ex_user_id ex0) (ex0 # rest) ?w3"
          using bcS pwS True
          by (simp add: sync_broker_positions_def Let_def connect_def del: sync_loop.simps)
        have "set (w_trace w) \<subseteq> set (w_trace ?w3)"
          by (auto simp: emit_def)
        then show ?thesis
          unfolding eq
          using sync_loop_trace [of ?w3 "e_terminal env" "get_positions (e_terminal env) True"
                  "ex_user_id ex0" "ex0 # rest"]
          by blast
      qed
    qed
  qed
  then show ?thesis using Cons by simp
qed

lemma sbp_absent:
  assumes grp: "exs = ex0 # rest"
    and bc: "e_broker_configs env b = Some bc"
    and pw: "e_mt5_password env (ex_user_id ex0) b = Some password" "password \<noteq> []"
    and login: "t_login (e_terminal env) (bc_login bc) password (bc_server bc)"
    and tk: "ex_ticket_number ex = Some t" "t \<noteq> 0"
            "lookup_ticket (get_positions (e_terminal env) True) t = None"
    and d: "distinct (map ex_id exs)" and mem: "ex \<in> set exs"
    and row: "find_execution (ex_id ex) w = Some ex"
  shows "(case get_history_deals (e_terminal env) True t of
            Some deal \<Rightarrow>
              find_execution (ex_id ex) (sync_broker_positions env b exs w)
                = Some (closed_by deal ex)
              \<and> Broadcast (Position_closed (ex_id ex) (md_profit deal) (md_price deal))
                   (ex_user_id ex0)
                  \<in> set (w_trace (sync_broker_positions env b exs w))
          | None \<Rightarrow> find_execution (ex_id ex) (sync_broker_positions env b exs w) = Some ex)"
proof -
  let ?w3 = "emit (Broker Call_get_positions)
               ((emit (Broker (Call_connect (bc_login bc) (bc_server bc))) w)
                  \<lparr>w_sync_connected := True\<rparr>)"
  have eq: "sync_broker_positions env b exs w =
          sync_loop (e_terminal env) (get_positions (e_terminal env) True) (ex_user_id ex0) exs ?w3"
    using grp bc pw login
    by (simp add: sync_broker_positions_def Let_def connect_def)
  have row3: "find_execution (ex_id ex) ?w3 = Some ex"
    using row by simp
  have fl: "w_sync_connected ?w3" by simp
  show ?thesis
    unfolding eq by (rule sync_loop_absent [OF tk d mem row3 fl])
qed

lemma group_insert_keys:
  "fst ` set (group_insert e gs) = insert (ex_broker_config_id e) (fst ` set gs)"
  by (induction e gs rule: group_insert.induct) auto

lemma group_insert_distinct:
  "distinct (map fst gs) \<Longrightarrow> distinct (map fst (group_insert e gs))"
proof (induction gs)
  case Nil
  then show ?case by simp
next
  case (Cons g gs)
  obtain b items where g: "g = (b, items)" by (cases g)
  show ?case
    using Cons g group_insert_keys [of e gs] by (auto simp: image_iff)
qed

lemma group_insert_items:
  assumes "\<forall>(b, items)\<in>set gs. items = filter (\<lambda>x. ex_broker_config_id x = b) xs"
    and "\<forall>x\<in>set xs. ex_broker_config_id x \<in> fst ` set gs"
    and "distinct (map fst gs)"
  shows "\<forall>(b, items)\<in>set (group_insert e gs).
           items = filter (\<lambda>x. ex_broker_config_id x = b) (xs @ [e])"
  using assms
proof (induction gs)
  case Nil
  then have "xs = []" by auto
  then show ?case by simp
next
  case (Cons g gs)
  obtain b items where g: "g = (b, items)" by (cases g)
  show ?case
  proof (cases "b = ex_broker_config_id e")
    case True
    have "\<forall>(b', items')\<in>set gs. b' \<noteq> ex_broker_config_id e"
      using Cons.prems(3) g True by (auto simp: image_iff)
    then show ?thesis
      using Cons.prems(1) g True by auto
  next
    case False
    have new: "\<forall>(b', items')\<in>set (group_insert e gs).
            b' \<noteq> ex_broker_config_id e \<longrightarrow> (b', items') \<in> set gs"
    proof (induction gs)
      case Nil then show ?case by simp
    next
      case (Cons h hs) then show ?case by (cases h) auto
    qed
    have fresh: "\<forall>(b', items')\<in>set (group_insert e gs).
            b' = ex_broker_config_id e \<longrightarrow>
              items' = filter (\<lambda>x. ex_broker_config_id x = b') (xs @ [e])"
    proof (cases "ex_broker_config_id e \<in> fst ` set gs")
      case True
      have "\<forall>(b', items')\<in>set hs. items' = filter (\<lambda>x. ex_broker_config_id x = b') xs \<Longrightarrow>
            distinct (map fst hs) \<Longrightarrow> ex_broker_config_id e \<in> fst ` set hs \<Longrightarrow>
            \<forall>(b', items')\<in>set (group_insert e hs). b' = ex_broker_config_id e \<longrightarrow>
              items' = filter (\<lambda>x. ex_broker_config_id x = b') (xs @ [e])" for hs
      proof (induction hs)
        case Nil then show ?case by simp
      next
        case (Cons h hs)
        obtain c cs where h: "h = (c, cs)" by (cases h)
        show ?case
        proof (cases "c = ex_broker_config_id e")
          case True
          then show ?thesis using Cons.prems h by (auto simp: image_iff)
        next
          case False
          then show ?thesis using Cons h by (auto simp: image_iff)
        qed
      qed
      then show ?thesis
        using Cons.prems g True by auto
    next
      case False
      have "\<forall>x\<in>set xs. ex_broker_config_id x \<noteq> ex_broker_config_id e"
      proof
        fix x assume "x \<in> set xs"
        then have "ex_broker_config_id x \<in> fst ` set (g # gs)"
          using Cons.prems(2) by blast
        then have "ex_broker_config_id x = b \<or> ex_broker_config_id x \<in> fst ` set gs"
          using g by simp
        then show "ex_broker_config_id x \<noteq> ex_broker_config_id e"
          using \<open>b \<noteq> ex_broker_config_id e\<close> False by metis
      qed
      then have nokey: "filter (\<lambda>x. ex_broker_config_id x = ex_broker_config_id e) xs = []"
        by (simp add: filter_empty_conv)
      have "ex_broker_config_id e \<notin> fst ` set hs \<Longrightarrow>
            \<forall>(b', items')\<in>set (group_insert e hs). b' = ex_broker_config_id e \<longrightarrow>
              items' = [e]" for hs
      proof (induction hs)
        case Nil then show ?case by simp
      next
        case (Cons h hs) then show ?case by (cases h) auto
      qed
      then show ?thesis
        using False nokey by auto
    qed
    have old: "\<forall>(b', items')\<in>set gs. b' \<noteq> ex_broker_config_id e \<longrightarrow>
            items' = filter (\<lambda>x. ex_broker_config_id x = b') (xs @ [e])"
      using Cons.prems(1) by auto
    have "\<forall>(b', items')\<in>set (group_insert e gs).
            items' = filter (\<lambda>x. ex_broker_config_id x = b') (xs @ [e])"
      using new fresh old by blast
    then show ?thesis
      using Cons.prems(1) g False by auto
  qed
qed

lemma group_by_broker_snoc:
  "group_by_broker (xs @ [e]) = group_insert e (group_by_broker xs)"
  by (simp add: group_by_broker_def)

lemma group_by_broker_inv:
  "(\<forall>(b, items)\<in>set (group_by_broker xs). items = filter (\<lambda>x. ex_broker_config_id x = b) xs)
   \<and> (\<forall>x\<in>set xs. ex_broker_config_id x \<in> fst ` set (group_by_broker xs))
   \<and> distinct (map fst (group_by_broker xs))"
proof (induction xs rule: rev_induct)
  case Nil
  then show ?case by (simp add: group_by_broker_def)
next
  case (snoc e xs)
  show ?case
    unfolding group_by_broker_snoc
    using group_insert_items [of "group_by_broker xs" xs e] group_insert_distinct
      group_insert_keys [of e "group_by_broker xs"] snoc
    by auto
qed

lemma closure_mono:
  assumes "closure_outcome term t u ex w1"
    and "find_execution (ex_id ex) w2 = find_execution (ex_id ex) w1"
    and "set (w_trace w1) \<subseteq> set (w_trace w2)"
  shows "closure_outcome term t u ex w2"
  using assms by (auto simp: closure_outcome_def split: option.splits)

lemma sync_groups_other:
  "\<forall>(b, items)\<in>set gs. i \<notin> ex_id ` set items \<Longrightarrow>
   find_execution i (sync_groups env gs w) = find_execution i w"
proof (induction gs arbitrary: w)
  case Nil
  then show ?case by simp
next
  case (Cons g gs)
  obtain b items where g: "g = (b, items)" by (cases g)
  have "find_execution i (sync_broker_positions env b items w) = find_execution i w"
    using Cons.prems g by (intro sbp_other) auto
  moreover have "find_execution i (sync_groups env gs (sync_broker_positions env b items w)) =
                 find_execution i (sync_broker_positions env b items w)"
    using Cons.prems by (intro Cons.IH) auto
  ultimately show ?case using g by simp
qed

lemma sync_groups_trace: "set (w_trace w) \<subseteq> set (w_trace (sync_groups env gs w))"
proof (induction gs arbitrary: w)
  case Nil
  then show ?case by simp
next
  case (Cons g gs)
  obtain b items where g: "g = (b, items)" by (cases g)
  show ?case
    using sbp_trace [of w env b items] Cons.IH [of "sync_broker_positions env b items w"] g
    by auto
qed

lemma sync_groups_absent:
  assumes grp: "items = ex0 # rest"
    and bc: "e_broker_configs env b = Some bc"
    and pw: "e_mt5_password env (ex_user_id ex0) b = Some password" "password \<noteq> []"
    and login: "t_login (e_terminal env) (bc_login bc) password (bc_server bc)"
    and tk: "ex_ticket_number ex = Some t" "t \<noteq> 0"
            "lookup_ticket (get_positions (e_terminal env) True) t = None"
    and d: "distinct (map ex_id items)" and mem: "ex \<in> set items"
    and key: "(b, items) \<in> set gs" and dk: "distinct (map fst gs)"
    and others: "\<forall>(b', items')\<in>set gs. b' \<noteq> b \<longrightarrow> ex_id ex \<notin> ex_id ` set items'"
    and row: "find_execution (ex_id ex) w = Some ex"
  shows "closure_outcome (e_terminal env) t (ex_user_id ex0) ex (sync_groups env gs w)"
  using key dk others row
proof (induction gs arbitrary: w)
  case Nil
  then show ?case by simp
next
  case (Cons g gs)
  obtain b0 items0 where g: "g = (b0, items0)" by (cases g)
  let ?w1 = "sync_broker_positions env b0 items0 w"
  show ?case
  proof (cases "b0 = b")
    case True
    have notin: "b \<notin> fst ` set gs"
      using Cons.prems(2) g True by auto
    then have "(b, items) \<notin> set gs" by (auto simp: image_iff)
    then have it: "items0 = items"
      using Cons.prems(1) g True by auto
    have step: "closure_outcome (e_terminal env) t (ex_user_id ex0) ex
                  (sync_broker_positions env b items w)"
      unfolding closure_outcome_def
      by (rule sbp_absent [OF grp bc pw login tk d mem Cons.prems(4)])
    have rest_other: "\<forall>(b', items')\<in>set gs. ex_id ex \<notin> ex_id ` set items'"
    proof (intro ballI, clarify)
      fix b' items' x
      assume in_gs: "(b', items') \<in> set gs" and x: "x \<in> set items'" and eq: "ex_id ex = ex_id x"
      have "b' \<noteq> b" using in_gs notin by (auto simp: image_iff)
      moreover have "(b', items') \<in> set (g # gs)" using in_gs by simp
      ultimately have "ex_id ex \<notin> ex_id ` set items'"
        using Cons.prems(3) by blast
      then show False using x eq by blast
    qed
    have "closure_outcome (e_terminal env) t (ex_user_id ex0) ex
            (sync_groups env gs (sync_broker_positions env b items w))"
      using closure_mono [OF step sync_groups_other [OF rest_other] sync_groups_trace] .
    then show ?thesis using g True it by simp
  next
    case False
    have k: "(b, items) \<in> set gs" using Cons.prems(1) g False by auto
    have dk': "distinct (map fst gs)" using Cons.prems(2) by simp
    have o': "\<forall>(b', items')\<in>set gs. b' \<noteq> b \<longrightarrow> ex_id ex \<notin> ex_id ` set items'"
      using Cons.prems(3) by auto
    have "ex_id ex \<notin> ex_id ` set items0"
      using Cons.prems(3) g False by auto
    then have row1: "find_execution (ex_id ex) ?w1 = Some ex"
      using sbp_other [of "ex_id ex" items0 env b0 w] Cons.prems(4) by simp
    show ?thesis
      using Cons.IH [OF k dk' o' row1] g by simp
  qed
qed

lemma get_history_deals_closing:
  assumes "t_history_deals_get term t = Some deals" "d \<in> set deals" "md_entry d = DEAL_ENTRY_OUT"
  shows "\<exists>deal. get_history_deals term True t = Some deal \<and> deal \<in> set deals
            \<and> md_entry deal = DEAL_ENTRY_OUT"
proof -
  have ne: "deals \<noteq> []" using assms(2) by auto
  have "find (\<lambda>d. md_entry d = DEAL_ENTRY_OUT) (rev deals) \<noteq> None"
    using assms(2,3) by (auto simp: find_None_iff)
  then obtain deal where f: "find (\<lambda>d. md_entry d = DEAL_ENTRY_OUT) (rev deals) = Some deal"
    by blast
  then have "deal \<in> set deals \<and> md_entry deal = DEAL_ENTRY_OUT"
    using find_Some_mem [OF f] by simp
  moreover have "get_history_deals term True t = Some deal"
    using assms(1) ne f by (simp add: get_history_deals_def)
  ultimately show ?thesis by blast
qed

text \<open>
  C7. In one synchronizer pass over a store with distinct identifiers: an execution that is
  not in state EXECUTED is left exactly as it was; and for an execution in state EXECUTED
  with a ticket \<open>t\<close> (truthy, so not 0) that is absent from the broker's open positions,
  when the pass obtains the session of its broker account: if \<open>get_history_deals\<close> returns
  a deal, the execution becomes CLOSED with \<open>close_price = deal.price\<close>,
  \<open>profit_loss = deal.profit\<close> and \<open>close_time = deal.time\<close> (\<open>closed_by\<close>) and a
  \<^verbatim>\<open>position_closed\<close> event is in the trace; if no deal is returned, the execution is
  left unchanged. By \<open>get_history_deals_closing\<close>, the returned deal is a closing deal
  whenever the position's history has one.
\<close>

theorem sync_pass_closes_absent_positions:
  assumes ids: "distinct (map ex_id (w_executions w))"
    and mem: "ex \<in> set (w_executions w)"
  shows "(ex_execution_status ex \<noteq> EXECUTED \<longrightarrow>
            find_execution (ex_id ex) (sync_all_active_positions env w) = Some ex)
       \<and> (ex_execution_status ex = EXECUTED \<and> ex_ticket_number ex = Some t \<and> t \<noteq> 0
            \<and> broker_session_ok env w (ex_broker_config_id ex)
            \<and> lookup_ticket (get_positions (e_terminal env) True) t = None \<longrightarrow>
          (case get_history_deals (e_terminal env) True t of
             Some deal \<Rightarrow>
               find_execution (ex_id ex) (sync_all_active_positions env w)
                 = Some (closed_by deal ex)
               \<and> Broadcast (Position_closed (ex_id ex) (md_profit deal) (md_price deal))
                    (session_user w (ex_broker_config_id ex))
                   \<in> set (w_trace (sync_all_active_positions env w))
           | None \<Rightarrow>
               find_execution (ex_id ex) (sync_all_active_positions env w) = Some ex))"
proof -
  let ?active = "filter (\<lambda>e. ex_execution_status e = EXECUTED) (w_executions w)"
  let ?gs = "group_by_broker ?active"
  have row: "find_execution (ex_id ex) w = Some ex"
    using find_execution_mem [OF ids mem] by (simp add: find_execution_def)
  have items: "\<forall>(b, items)\<in>set ?gs. items = filter (\<lambda>x. ex_broker_config_id x = b) ?active"
    and keys: "\<forall>x\<in>set ?active. ex_broker_config_id x \<in> fst ` set ?gs"
    and dk: "distinct (map fst ?gs)"
    using group_by_broker_inv [of ?active] by blast+
  have sub: "\<And>b its x. (b, its) \<in> set ?gs \<Longrightarrow> x \<in> set its \<Longrightarrow>
               x \<in> set (w_executions w) \<and> ex_execution_status x = EXECUTED
               \<and> ex_broker_config_id x = b"
    using items by fastforce
  have A: "find_execution (ex_id ex) (sync_all_active_positions env w) = Some ex"
    if ne: "ex_execution_status ex \<noteq> EXECUTED"
  proof (cases "?active = []")
    case True
    then show ?thesis using row by (simp add: sync_all_active_positions_def)
  next
    case False
    have "\<forall>(b, its)\<in>set ?gs. ex_id ex \<notin> ex_id ` set its"
    proof (intro ballI, clarify)
      fix b its x
      assume g: "(b, its) \<in> set ?gs" and x: "x \<in> set its" and eq: "ex_id ex = ex_id x"
      have "x \<in> set (w_executions w)" "ex_execution_status x = EXECUTED"
        using sub [OF g x] by simp_all
      then show False
        using distinct_ids_eq [OF ids mem _ eq] ne by auto
    qed
    from sync_groups_other [OF this, of env w] show ?thesis
      using False row by (simp add: sync_all_active_positions_def Let_def)
  qed
  have B: "closure_outcome (e_terminal env) t (session_user w (ex_broker_config_id ex)) ex
             (sync_all_active_positions env w)"
    if st: "ex_execution_status ex = EXECUTED" and tk: "ex_ticket_number ex = Some t" "t \<noteq> 0"
      and ok: "broker_session_ok env w (ex_broker_config_id ex)"
      and absent: "lookup_ticket (get_positions (e_terminal env) True) t = None"
  proof -
    let ?b = "ex_broker_config_id ex"
    let ?items = "filter (\<lambda>x. ex_broker_config_id x = ?b) ?active"
    have act: "ex \<in> set ?active" using mem st by simp
    then have ne: "?active \<noteq> []" by (metis empty_iff list.set(1))
    have "?b \<in> fst ` set ?gs" using keys act by blast
    then obtain its where "(?b, its) \<in> set ?gs" by (auto simp: image_iff)
    then have key: "(?b, ?items) \<in> set ?gs" using items by fastforce
    have mem_items: "ex \<in> set ?items" using act by simp
    have d: "distinct (map ex_id ?items)"
      using ids by (simp add: distinct_map_filter)
    have "?items \<noteq> []" using mem_items by (metis empty_iff list.set(1))
    then obtain ex0 rest where grp: "?items = ex0 # rest"
      by (meson neq_Nil_conv)
    obtain bc password where bc: "e_broker_configs env ?b = Some bc"
      and pw: "e_mt5_password env (ex_user_id ex0) ?b = Some password" "password \<noteq> []"
      and login: "t_login (e_terminal env) (bc_login bc) password (bc_server bc)"
      using ok grp by (auto simp: broker_session_ok_def split: option.splits)
    have su: "session_user w ?b = ex_user_id ex0"
      using grp by (simp add: session_user_def)
    have others: "\<forall>(b', items')\<in>set ?gs. b' \<noteq> ?b \<longrightarrow> ex_id ex \<notin> ex_id ` set items'"
    proof (intro ballI, clarify)
      fix b' its x
      assume g: "(b', its) \<in> set ?gs" and nb: "b' \<noteq> ?b" and x: "x \<in> set its"
        and eq: "ex_id ex = ex_id x"
      have "x \<in> set (w_executions w)" "ex_broker_config_id x = b'"
        using sub [OF g x] by simp_all
      then show False
        using distinct_ids_eq [OF ids mem _ eq] nb by auto
    qed
    have "closure_outcome (e_terminal env) t (ex_user_id ex0) ex (sync_groups env ?gs w)"
      by (rule sync_groups_absent [OF grp bc pw login tk absent d mem_items key dk others row])
    then show ?thesis
      using ne su by (simp add: sync_all_active_positions_def Let_def)
  qed
  show ?thesis
    using A B unfolding closure_outcome_def by blast
qed

theorem sync_pass_closes_absent_positions_witness:
  "find_execution 0 (sync_all_active_positions (demo_env demo_sync_terminal None)
       (demo_world [demo_open_execution]))
     = Some (closed_by demo_closing_deal demo_open_execution)
   \<and> Broadcast (Position_closed 0 (425 / 10) (1123 / 1000)) 7
       \<in> set (w_trace (sync_all_active_positions (demo_env demo_sync_terminal None)
                 (demo_world [demo_open_execution])))"
proof -
  let ?env = "demo_env demo_sync_terminal None"
  let ?w = "demo_world [demo_open_execution]"
  have ids: "distinct (map ex_id (w_executions ?w))"
    by (simp add: demo_world_def)
  have mem: "demo_open_execution \<in> set (w_executions ?w)"
    by (simp add: demo_world_def)
  have st: "ex_execution_status demo_open_execution = EXECUTED"
    "ex_ticket_number demo_open_execution = Some 1001" "ex_id demo_open_execution = 0"
    by (simp_all add: demo_open_execution_def demo_execution_def)
  have ok: "broker_session_ok ?env ?w (ex_broker_config_id demo_open_execution)"
    by code_simp
  have su: "session_user ?w (ex_broker_config_id demo_open_execution) = 7"
    by code_simp
  have absent: "lookup_ticket (get_positions (e_terminal ?env) True) 1001 = None"
    by code_simp
  have deal: "get_history_deals (e_terminal ?env) True 1001 = Some demo_closing_deal"
    by code_simp
  have vals: "md_profit demo_closing_deal = 425 / 10" "md_price demo_closing_deal = 1123 / 1000"
    by (simp_all add: demo_closing_deal_def)
  show ?thesis
    using sync_pass_closes_absent_positions [OF ids mem, where env = ?env and t = 1001]
      st ok su absent deal vals
    by simp
qed

subsection \<open>The classifier and the parser\<close>

lemma extract_entry_error:
  "extract_entry message_lower prices0 = Inl e \<Longrightarrow> e = zero_division_text"
  unfolding extract_entry_def Let_def
  by (auto split: option.splits if_splits sum.splits)

lemma extract_prices_error:
  "extract_prices message_text = Inl e \<Longrightarrow> e = zero_division_text"
  unfolding extract_prices_def Let_def
  by (auto split: sum.splits dest: extract_entry_error)

lemma classify_message_cases:
  "fst (classify_message syms message_text) = ''commentary''
   \<or> fst (classify_message syms message_text) = ''modification''
   \<or> (fst (classify_message syms message_text) = ''actionable_signal''
      \<and> extract_symbol syms message_text \<noteq> None \<and> has_price_structure message_text)"
  unfolding classify_message_def Let_def
  by (simp split: option.splits prod.splits)

lemma parse_signal_heuristic:
  "parse_signal syms None message_text = error_response zero_division_text
   \<or> (ps_symbol (pm_signal (parse_signal syms None message_text))
        = extract_symbol syms message_text
      \<and> pm_parsing_method (parse_signal syms None message_text) = ''heuristic''
      \<and> pm_message_category (parse_signal syms None message_text)
        = Some (fst (classify_message syms message_text))
      \<and> pm_is_actionable (parse_signal syms None message_text)
        = Some (fst (classify_message syms message_text) = ''actionable_signal''))"
proof (cases "extract_prices message_text")
  case (Inl e)
  then have "e = zero_division_text"
    by (rule extract_prices_error)
  with Inl show ?thesis
    by (simp add: parse_signal_def parse_with_heuristics_def Let_def)
next
  case (Inr prices)
  then show ?thesis
    by (simp add: parse_signal_def parse_with_heuristics_def Let_def)
qed

text \<open>
  C8, as the code has it. For every text and every iteration order \<open>syms\<close> of the symbol
  set, the category the classifier returns is one of actionable_signal, modification and
  commentary. Whenever it is actionable_signal, a symbol is found in the text and the text
  passes the pattern test of \<^verbatim>\<open>_has_price_structure\<close>; and the heuristic parser either ends
  in the error response of a division by zero, or returns a record whose symbol is the one
  found, hence non-null, with the category actionable_signal and the flag is_actionable.
  Nothing is guaranteed about the entry price, the entry range, the stop loss or the take
  profits of that record.
\<close>

theorem classifier_categories_and_actionable_symbol:
  "(fst (classify_message syms message_text) = ''actionable_signal''
    \<or> fst (classify_message syms message_text) = ''modification''
    \<or> fst (classify_message syms message_text) = ''commentary'')
   \<and> (fst (classify_message syms message_text) = ''actionable_signal'' \<longrightarrow>
        extract_symbol syms message_text \<noteq> None
        \<and> has_price_structure message_text
        \<and> (parse_signal syms None message_text = error_response zero_division_text
           \<or> (ps_symbol (pm_signal (parse_signal syms None message_text))
                = extract_symbol syms message_text
              \<and> ps_symbol (pm_signal (parse_signal syms None message_text)) \<noteq> None
              \<and> pm_message_category (parse_signal syms None message_text)
                = Some ''actionable_signal''
              \<and> pm_is_actionable (parse_signal syms None message_text) = Some True)))"
proof -
  let ?c = "fst (classify_message syms message_text)"
  have cases: "?c = ''commentary'' \<or> ?c = ''modification''
      \<or> (?c = ''actionable_signal'' \<and> extract_symbol syms message_text \<noteq> None
         \<and> has_price_structure message_text)"
    by (rule classify_message_cases)
  have first: "?c = ''actionable_signal'' \<or> ?c = ''modification'' \<or> ?c = ''commentary''"
    using cases by blast
  have second: "extract_symbol syms message_text \<noteq> None \<and> has_price_structure message_text"
    if "?c = ''actionable_signal''"
    using cases that by auto
  have third: "parse_signal syms None message_text = error_response zero_division_text
      \<or> (ps_symbol (pm_signal (parse_signal syms None message_text))
           = extract_symbol syms message_text
         \<and> ps_symbol (pm_signal (parse_signal syms None message_text)) \<noteq> None
         \<and> pm_message_category (parse_signal syms None message_text)
           = Some ''actionable_signal''
         \<and> pm_is_actionable (parse_signal syms None message_text) = Some True)"
    if act: "?c = ''actionable_signal''"
    using parse_signal_heuristic [of syms message_text] second [OF act] act by auto
  show ?thesis
    using first second third by blast
qed

theorem classifier_categories_and_actionable_symbol_witness:
  "fst (classify_message common_symbols demo_range_message) = ''actionable_signal''
   \<and> extract_symbol common_symbols demo_range_message = Some ''BTC''
   \<and> has_price_structure demo_range_message
   \<and> ps_symbol (pm_signal (parse_signal common_symbols None demo_range_message)) = Some ''BTC''
   \<and> ps_entry_range (pm_signal (parse_signal common_symbols None demo_range_message))
     = [50, 60]
   \<and> pm_is_actionable (parse_signal common_symbols None demo_range_message) = Some True"
proof -
  have act: "fst (classify_message common_symbols demo_range_message) = ''actionable_signal''"
    by code_simp
  have result: "parse_signal common_symbols None demo_range_message =
     \<lparr>pm_signal =
        \<lparr>ps_symbol = Some ''BTC'', ps_signal_type = None, ps_entry_price = Some 50,
         ps_entry_range = [50, 60], ps_stop_loss = Some 45, ps_take_profit = None,
         ps_take_profits = [],
         ps_confidence_score = Conf (2679641778285445 / 4503599627370496)\<rparr>,
      pm_parsing_method = ''heuristic'', pm_valid = False, pm_error = None,
      pm_message_category = Some ''actionable_signal'', pm_modification_type = None,
      pm_is_actionable = Some True\<rparr>"
    by code_simp
  have no_error: "parse_signal common_symbols None demo_range_message
      \<noteq> error_response zero_division_text"
    unfolding result by (simp add: error_response_def)
  have fields: "ps_symbol (pm_signal (parse_signal common_symbols None demo_range_message))
        = Some ''BTC''
      \<and> ps_entry_range (pm_signal (parse_signal common_symbols None demo_range_message))
        = [50, 60]"
    unfolding result by simp
  show ?thesis
    using classifier_categories_and_actionable_symbol [of common_symbols demo_range_message]
      act no_error fields
    by auto
qed

text \<open>
  The message \<^verbatim>\<open>BTC 1-3 sl 3.5\<close> is classified actionable_signal: it names a symbol,
  \<^verbatim>\<open>1-3\<close> has the shape of a range and \<^verbatim>\<open>sl 3.5\<close> that of a stop loss. The extractor drops
  the range, whose ends are not within a factor of two, finds no entry keyword and no number
  above 10, and the record returned has neither an entry price nor an entry range.
\<close>

theorem actionable_without_entry_counterexample:
  "fst (classify_message common_symbols demo_wide_range_message) = ''actionable_signal''
   \<and> parse_signal common_symbols None demo_wide_range_message =
     \<lparr>pm_signal =
        \<lparr>ps_symbol = Some ''BTC'', ps_signal_type = None, ps_entry_price = None,
         ps_entry_range = [], ps_stop_loss = Some (7 / 2), ps_take_profit = None,
         ps_take_profits = [],
         ps_confidence_score = Conf (1182194902184755 / 2251799813685248)\<rparr>,
      pm_parsing_method = ''heuristic'', pm_valid = False, pm_error = None,
      pm_message_category = Some ''actionable_signal'', pm_modification_type = None,
      pm_is_actionable = Some True\<rparr>"
  by code_simp

text \<open>
  The message \<^verbatim>\<open>BTC 1-0 sl 3.5\<close> is classified actionable_signal as well; its range ends
  at zero, the ratio of its ends raises ZeroDivisionError, and the parser returns the error
  response, whose symbol is null and which carries no category.
\<close>

lemma zero_range_message_gives_error_response:
  "fst (classify_message common_symbols demo_zero_range_message) = ''actionable_signal''
   \<and> parse_signal common_symbols None demo_zero_range_message
     = error_response zero_division_text"
  by code_simp

end
